theory Spec2Isabelle
  imports Main "HOL-Library.Word"
begin

section \<open>The intermediate representation consumed by the backend\<close>

text \<open>
  The lowering in \<^verbatim>\<open>src/backend/llvm/llvm_backend.cpp\<close> walks a typed IR and drives an
  LLVM instruction builder. The IR classes are declared in headers that are read here
  only through the accessors the backend calls; they are modelled as datatypes whose
  selectors carry the accessors' names.
\<close>

datatype ScalarKind = SInt | SFloat | SBoolean

text \<open>
  An index set is a compile-time range, a runtime set (given by an IR expression), a
  single index or a dynamic set. The expression type is a parameter, since expressions
  mention types and types mention expressions.
\<close>

datatype 'e IndexSet = RangeIS nat | SetIS 'e | SingleIS | DynamicIS

type_synonym 'e IndexDomain = "'e IndexSet list"

text \<open>
  Modelled from the spec: \<^verbatim>\<open>TensorType::getBlockType\<close> is declared in types.h, which is
  not part of the sources. The spec's data model gives a tensor type a block type; the
  field \<open>blockOf\<close> holds it, and \<open>None\<close> stands for a tensor that is not
  block-structured, whose block type is the scalar of its component type.
\<close>

datatype 'e TensorType =
  TensorType (componentType: ScalarKind) (getDimensions: "'e IndexDomain list")
    (blockOf: "'e TensorType option") (isColumnVector: bool)

definition order :: "'e TensorType \<Rightarrow> nat" where
  "order t = length (getDimensions t)"

definition getBlockType :: "'e TensorType \<Rightarrow> 'e TensorType" where
  "getBlockType t =
     (case blockOf t of None \<Rightarrow> TensorType (componentType t) [] None False | Some bt \<Rightarrow> bt)"

datatype 'e ElementType = ElementType (elemName: string) (elemFields: "(string \<times> 'e TensorType) list")

datatype 'e SetType = SetType (elementType: "'e ElementType") (endpointSets: "'e list")

datatype 'e Type = Tensor "'e TensorType" | Element "'e ElementType" | SetT "'e SetType" | Tuple

datatype 'e Var = Var (getName: string) (getType: "'e Type")

datatype 'e TensorStorage =
  Undefined | DenseRowMajor | SystemNone | SystemReduced 'e 'e | SystemDiagonal 'e 'e

datatype CompoundOperator = CopNone | CopAdd

text \<open>
  Expressions. Every IR node stores its type (\<^verbatim>\<open>expr.type()\<close>); \<open>type_of\<close> reads it.
  A literal owns a byte buffer (\<^verbatim>\<open>void *data\<close>). The fragment leaves out
  \<^verbatim>\<open>ir::Call\<close> and \<^verbatim>\<open>ir::TensorIndexRead\<close>.
\<close>

datatype Expr =
    Literal (type_of: "Expr Type") "8 word list"
  | VarExpr (type_of: "Expr Type") "Expr Var"
  | Load (type_of: "Expr Type") Expr Expr
  | FieldRead (type_of: "Expr Type") Expr string
  | Length (type_of: "Expr Type") "Expr IndexSet"
  | IndexRead (type_of: "Expr Type") Expr nat
  | Neg (type_of: "Expr Type") Expr
  | Add (type_of: "Expr Type") Expr Expr
  | Sub (type_of: "Expr Type") Expr Expr
  | Mul (type_of: "Expr Type") Expr Expr
  | Div (type_of: "Expr Type") Expr Expr
  | Not (type_of: "Expr Type") Expr
  | Eq (type_of: "Expr Type") Expr Expr
  | Ne (type_of: "Expr Type") Expr Expr
  | Gt (type_of: "Expr Type") Expr Expr
  | Lt (type_of: "Expr Type") Expr Expr
  | Ge (type_of: "Expr Type") Expr Expr
  | Le (type_of: "Expr Type") Expr Expr
  | And (type_of: "Expr Type") Expr Expr
  | Or (type_of: "Expr Type") Expr Expr
  | Xor (type_of: "Expr Type") Expr Expr

fun isTensor :: "'e Type \<Rightarrow> bool" where
  "isTensor (Tensor t) = True"
| "isTensor other = False"

fun isScalar :: "'e Type \<Rightarrow> bool" where
  "isScalar (Tensor t) = (order t = 0)"
| "isScalar other = False"

fun isBoolean :: "'e Type \<Rightarrow> bool" where
  "isBoolean (Tensor t) = (order t = 0 \<and> componentType t = SBoolean)"
| "isBoolean other = False"


section \<open>The LLVM side: values, instructions, builder state\<close>

datatype ltype = LInt nat | LFloat | LDouble | LPtr ltype | LStruct "ltype list" | LVoid

text \<open>
  An \<^verbatim>\<open>llvm::Value*\<close> is a constant, a module global, a function argument or the result
  of an instruction (a numbered register). Each value knows its type. Value names are
  cosmetic and are not kept; a module global is identified by its position in the
  module's list of globals (LLVM renames a global whose name is taken, so that two
  globals are never the same value).
\<close>

datatype operand =
    ConstInt32 "32 word"
  | ConstInt8 "8 word"
  | ConstBool bool
  | ConstFP "8 word list"
  | ConstData ltype "8 word list"
  | GlobalVar nat ltype
  | GlobalString string
  | Argument nat ltype
  | Reg nat ltype

fun typeOf :: "operand \<Rightarrow> ltype" where
  "typeOf (ConstInt32 w) = LInt 32"
| "typeOf (ConstInt8 w) = LInt 8"
| "typeOf (ConstBool c) = LInt 1"
| "typeOf (ConstFP bs) = (if length bs = 4 then LFloat else LDouble)"
| "typeOf (ConstData ty bs) = ty"
| "typeOf (GlobalVar n ty) = ty"
| "typeOf (GlobalString s) = LPtr (LInt 8)"
| "typeOf (Argument i ty) = ty"
| "typeOf (Reg r ty) = ty"

fun isPointerTy :: "ltype \<Rightarrow> bool" where
  "isPointerTy (LPtr t) = True"
| "isPointerTy other = False"

fun pointee :: "ltype \<Rightarrow> ltype" where
  "pointee (LPtr t) = t"
| "pointee other = LVoid"

fun memberTy :: "ltype \<Rightarrow> nat \<Rightarrow> ltype" where
  "memberTy (LStruct ts) i = (if i < length ts then ts ! i else LVoid)"
| "memberTy other i = LVoid"

datatype binop = BAdd | BSub | BMul | BSRem | BFAdd | BFSub | BFMul | BFDiv | BAnd | BOr | BXor

datatype unop = UNeg | UFNeg | UNot

datatype pred = EQ | NE | SGT | SLT | SGE | SLE | OEQ | ONE | OGT | OLT | OGE | OLE

datatype instr =
    ILoad nat operand
  | IStore operand operand
  | IExtractValue nat operand nat
  | IGEP nat operand operand
  | IBin nat binop operand operand
  | IUn nat unop operand
  | ICmp nat pred operand operand
  | ICast nat operand ltype
  | IAlloca nat ltype
  | IPhi nat "(operand \<times> nat) list"
  | ICall "nat option" string "operand list"
  | IMemSet operand operand operand nat
  | IMemCpy operand operand operand nat
  | IBr nat
  | ICondBr operand nat nat
  | IRetVoid

text \<open>
  The error macros (\<^verbatim>\<open>iassert\<close>, \<^verbatim>\<open>ierror\<close>, \<^verbatim>\<open>tassert\<close>, \<^verbatim>\<open>uassert\<close>,
  \<^verbatim>\<open>not_supported_yet\<close>, \<^verbatim>\<open>unreachable\<close>) come from a header outside the sources.
  Modelled from the spec: a fatal internal error and a reportable error both stop the
  lowering of the unit; each is a value of \<open>error\<close> carrying the macro's message.
  \<open>UndefinedBehaviour\<close> marks what C++ leaves undefined (an index past the end of a
  vector, \<^verbatim>\<open>back()\<close> of an empty string).
\<close>

datatype error =
    Internal string
  | NotSupportedYet string
  | UserError string
  | TemporaryAssert string
  | Unreachable
  | UndefinedBehaviour string

text \<open>
  The state of one \<^verbatim>\<open>LLVMBackend\<close>: the basic blocks of the module under
  construction (by number), the builder's insert point, the next free register, the
  scoped symbol table, the buffer registry, the merged storage map, the set of globals,
  the functions the module holds, and the floating-point width
  (\<^verbatim>\<open>ScalarType::floatBytes\<close>).

  Modelled from the spec: the symbol table class is outside the sources; it is a stack
  of scopes, innermost first; \<open>insert\<close> adds to the innermost scope, \<open>get\<close> and
  \<open>contains\<close> search innermost to outermost, \<open>scope\<close> and \<open>unscope\<close> push and pop.
  The buffer registry is a \<^verbatim>\<open>std::map\<close>: it holds one handle per variable, and an
  insert for a variable it already holds changes nothing. It is kept as an association
  list with distinct keys. A \<^verbatim>\<open>std::map\<close> is iterated in the order of its keys; the
  list is iterated in the order of insertion, and nothing proved below depends on the
  order.
\<close>

record backend =
  blocks :: "nat \<Rightarrow> instr list"
  numBlocks :: nat
  insertBlock :: nat
  nextReg :: nat
  symtable :: "(Expr Var \<rightharpoonup> operand) list"
  buffers :: "(Expr Var \<times> operand) list"
  storage :: "Expr Var \<rightharpoonup> Expr TensorStorage"
  globals :: "Expr Var list"
  moduleFunctions :: "(string \<times> nat option) list"
  moduleGlobals :: "(string \<times> ltype) list"
  floatBytes :: nat

type_synonym 'a emitter = "backend \<Rightarrow> error + 'a \<times> backend"

definition ret :: "'a \<Rightarrow> 'a emitter" where
  "ret x = (\<lambda>b. Inr (x, b))"

definition fail :: "error \<Rightarrow> 'a emitter" where
  "fail e = (\<lambda>b. Inl e)"

definition bind :: "'a emitter \<Rightarrow> ('a \<Rightarrow> 'b emitter) \<Rightarrow> 'b emitter" where
  "bind m f = (\<lambda>b. case m b of Inl e \<Rightarrow> Inl e | Inr (x, b') \<Rightarrow> f x b')"

definition andThen :: "'a emitter \<Rightarrow> 'b emitter \<Rightarrow> 'b emitter" where
  "andThen m k = bind m (\<lambda>x. k)"

definition iassert :: "bool \<Rightarrow> string \<Rightarrow> unit emitter" where
  "iassert c msg = (if c then ret () else fail (Internal msg))"

definition gets :: "(backend \<Rightarrow> 'a) \<Rightarrow> 'a emitter" where
  "gets f = (\<lambda>b. Inr (f b, b))"

definition modify :: "(backend \<Rightarrow> backend) \<Rightarrow> unit emitter" where
  "modify f = (\<lambda>b. Inr ((), f b))"

subsection \<open>Symbol table\<close>

fun symtable_get :: "('k \<rightharpoonup> 'v) list \<Rightarrow> 'k \<Rightarrow> 'v option" where
  "symtable_get [] k = None"
| "symtable_get (s # ss) k = (case s k of Some v \<Rightarrow> Some v | None \<Rightarrow> symtable_get ss k)"

definition symtable_contains :: "('k \<rightharpoonup> 'v) list \<Rightarrow> 'k \<Rightarrow> bool" where
  "symtable_contains ss k = (symtable_get ss k \<noteq> None)"

fun symtable_insert :: "'k \<Rightarrow> 'v \<Rightarrow> ('k \<rightharpoonup> 'v) list \<Rightarrow> ('k \<rightharpoonup> 'v) list" where
  "symtable_insert k v [] = [[k \<mapsto> v]]"
| "symtable_insert k v (s # ss) = s(k \<mapsto> v) # ss"

definition scope :: "unit emitter" where
  "scope = modify (\<lambda>b. b\<lparr>symtable := Map.empty # symtable b\<rparr>)"

definition unscope :: "unit emitter" where
  "unscope = modify (\<lambda>b. b\<lparr>symtable := tl (symtable b)\<rparr>)"

definition insertSym :: "Expr Var \<Rightarrow> operand \<Rightarrow> unit emitter" where
  "insertSym v x = modify (\<lambda>b. b\<lparr>symtable := symtable_insert v x (symtable b)\<rparr>)"

definition getSym :: "Expr Var \<Rightarrow> operand emitter" where
  "getSym v = (\<lambda>b. case symtable_get (symtable b) v of
       None \<Rightarrow> Inl (Internal ''symbol not found'')
     | Some x \<Rightarrow> Inr (x, b))"

definition getStorage :: "Expr Var \<Rightarrow> Expr TensorStorage emitter" where
  "getStorage v = (\<lambda>b. case storage b v of
       None \<Rightarrow> Inl (Internal ''no tensor storage for variable'')
     | Some ts \<Rightarrow> Inr (ts, b))"

subsection \<open>Builder primitives\<close>

text \<open>
  Every \<^verbatim>\<open>builder->Create...\<close> call appends one instruction to the block at the insert
  point; a call that yields a value numbers it with the next free register. (The
  builder's constant folder may replace an instruction whose operands are all constants
  by the constant it computes; the model keeps the instruction, which computes the same
  value.)
\<close>

definition insertInstr :: "instr \<Rightarrow> backend \<Rightarrow> backend" where
  "insertInstr i b = b\<lparr>blocks := (blocks b)(insertBlock b := blocks b (insertBlock b) @ [i])\<rparr>"

definition emitInstr :: "instr \<Rightarrow> unit emitter" where
  "emitInstr i = modify (insertInstr i)"

definition emitValue :: "ltype \<Rightarrow> (nat \<Rightarrow> instr) \<Rightarrow> operand emitter" where
  "emitValue ty mk =
     (\<lambda>b. Inr (Reg (nextReg b) ty, insertInstr (mk (nextReg b)) (b\<lparr>nextReg := Suc (nextReg b)\<rparr>)))"

definition llvmInt :: "nat \<Rightarrow> operand" where
  "llvmInt n = ConstInt32 (of_nat n)"

definition CreateLoad :: "operand \<Rightarrow> operand emitter" where
  "CreateLoad p = emitValue (pointee (typeOf p)) (\<lambda>r. ILoad r p)"

definition CreateStore :: "operand \<Rightarrow> operand \<Rightarrow> unit emitter" where
  "CreateStore v p = emitInstr (IStore v p)"

definition CreateExtractValue :: "operand \<Rightarrow> nat \<Rightarrow> operand emitter" where
  "CreateExtractValue agg i = emitValue (memberTy (typeOf agg) i) (\<lambda>r. IExtractValue r agg i)"

definition CreateGEP :: "operand \<Rightarrow> operand \<Rightarrow> operand emitter" where
  "CreateGEP p i = emitValue (typeOf p) (\<lambda>r. IGEP r p i)"

definition CreateBin :: "binop \<Rightarrow> operand \<Rightarrow> operand \<Rightarrow> operand emitter" where
  "CreateBin bop x y = emitValue (typeOf x) (\<lambda>r. IBin r bop x y)"

definition CreateUn :: "unop \<Rightarrow> operand \<Rightarrow> operand emitter" where
  "CreateUn uop x = emitValue (typeOf x) (\<lambda>r. IUn r uop x)"

definition CreateCmp :: "pred \<Rightarrow> operand \<Rightarrow> operand \<Rightarrow> operand emitter" where
  "CreateCmp p x y = emitValue (LInt 1) (\<lambda>r. ICmp r p x y)"

definition CreateCast :: "operand \<Rightarrow> ltype \<Rightarrow> operand emitter" where
  "CreateCast x ty = emitValue ty (\<lambda>r. ICast r x ty)"

definition CreateAlloca :: "ltype \<Rightarrow> operand emitter" where
  "CreateAlloca ty = emitValue (LPtr ty) (\<lambda>r. IAlloca r ty)"

definition CreatePHI :: "ltype \<Rightarrow> operand emitter" where
  "CreatePHI ty = emitValue ty (\<lambda>r. IPhi r [])"

definition CreateCall :: "ltype \<Rightarrow> string \<Rightarrow> operand list \<Rightarrow> operand emitter" where
  "CreateCall retTy name args =
     (if retTy = LVoid
      then bind (emitInstr (ICall None name args)) (\<lambda>u. ret (Reg 0 LVoid))
      else emitValue retTy (\<lambda>r. ICall (Some r) name args))"

definition CreateBr :: "nat \<Rightarrow> unit emitter" where
  "CreateBr t = emitInstr (IBr t)"

definition CreateCondBr :: "operand \<Rightarrow> nat \<Rightarrow> nat \<Rightarrow> unit emitter" where
  "CreateCondBr c t f = emitInstr (ICondBr c t f)"

definition CreateRetVoid :: "unit emitter" where
  "CreateRetVoid = emitInstr IRetVoid"

text \<open>
  \<^verbatim>\<open>llvm::BasicBlock::Create\<close> makes a fresh, empty block. (A block created without a
  parent is appended to the function later by \<^verbatim>\<open>push_back\<close>; only the position of the
  block in the function's text depends on that, so one operation serves both.)
\<close>

definition BasicBlockCreate :: "nat emitter" where
  "BasicBlockCreate =
     (\<lambda>b. Inr (numBlocks b, b\<lparr>blocks := (blocks b)(numBlocks b := []), numBlocks := Suc (numBlocks b)\<rparr>))"

definition SetInsertPoint :: "nat \<Rightarrow> unit emitter" where
  "SetInsertPoint blk = modify (\<lambda>b. b\<lparr>insertBlock := blk\<rparr>)"

definition GetInsertBlock :: "nat emitter" where
  "GetInsertBlock = gets insertBlock"

fun addIncomingI :: "nat \<Rightarrow> operand \<Rightarrow> nat \<Rightarrow> instr \<Rightarrow> instr" where
  "addIncomingI r v blk (IPhi r' inc) = (if r' = r then IPhi r' (inc @ [(v, blk)]) else IPhi r' inc)"
| "addIncomingI r v blk i = i"

fun regOf :: "operand \<Rightarrow> nat option" where
  "regOf (Reg r ty) = Some r"
| "regOf other = None"

text \<open>\<^verbatim>\<open>phi->addIncoming(v, blk)\<close> extends the phi node wherever it stands.\<close>

definition addIncoming :: "operand \<Rightarrow> operand \<Rightarrow> nat \<Rightarrow> unit emitter" where
  "addIncoming phi v blk =
     (case regOf phi of
        None \<Rightarrow> ret ()
      | Some r \<Rightarrow> modify (\<lambda>b. b\<lparr>blocks := (\<lambda>k. map (addIncomingI r v blk) (blocks b k))\<rparr>))"


section \<open>Lowering of expressions\<close>

text \<open>
  Modelled from the spec: \<^verbatim>\<open>ScalarType::bytes\<close> and \<^verbatim>\<open>llvmType\<close> are declared in
  headers outside the sources. Integers take 4 bytes, booleans 1 byte, floats the
  configured width; a tensor is passed as a pointer to its components; a set is the
  aggregate of the Composite Layout (element count, then for an edge set the endpoint
  array and the two compressed-index arrays, then one pointer per field); an element is
  the aggregate of its fields.
\<close>

fun bytes :: "nat \<Rightarrow> ScalarKind \<Rightarrow> nat" where
  "bytes fb SInt = 4"
| "bytes fb SFloat = fb"
| "bytes fb SBoolean = 1"

fun llvmScalarType :: "nat \<Rightarrow> ScalarKind \<Rightarrow> ltype" where
  "llvmScalarType fb SInt = LInt 32"
| "llvmScalarType fb SFloat = (if fb = 4 then LFloat else LDouble)"
| "llvmScalarType fb SBoolean = LInt 1"

definition NUM_EDGE_INDEX_ELEMENTS :: nat where
  "NUM_EDGE_INDEX_ELEMENTS = 3"

fun llvmType :: "nat \<Rightarrow> 'e Type \<Rightarrow> ltype" where
  "llvmType fb (Tensor t) = LPtr (llvmScalarType fb (componentType t))"
| "llvmType fb (Element et) = LStruct (map (\<lambda>f. LPtr (llvmScalarType fb (componentType (snd f)))) (elemFields et))"
| "llvmType fb (SetT st) =
     LStruct (LInt 32
       # (if endpointSets st \<noteq> [] then replicate NUM_EDGE_INDEX_ELEMENTS (LPtr (LInt 32)) else [])
       @ map (\<lambda>f. LPtr (llvmScalarType fb (componentType (snd f)))) (elemFields (elementType st)))"
| "llvmType fb Tuple = LVoid"

fun toTensor :: "'e Type \<Rightarrow> 'e TensorType emitter" where
  "toTensor (Tensor t) = ret t"
| "toTensor other = fail (Internal ''not a tensor type'')"

text \<open>\<^verbatim>\<open>((int*)data)[0]\<close> on a little-endian machine: the first four bytes of the buffer.\<close>

fun le32 :: "8 word list \<Rightarrow> 32 word option" where
  "le32 (b0 # b1 # b2 # b3 # rest) =
     Some (of_nat (unat b0 + 256 * unat b1 + 65536 * unat b2 + 16777216 * unat b3))"
| "le32 short = None"

fun fieldIndex :: "(string \<times> 'a) list \<Rightarrow> string \<Rightarrow> nat option" where
  "fieldIndex [] n = None"
| "fieldIndex (f # fs) n = (if fst f = n then Some 0 else map_option Suc (fieldIndex fs n))"

text \<open>
  \<^verbatim>\<open>emitComputeLen(const IndexSet&)\<close> and \<^verbatim>\<open>emitFieldRead\<close> call back into the
  expression visitor; they take it as the parameter \<open>c\<close>, and \<open>compile\<close> below ties the
  knot.
\<close>

fun emitComputeLenIS_with :: "('e \<Rightarrow> operand emitter) \<Rightarrow> 'e IndexSet \<Rightarrow> operand emitter" where
  "emitComputeLenIS_with c (RangeIS n) = ret (llvmInt n)"
| "emitComputeLenIS_with c (SetIS e) = bind (c e) (\<lambda>setValue. CreateExtractValue setValue 0)"
| "emitComputeLenIS_with c SingleIS = fail Unreachable"
| "emitComputeLenIS_with c DynamicIS = fail (NotSupportedYet [])"

definition emitFieldRead_with :: "(Expr \<Rightarrow> operand emitter) \<Rightarrow> Expr \<Rightarrow> string \<Rightarrow> operand emitter" where
  "emitFieldRead_with c elemOrSet fieldName =
     (case type_of elemOrSet of
        Tensor t \<Rightarrow> fail (Internal ''assert: element or set'')
      | Tuple \<Rightarrow> fail (Internal ''assert: element or set'')
      | Element elemType \<Rightarrow>
          bind (c elemOrSet) (\<lambda>setOrElemValue.
            case fieldIndex (elemFields elemType) fieldName of
              None \<Rightarrow> fail (Internal ''assert: hasField'')
            | Some i \<Rightarrow> CreateExtractValue setOrElemValue (0 + i))
      | SetT setType \<Rightarrow>
          (let fieldsOffset = 1 + (if endpointSets setType \<noteq> [] then NUM_EDGE_INDEX_ELEMENTS else 0) in
           bind (c elemOrSet) (\<lambda>setOrElemValue.
             case fieldIndex (elemFields (elementType setType)) fieldName of
               None \<Rightarrow> fail (Internal ''assert: hasField'')
             | Some i \<Rightarrow> CreateExtractValue setOrElemValue (fieldsOffset + i))))"

lemma emitComputeLenIS_with_cong [fundef_cong]:
  "is = is' \<Longrightarrow> (\<And>e. is' = SetIS e \<Longrightarrow> c e = c' e)
     \<Longrightarrow> emitComputeLenIS_with c is = emitComputeLenIS_with c' is'"
  by (cases is') auto

lemma emitFieldRead_with_cong [fundef_cong]:
  "e = e' \<Longrightarrow> f = f' \<Longrightarrow> c e' = c' e'
     \<Longrightarrow> emitFieldRead_with c e f = emitFieldRead_with c' e' f'"
  by (simp add: emitFieldRead_with_def split: Type.splits)

text \<open>The switch on the component kind shared by \<^verbatim>\<open>Add\<close>, \<^verbatim>\<open>Sub\<close>, \<^verbatim>\<open>Mul\<close>.\<close>

definition arith :: "Expr Type \<Rightarrow> binop \<Rightarrow> binop \<Rightarrow> string \<Rightarrow> operand \<Rightarrow> operand \<Rightarrow> operand emitter" where
  "arith t iop fop msg x y =
     bind (toTensor t) (\<lambda>tt.
       case componentType tt of
         SInt \<Rightarrow> CreateBin iop x y
       | SFloat \<Rightarrow> CreateBin fop x y
       | SBoolean \<Rightarrow> fail (Internal msg))"

text \<open>The macro \<^verbatim>\<open>LLVMBACKEND_VISIT_COMPARE_OP\<close>, after its operands are compiled.\<close>

definition compare :: "Expr Type \<Rightarrow> pred \<Rightarrow> pred \<Rightarrow> operand \<Rightarrow> operand \<Rightarrow> operand emitter" where
  "compare ta fcmp icmp x y =
     bind (toTensor ta) (\<lambda>ttype.
       if componentType ttype = SFloat then CreateCmp fcmp x y else CreateCmp icmp x y)"

definition compareAsserts :: "Expr Type \<Rightarrow> Expr Type \<Rightarrow> Expr Type \<Rightarrow> unit emitter" where
  "compareAsserts t ta tb =
     andThen (iassert (isBoolean t) []) (andThen (iassert (isScalar ta) []) (iassert (isScalar tb) []))"

definition logicalAsserts :: "Expr Type \<Rightarrow> Expr Type \<Rightarrow> Expr Type \<Rightarrow> unit emitter" where
  "logicalAsserts t ta tb =
     andThen (iassert (isBoolean t) []) (andThen (iassert (isBoolean ta) []) (iassert (isBoolean tb) []))"

fun compile :: "Expr \<Rightarrow> operand emitter" where
  "compile (Literal t d) =
     (case t of
        Tensor type \<Rightarrow>
          (if order type = 0 then
             (case componentType type of
                SInt \<Rightarrow> (case le32 d of
                            None \<Rightarrow> fail (UndefinedBehaviour ''literal data shorter than an int'')
                          | Some w \<Rightarrow> ret (ConstInt32 w))
              | SFloat \<Rightarrow> bind (gets floatBytes) (\<lambda>fb. ret (ConstFP (take fb d)))
              | SBoolean \<Rightarrow> (case d of
                              [] \<Rightarrow> fail (UndefinedBehaviour ''literal data shorter than a bool'')
                            | x # rest \<Rightarrow> ret (ConstBool (x \<noteq> 0))))
           else bind (gets floatBytes) (\<lambda>fb. ret (ConstData (llvmType fb t) d)))
      | Element et \<Rightarrow> fail (Internal ''Only tensor literals supported for now'')
      | SetT st \<Rightarrow> fail (Internal ''Only tensor literals supported for now'')
      | Tuple \<Rightarrow> fail (Internal ''Only tensor literals supported for now''))"
| "compile (VarExpr t v) =
     bind (gets (\<lambda>b. symtable_contains (symtable b) v)) (\<lambda>found.
     if \<not> found then fail (Internal ''not found in symbol table'')
     else
       bind (getSym v) (\<lambda>val0.
       bind (gets (\<lambda>b. v \<in> set (globals b))) (\<lambda>isGlobal.
       bind (if isGlobal then CreateLoad val0 else ret val0) (\<lambda>val1.
       if isScalar t \<and> isPointerTy (typeOf val1) then CreateLoad val1 else ret val1))))"
| "compile (Load t buffer idx) =
     bind (compile buffer) (\<lambda>buffer'.
     bind (compile idx) (\<lambda>index'.
     bind (CreateGEP buffer' index') (\<lambda>bufferLoc. CreateLoad bufferLoc)))"
| "compile (FieldRead t elementOrSet fieldName) = emitFieldRead_with compile elementOrSet fieldName"
| "compile (Length t indexSet) = emitComputeLenIS_with compile indexSet"
| "compile (IndexRead t edgeSet kind) =
     (let indexLoc = 1 + kind in
      case type_of edgeSet of
        SetT st \<Rightarrow>
          andThen (iassert (endpointSets st \<noteq> []) [])
            (bind (compile edgeSet) (\<lambda>edgesValue. CreateExtractValue edgesValue indexLoc))
      | Tensor tt \<Rightarrow> fail (Internal [])
      | Element et \<Rightarrow> fail (Internal [])
      | Tuple \<Rightarrow> fail (Internal []))"
| "compile (Neg t a) =
     andThen (iassert (isScalar t) [])
       (bind (compile a) (\<lambda>a'.
        bind (toTensor t) (\<lambda>tt.
          case componentType tt of
            SInt \<Rightarrow> CreateUn UNeg a'
          | SFloat \<Rightarrow> CreateUn UFNeg a'
          | SBoolean \<Rightarrow> fail (Internal ''Cannot negate a boolean value.''))))"
| "compile (Add t a b) =
     andThen (iassert (isScalar t) [])
       (bind (compile a) (\<lambda>a'. bind (compile b) (\<lambda>b'.
          arith t BAdd BFAdd ''Cannot add boolean values.'' a' b')))"
| "compile (Sub t a b) =
     andThen (iassert (isScalar t) [])
       (bind (compile a) (\<lambda>a'. bind (compile b) (\<lambda>b'.
          arith t BSub BFSub ''Cannot subtract boolean values.'' a' b')))"
| "compile (Mul t a b) =
     andThen (iassert (isScalar t) [])
       (bind (compile a) (\<lambda>a'. bind (compile b) (\<lambda>b'.
          arith t BMul BFMul ''Cannot multiply boolean values.'' a' b')))"
| "compile (Div t a b) =
     andThen (iassert (isScalar t) [])
       (bind (compile a) (\<lambda>a'. bind (compile b) (\<lambda>b'.
        bind (toTensor t) (\<lambda>tt.
          case componentType tt of
            SInt \<Rightarrow> fail (NotSupportedYet [])
          | SFloat \<Rightarrow> CreateBin BFDiv a' b'
          | SBoolean \<Rightarrow> fail (Internal ''Cannot divide boolean values.'')))))"
| "compile (Not t a) =
     andThen (iassert (isBoolean t) []) (andThen (iassert (isBoolean (type_of a)) [])
       (bind (compile a) (\<lambda>a'. CreateUn UNot a')))"
| "compile (Eq t a b) =
     andThen (compareAsserts t (type_of a) (type_of b))
       (bind (compile a) (\<lambda>a'. bind (compile b) (\<lambda>b'. compare (type_of a) OEQ EQ a' b')))"
| "compile (Ne t a b) =
     andThen (compareAsserts t (type_of a) (type_of b))
       (bind (compile a) (\<lambda>a'. bind (compile b) (\<lambda>b'. compare (type_of a) ONE NE a' b')))"
| "compile (Gt t a b) =
     andThen (compareAsserts t (type_of a) (type_of b))
       (bind (compile a) (\<lambda>a'. bind (compile b) (\<lambda>b'. compare (type_of a) OGT SGT a' b')))"
| "compile (Lt t a b) =
     andThen (compareAsserts t (type_of a) (type_of b))
       (bind (compile a) (\<lambda>a'. bind (compile b) (\<lambda>b'. compare (type_of a) OLT SLT a' b')))"
| "compile (Ge t a b) =
     andThen (compareAsserts t (type_of a) (type_of b))
       (bind (compile a) (\<lambda>a'. bind (compile b) (\<lambda>b'. compare (type_of a) OGE SGE a' b')))"
| "compile (Le t a b) =
     andThen (compareAsserts t (type_of a) (type_of b))
       (bind (compile a) (\<lambda>a'. bind (compile b) (\<lambda>b'. compare (type_of a) OLE SLE a' b')))"
| "compile (And t a b) =
     andThen (logicalAsserts t (type_of a) (type_of b))
       (bind (compile a) (\<lambda>a'. bind (compile b) (\<lambda>b'. CreateBin BAnd a' b')))"
| "compile (Or t a b) =
     andThen (logicalAsserts t (type_of a) (type_of b))
       (bind (compile a) (\<lambda>a'. bind (compile b) (\<lambda>b'. CreateBin BOr a' b')))"
| "compile (Xor t a b) =
     andThen (logicalAsserts t (type_of a) (type_of b))
       (bind (compile a) (\<lambda>a'. bind (compile b) (\<lambda>b'. CreateBin BXor a' b')))"

definition emitFieldRead :: "Expr \<Rightarrow> string \<Rightarrow> operand emitter" where
  "emitFieldRead = emitFieldRead_with compile"

section \<open>The length computer\<close>

definition emitComputeLenIS :: "Expr IndexSet \<Rightarrow> operand emitter" where
  "emitComputeLenIS = emitComputeLenIS_with compile"

fun mulIndexSets :: "operand \<Rightarrow> Expr IndexSet list \<Rightarrow> operand emitter" where
  "mulIndexSets result [] = ret result"
| "mulIndexSets result (i # rest) =
     bind (emitComputeLenIS i) (\<lambda>l.
     bind (CreateBin BMul result l) (\<lambda>result'. mulIndexSets result' rest))"

definition emitComputeLenDom :: "Expr IndexDomain \<Rightarrow> operand emitter" where
  "emitComputeLenDom indexDomain =
     (case indexDomain of
        [] \<Rightarrow> fail (Internal ''assert: index domain has index sets'')
      | i # rest \<Rightarrow> bind (emitComputeLenIS i) (\<lambda>result. mulIndexSets result rest))"

fun mulDimensions :: "operand \<Rightarrow> Expr IndexDomain list \<Rightarrow> operand emitter" where
  "mulDimensions len [] = ret len"
| "mulDimensions len (d # rest) =
     bind (emitComputeLenDom d) (\<lambda>l.
     bind (CreateBin BMul len l) (\<lambda>len'. mulDimensions len' rest))"

text \<open>\<^verbatim>\<open>emitComputeLen(tensorType, TensorStorage::DenseRowMajor)\<close>, the case the others call.\<close>

definition emitComputeLenDense :: "Expr TensorType \<Rightarrow> operand emitter" where
  "emitComputeLenDense tensorType =
     (if order tensorType = 0 then ret (llvmInt 1)
      else case getDimensions tensorType of
             [] \<Rightarrow> fail (UndefinedBehaviour ''no dimension'')
           | d # rest \<Rightarrow> bind (emitComputeLenDom d) (\<lambda>len. mulDimensions len rest))"

text \<open>
  Modelled from the spec: \<^verbatim>\<open>getOuterDimensions\<close> is declared outside the sources; the
  diagonal case takes the outer index set of the first dimension.
\<close>

definition outerDimension0 :: "'e TensorType \<Rightarrow> 'e IndexSet option" where
  "outerDimension0 t = (case getDimensions t of (i # r) # ds \<Rightarrow> Some i | other \<Rightarrow> None)"

definition emitComputeLen :: "Expr TensorType \<Rightarrow> Expr TensorStorage \<Rightarrow> operand emitter" where
  "emitComputeLen tensorType tensorStorage =
     (if order tensorType = 0 then ret (llvmInt 1)
      else case tensorStorage of
        DenseRowMajor \<Rightarrow> emitComputeLenDense tensorType
      | SystemReduced targetSetE storageSetE \<Rightarrow>
          bind (compile targetSetE) (\<lambda>targetSet.
          bind (compile storageSetE) (\<lambda>storageSet.
          bind (CreateExtractValue storageSet 0) (\<lambda>setSize.
          bind (CreateExtractValue targetSet 2) (\<lambda>neighborStartIndex.
          bind (CreateGEP neighborStartIndex setSize) (\<lambda>neighborIndexSizeLoc.
          bind (CreateLoad neighborIndexSizeLoc) (\<lambda>len.
          if \<not> isScalar (Tensor (getBlockType tensorType))
          then bind (emitComputeLenDense (getBlockType tensorType)) (\<lambda>blockSize.
                 CreateBin BMul len blockSize)
          else ret len))))))
      | SystemDiagonal targetSetE storageSetE \<Rightarrow>
          (case outerDimension0 tensorType of
             None \<Rightarrow> fail (UndefinedBehaviour ''no outer dimension'')
           | Some outer \<Rightarrow>
               bind (emitComputeLenIS outer) (\<lambda>len.
               bind (emitComputeLenDense (getBlockType tensorType)) (\<lambda>blockLen.
                 CreateBin BMul len blockLen)))
      | SystemNone \<Rightarrow> fail (Internal ''Attempting to compute size of tensor without storage'')
      | Undefined \<Rightarrow> fail (Internal ''Attempting to compute size of tensor with undefined storage''))"


section \<open>What the emitted instructions compute\<close>

text \<open>
  A small machine gives the emitted code a meaning. Memory is a map from addresses to
  cells, one cell per array element; a set value is an aggregate of its fields. A
  literal tensor is lowered to the address of its data (\<^verbatim>\<open>llvmPtr\<close>): the machine keeps
  the address of every literal's data in \<open>dataAddr\<close>, and a floating-point constant is
  its bytes. The machine logs every load, store and call. Floating-point arithmetic,
  the remainder and the bytes moved by memset and memcpy are not given a value
  (\<open>VUndef\<close>); the calls are logged with their evaluated arguments.
\<close>

datatype rval = VInt "32 word" | VByte "8 word" | VBool bool | VPtr int | VStr string
  | VAgg "rval list" | VFloat "8 word list" | VUndef

datatype event =
    ELoad int
  | EStore int rval
  | ECall string "rval list"
  | EMemSet rval rval rval
  | EMemCpy rval rval rval

record machine =
  regs :: "nat \<Rightarrow> rval"
  memory :: "int \<Rightarrow> rval"
  arguments :: "nat \<Rightarrow> rval"
  globalAddr :: "nat \<Rightarrow> int"
  dataAddr :: "8 word list \<Rightarrow> int"
  nextAddr :: int
  events :: "event list"

fun evalOp :: "machine \<Rightarrow> operand \<Rightarrow> rval" where
  "evalOp m (ConstInt32 w) = VInt w"
| "evalOp m (ConstInt8 w) = VByte w"
| "evalOp m (ConstBool c) = VBool c"
| "evalOp m (ConstFP bs) = VFloat bs"
| "evalOp m (ConstData ty bs) = VPtr (dataAddr m bs)"
| "evalOp m (GlobalVar n ty) = VPtr (globalAddr m n)"
| "evalOp m (GlobalString s) = VStr s"
| "evalOp m (Argument i ty) = arguments m i"
| "evalOp m (Reg r ty) = regs m r"

definition setReg :: "nat \<Rightarrow> rval \<Rightarrow> machine \<Rightarrow> machine" where
  "setReg r v m = m\<lparr>regs := (regs m)(r := v)\<rparr>"

definition logEvent :: "event \<Rightarrow> machine \<Rightarrow> machine" where
  "logEvent e m = m\<lparr>events := events m @ [e]\<rparr>"

definition binopVal :: "binop \<Rightarrow> rval \<Rightarrow> rval \<Rightarrow> rval" where
  "binopVal bop x y =
     (case x of
        VInt a \<Rightarrow>
          (case y of
             VInt b \<Rightarrow> (case bop of BAdd \<Rightarrow> VInt (a + b) | BSub \<Rightarrow> VInt (a - b)
                        | BMul \<Rightarrow> VInt (a * b) | other \<Rightarrow> VUndef)
           | other \<Rightarrow> VUndef)
      | VBool a \<Rightarrow>
          (case y of
             VBool b \<Rightarrow> (case bop of BAnd \<Rightarrow> VBool (a \<and> b) | BOr \<Rightarrow> VBool (a \<or> b)
                         | BXor \<Rightarrow> VBool (a \<noteq> b) | other \<Rightarrow> VUndef)
           | other \<Rightarrow> VUndef)
      | other \<Rightarrow> VUndef)"

definition unopVal :: "unop \<Rightarrow> rval \<Rightarrow> rval" where
  "unopVal uop x =
     (case x of
        VInt a \<Rightarrow> (case uop of UNeg \<Rightarrow> VInt (- a) | other \<Rightarrow> VUndef)
      | VBool a \<Rightarrow> (case uop of UNot \<Rightarrow> VBool (\<not> a) | other \<Rightarrow> VUndef)
      | other \<Rightarrow> VUndef)"

definition cmpVal :: "pred \<Rightarrow> rval \<Rightarrow> rval \<Rightarrow> rval" where
  "cmpVal p x y =
     (case x of
        VInt a \<Rightarrow>
          (case y of
             VInt b \<Rightarrow>
               (case p of EQ \<Rightarrow> VBool (a = b) | NE \<Rightarrow> VBool (a \<noteq> b)
                | SGT \<Rightarrow> VBool (sint b < sint a) | SLT \<Rightarrow> VBool (sint a < sint b)
                | SGE \<Rightarrow> VBool (sint b \<le> sint a) | SLE \<Rightarrow> VBool (sint a \<le> sint b)
                | other \<Rightarrow> VUndef)
           | other \<Rightarrow> VUndef)
      | VBool a \<Rightarrow>
          (case y of
             VBool b \<Rightarrow> (case p of EQ \<Rightarrow> VBool (a = b) | NE \<Rightarrow> VBool (a \<noteq> b) | other \<Rightarrow> VUndef)
           | other \<Rightarrow> VUndef)
      | other \<Rightarrow> VUndef)"

definition gepVal :: "rval \<Rightarrow> rval \<Rightarrow> rval" where
  "gepVal p k =
     (case p of
        VPtr a \<Rightarrow> (case k of VInt i \<Rightarrow> VPtr (a + sint i) | other \<Rightarrow> VUndef)
      | other \<Rightarrow> VUndef)"

definition memberVal :: "rval \<Rightarrow> nat \<Rightarrow> rval" where
  "memberVal v i =
     (case v of VAgg vs \<Rightarrow> (if i < length vs then vs ! i else VUndef) | other \<Rightarrow> VUndef)"

text \<open>One instruction other than a phi node or a terminator.\<close>

fun exec :: "instr \<Rightarrow> machine \<Rightarrow> machine" where
  "exec (ILoad r p) m =
     (case evalOp m p of
        VPtr a \<Rightarrow> setReg r (memory m a) (logEvent (ELoad a) m)
      | other \<Rightarrow> setReg r VUndef m)"
| "exec (IStore v p) m =
     (case evalOp m p of
        VPtr a \<Rightarrow> logEvent (EStore a (evalOp m v)) (m\<lparr>memory := (memory m)(a := evalOp m v)\<rparr>)
      | other \<Rightarrow> m)"
| "exec (IExtractValue r agg i) m = setReg r (memberVal (evalOp m agg) i) m"
| "exec (IGEP r p i) m = setReg r (gepVal (evalOp m p) (evalOp m i)) m"
| "exec (IBin r bop x y) m = setReg r (binopVal bop (evalOp m x) (evalOp m y)) m"
| "exec (IUn r uop x) m = setReg r (unopVal uop (evalOp m x)) m"
| "exec (ICmp r p x y) m = setReg r (cmpVal p (evalOp m x) (evalOp m y)) m"
| "exec (ICast r x ty) m = setReg r (evalOp m x) m"
| "exec (IAlloca r ty) m = setReg r (VPtr (nextAddr m)) (m\<lparr>nextAddr := nextAddr m + 1\<rparr>)"
| "exec (ICall ro name args) m =
     (let m' = logEvent (ECall name (map (evalOp m) args)) m in
      case ro of None \<Rightarrow> m' | Some r \<Rightarrow> setReg r VUndef m')"
| "exec (IMemSet d v n al) m = logEvent (EMemSet (evalOp m d) (evalOp m v) (evalOp m n)) m"
| "exec (IMemCpy d src n al) m = logEvent (EMemCpy (evalOp m d) (evalOp m src) (evalOp m n)) m"
| "exec (IPhi r inc) m = m"
| "exec (IBr t) m = m"
| "exec (ICondBr c t f) m = m"
| "exec IRetVoid m = m"

fun execInstrs :: "instr list \<Rightarrow> machine \<Rightarrow> machine" where
  "execInstrs [] m = m"
| "execInstrs (i # rest) m = execInstrs rest (exec i m)"

text \<open>
  Control flow: a configuration is the block, the position in it, the block control
  came from, and the machine. A phi node takes the value that belongs to the
  predecessor. \<open>step\<close> is \<open>None\<close> at a return, at the end of a block without
  terminator, and where a branch condition is not a boolean.
\<close>

type_synonym config = "nat \<times> nat \<times> nat \<times> machine"

fun incomingFor :: "nat \<Rightarrow> (operand \<times> nat) list \<Rightarrow> operand option" where
  "incomingFor prev [] = None"
| "incomingFor prev (x # xs) = (if snd x = prev then Some (fst x) else incomingFor prev xs)"

definition stepInstr :: "instr \<Rightarrow> config \<Rightarrow> config option" where
  "stepInstr i c =
     (case c of (blk, pc, prev, m) \<Rightarrow>
        (case i of
           IBr t \<Rightarrow> Some (t, 0, blk, m)
         | ICondBr cnd t f \<Rightarrow>
             (case evalOp m cnd of
                VBool cv \<Rightarrow> Some (if cv then t else f, 0, blk, m)
              | other \<Rightarrow> None)
         | IRetVoid \<Rightarrow> None
         | IPhi r inc \<Rightarrow>
             (case incomingFor prev inc of
                None \<Rightarrow> None
              | Some v \<Rightarrow> Some (blk, Suc pc, prev, setReg r (evalOp m v) m))
         | other \<Rightarrow> Some (blk, Suc pc, prev, exec i m)))"

definition step :: "(nat \<Rightarrow> instr list) \<Rightarrow> config \<Rightarrow> config option" where
  "step P c =
     (case c of (blk, pc, prev, m) \<Rightarrow>
        if pc < length (P blk) then stepInstr (P blk ! pc) c else None)"

fun steps :: "nat \<Rightarrow> (nat \<Rightarrow> instr list) \<Rightarrow> config \<Rightarrow> config option" where
  "steps 0 P c = Some c"
| "steps (Suc n) P c = (case step P c of None \<Rightarrow> None | Some c' \<Rightarrow> steps n P c')"

section \<open>Assignment\<close>

definition emitMemCpy :: "operand \<Rightarrow> operand \<Rightarrow> operand \<Rightarrow> nat \<Rightarrow> unit emitter" where
  "emitMemCpy dst src size' align = emitInstr (IMemCpy dst src size' align)"

definition emitMemSet :: "operand \<Rightarrow> operand \<Rightarrow> operand \<Rightarrow> nat \<Rightarrow> unit emitter" where
  "emitMemSet dst v size' align = emitInstr (IMemSet dst v size' align)"

text \<open>
  Modelled from the spec: \<^verbatim>\<open>Literal::getFloatVal\<close> is declared outside the sources; it
  reads a component of the literal's buffer as a float of the configured width. An
  IEEE-754 value compares equal to \<open>0.0\<close> exactly when all its bits but the sign bit are
  zero; on a little-endian machine the sign bit is the top bit of the last byte. A read
  past the end of the buffer is undefined in C++ and is taken as "not zero" here, and as
  well for \<^verbatim>\<open>((int*)data)[0]\<close>.
\<close>

definition getFloatVal0_is_zero :: "nat \<Rightarrow> 8 word list \<Rightarrow> bool" where
  "getFloatVal0_is_zero fb d \<longleftrightarrow>
     0 < fb \<and> fb \<le> length d \<and> list_all (\<lambda>x. x = 0) (take (fb - 1) d)
     \<and> take_bit 7 (d ! (fb - 1)) = 0"

text \<open>
  The test of \<^verbatim>\<open>emitAssign\<close> for "assigning 0 to a tensor":
  \<^verbatim>\<open>isa<Literal>(value) && (getFloatVal(0) == 0.0 || ((int*)data)[0] == 0)\<close>.
\<close>

fun assignsZero :: "nat \<Rightarrow> Expr \<Rightarrow> bool" where
  "assignsZero fb (Literal t d) = (getFloatVal0_is_zero fb d \<or> le32 d = Some 0)"
| "assignsZero fb other = False"

definition emitAssign :: "Expr Var \<Rightarrow> Expr \<Rightarrow> unit emitter" where
  "emitAssign var val =
     bind (compile val) (\<lambda>valuePtr.
     andThen (iassert (isTensor (getType var) \<and> isTensor (type_of val)) [])
    (andThen (bind (gets (\<lambda>b. symtable_contains (symtable b) var))
                (\<lambda>declared. iassert declared ''has not been declared''))
    (bind (getSym var) (\<lambda>varPtr0.
     andThen (iassert (isPointerTy (typeOf varPtr0)) [])
    (bind (gets (\<lambda>b. var \<in> set (globals b))) (\<lambda>isGlobal.
     bind (if isGlobal then CreateLoad varPtr0 else ret varPtr0) (\<lambda>varPtr.
     bind (toTensor (getType var)) (\<lambda>varType.
     bind (toTensor (type_of val)) (\<lambda>valType.
     if order varType = 0 \<and> order valType = 0 then CreateStore valuePtr varPtr
     else
       bind (getStorage var) (\<lambda>tensorStorage.
       bind (emitComputeLen varType tensorStorage) (\<lambda>len.
       bind (gets floatBytes) (\<lambda>fb.
       let componentSize = bytes fb (componentType varType) in
       bind (CreateBin BMul len (llvmInt componentSize)) (\<lambda>size'.
       if 0 < order varType \<and> order valType = 0 then
         (if assignsZero fb val then emitMemSet varPtr (ConstInt8 0) size' componentSize
          else fail (NotSupportedYet
                 ''you can only currently assign a scalar to a tensor if the scalar is 0.''))
       else
         andThen (iassert (getType var = type_of val) ''variable and value types don't match'')
           (emitMemCpy varPtr valuePtr size' componentSize))))))))))))))"

section \<open>Statements\<close>

datatype FuncKind = FInternal | FExternal | FIntrinsic

datatype Callee = Callee (calleeName: string) (calleeKind: FuncKind)

datatype ForDomainKind = IndexSetDomain | Endpoints | Edges | NeighborsOf | Neighbors | Diagonal

datatype ForDomain = ForDomain (domainKind: ForDomainKind) (domainIndexSet: "Expr IndexSet")

datatype Stmt =
    VarDecl "Expr Var"
  | AssignStmt "Expr Var" Expr CompoundOperator
  | Store Expr Expr Expr CompoundOperator
  | FieldWrite Expr string Expr CompoundOperator
  | CallStmt "Expr Var list" Callee "Expr list"
  | Block Stmt "Stmt option" bool
  | IfThenElse Expr Stmt Stmt
  | ForRange "Expr Var" Expr Expr Stmt
  | For "Expr Var" ForDomain Stmt
  | While Expr Stmt
  | Print Expr

subsection \<open>Declarations\<close>

definition insertBuffer :: "'k \<Rightarrow> 'v \<Rightarrow> ('k \<times> 'v) list \<Rightarrow> ('k \<times> 'v) list" where
  "insertBuffer k v bs = (if k \<in> fst ` set bs then bs else bs @ [(k, v)])"

definition newGlobalVariable :: "string \<Rightarrow> ltype \<Rightarrow> operand emitter" where
  "newGlobalVariable name ty =
     (\<lambda>b. Inr (GlobalVar (length (moduleGlobals b)) (LPtr ty),
               b\<lparr>moduleGlobals := moduleGlobals b @ [(name, ty)]\<rparr>))"

definition makeGlobalTensor :: "Expr Var \<Rightarrow> operand emitter" where
  "makeGlobalTensor var =
     bind (toTensor (getType var)) (\<lambda>tt.
     bind (gets floatBytes) (\<lambda>fb.
     let ctype = llvmScalarType fb (componentType tt); globalType = LPtr ctype in
     bind (newGlobalVariable (getName var) globalType) (\<lambda>buffer.
     andThen (modify (\<lambda>b. b\<lparr>buffers := insertBuffer var buffer (buffers b)\<rparr>))
       (CreateLoad buffer))))"

text \<open>
  Modelled from the spec: \<^verbatim>\<open>TensorStorage::needsInitialization\<close> is declared outside the
  sources. Storage that is not materialised (\<open>SystemNone\<close>) needs none, the materialised
  layouts do, and \<open>Undefined\<close> is illegal at use time.
\<close>

fun needsInitialization :: "'e TensorStorage \<Rightarrow> bool emitter" where
  "needsInitialization Undefined = fail (Internal ''undefined storage'')"
| "needsInitialization SystemNone = ret False"
| "needsInitialization other = ret True"

definition compile_VarDecl :: "Expr Var \<Rightarrow> unit emitter" where
  "compile_VarDecl var =
     (if \<not> isTensor (getType var) then fail (TemporaryAssert ''Only tensor decls supported'')
      else if isScalar (getType var) then
        bind (toTensor (getType var)) (\<lambda>tt.
        bind (gets floatBytes) (\<lambda>fb.
        bind (CreateAlloca (llvmScalarType fb (componentType tt))) (\<lambda>llvmVar.
          insertSym var llvmVar)))
      else
        bind (getStorage var) (\<lambda>ts.
        bind (needsInitialization ts) (\<lambda>needed.
        if \<not> needed then ret ()
        else bind (makeGlobalTensor var) (\<lambda>llvmVar. insertSym var llvmVar))))"

text \<open>
  \<^verbatim>\<open>Add::make\<close> and \<^verbatim>\<open>VarExpr::make\<close> are declared outside the sources; the nodes they
  build take the type of the left operand and of the variable.
\<close>

definition VarExpr_make :: "Expr Var \<Rightarrow> Expr" where
  "VarExpr_make v = VarExpr (getType v) v"

definition Add_make :: "Expr \<Rightarrow> Expr \<Rightarrow> Expr" where
  "Add_make a b = Add (type_of a) a b"

definition compile_AssignStmt :: "Expr Var \<Rightarrow> Expr \<Rightarrow> CompoundOperator \<Rightarrow> unit emitter" where
  "compile_AssignStmt var val cop =
     (case cop of
        CopNone \<Rightarrow> emitAssign var val
      | CopAdd \<Rightarrow> emitAssign var (Add_make (VarExpr_make var) val))"

definition compile_Store :: "Expr \<Rightarrow> Expr \<Rightarrow> Expr \<Rightarrow> CompoundOperator \<Rightarrow> unit emitter" where
  "compile_Store buffer idx val cop =
     bind (compile buffer) (\<lambda>buffer'.
     bind (compile idx) (\<lambda>index'.
     bind (case cop of
             CopNone \<Rightarrow> compile val
           | CopAdd \<Rightarrow> compile (Add_make (Load (type_of val) buffer idx) val)) (\<lambda>value'.
     bind (CreateGEP buffer' index') (\<lambda>bufferLoc.
       CreateStore value' bufferLoc))))"

fun getFieldType :: "Expr \<Rightarrow> string \<Rightarrow> Expr TensorType option" where
  "getFieldType e f =
     (case type_of e of
        Element et \<Rightarrow> map_of (elemFields et) f
      | SetT st \<Rightarrow> map_of (elemFields (elementType st)) f
      | Tensor t \<Rightarrow> None
      | Tuple \<Rightarrow> None)"

definition compile_FieldWrite :: "Expr \<Rightarrow> string \<Rightarrow> Expr \<Rightarrow> CompoundOperator \<Rightarrow> unit emitter" where
  "compile_FieldWrite elementOrSet fieldName val cop =
     andThen (iassert (isTensor (type_of val)) [])
    (case getFieldType elementOrSet fieldName of
       None \<Rightarrow> fail (Internal ''field is not a tensor'')
     | Some fieldType \<Rightarrow>
         bind (toTensor (type_of val)) (\<lambda>valueType.
         bind (gets floatBytes) (\<lambda>fb.
         if 0 < order fieldType \<and> order valueType = 0 then
           andThen (iassert (cop = CopNone) ''Compound write when assigning scalar to n-order tensor'')
             (if (case val of Literal t d \<Rightarrow> getFloatVal0_is_zero fb d | other \<Rightarrow> False) then
                bind (emitFieldRead elementOrSet fieldName) (\<lambda>fieldPtr.
                bind (emitComputeLen fieldType DenseRowMajor) (\<lambda>fieldLen.
                let compSize = bytes fb (componentType fieldType) in
                bind (CreateBin BMul fieldLen (llvmInt compSize)) (\<lambda>fieldSize.
                  emitMemSet fieldPtr (ConstInt8 0) fieldSize compSize)))
              else fail (NotSupportedYet []))
         else
           bind (emitFieldRead elementOrSet fieldName) (\<lambda>fieldPtr.
           bind (case cop of
                   CopNone \<Rightarrow> compile val
                 | CopAdd \<Rightarrow> compile (Add_make (FieldRead (Tensor fieldType) elementOrSet fieldName) val))
             (\<lambda>valuePtr.
           bind (emitComputeLen fieldType DenseRowMajor) (\<lambda>fieldLen.
           let elemSize = bytes fb (componentType fieldType) in
           bind (CreateBin BMul fieldLen (llvmInt elemSize)) (\<lambda>fieldSize.
             emitMemCpy fieldPtr valuePtr fieldSize elemSize)))))))"

section \<open>Control flow\<close>

text \<open>
  The lowerings of the compound statements take the lowerings of their parts as
  parameters (the condition, the body); \<open>compileStmt\<close> below passes the visitor itself.
\<close>

definition compile_IfThenElse :: "operand emitter \<Rightarrow> unit emitter \<Rightarrow> unit emitter \<Rightarrow> unit emitter" where
  "compile_IfThenElse condE thenE elseE =
     bind condE (\<lambda>cond.
     bind (CreateCmp EQ (ConstBool True) cond) (\<lambda>condEval.
     bind BasicBlockCreate (\<lambda>thenBlock.
     bind BasicBlockCreate (\<lambda>elseBlock.
     bind BasicBlockCreate (\<lambda>exitBlock.
     andThen (CreateCondBr condEval thenBlock elseBlock)
    (andThen (SetInsertPoint thenBlock)
    (andThen thenE
    (andThen (CreateBr exitBlock)
    (andThen (SetInsertPoint elseBlock)
    (andThen elseE
    (andThen (CreateBr exitBlock)
      (SetInsertPoint exitBlock))))))))))))"

definition compile_ForRange ::
  "Expr Var \<Rightarrow> operand emitter \<Rightarrow> operand emitter \<Rightarrow> unit emitter \<Rightarrow> unit emitter" where
  "compile_ForRange var startE endE bodyE =
     bind GetInsertBlock (\<lambda>entryBlock.
     bind startE (\<lambda>rangeStart.
     bind endE (\<lambda>rangeEnd.
     bind BasicBlockCreate (\<lambda>loopBodyStart.
     bind BasicBlockCreate (\<lambda>loopEnd.
     bind (CreateCmp SLT rangeStart rangeEnd) (\<lambda>firstCmp.
     andThen (CreateCondBr firstCmp loopBodyStart loopEnd)
    (andThen (SetInsertPoint loopBodyStart)
    (bind (CreatePHI (LInt 32)) (\<lambda>i.
     andThen (addIncoming i rangeStart entryBlock)
    (andThen scope
    (andThen (insertSym var i)
    (andThen bodyE
    (andThen unscope
    (bind GetInsertBlock (\<lambda>loopBodyEnd.
     bind (CreateBin BAdd i (ConstInt32 1)) (\<lambda>i_nxt.
     andThen (addIncoming i i_nxt loopBodyEnd)
    (bind (CreateCmp SLT i_nxt rangeEnd) (\<lambda>exitCond.
     andThen (CreateCondBr exitCond loopBodyStart loopEnd)
       (SetInsertPoint loopEnd)))))))))))))))))))"

text \<open>
  \<^verbatim>\<open>compile(const ir::For&)\<close>. Every domain kind but \<open>IndexSet\<close> reaches
  \<^verbatim>\<open>not_supported_yet\<close>; were that macro to return, \<^verbatim>\<open>iassert(iNum)\<close> would stop the
  lowering, the bound being still null.
\<close>

definition compile_For :: "Expr Var \<Rightarrow> ForDomain \<Rightarrow> unit emitter \<Rightarrow> unit emitter" where
  "compile_For var domain bodyE =
     bind (case domainKind domain of
             IndexSetDomain \<Rightarrow> emitComputeLenIS (domainIndexSet domain)
           | Endpoints \<Rightarrow> fail (NotSupportedYet [])
           | Edges \<Rightarrow> fail (NotSupportedYet [])
           | NeighborsOf \<Rightarrow> fail (NotSupportedYet [])
           | Neighbors \<Rightarrow> fail (NotSupportedYet [])
           | Diagonal \<Rightarrow> fail (NotSupportedYet [])) (\<lambda>iNum.
     bind GetInsertBlock (\<lambda>entryBlock.
     bind BasicBlockCreate (\<lambda>loopBodyStart.
     bind BasicBlockCreate (\<lambda>loopEnd.
     bind (CreateCmp SLT (llvmInt 0) iNum) (\<lambda>firstCmp.
     andThen (CreateCondBr firstCmp loopBodyStart loopEnd)
    (andThen (SetInsertPoint loopBodyStart)
    (bind (CreatePHI (LInt 32)) (\<lambda>i.
     andThen (addIncoming i (ConstInt32 0) entryBlock)
    (andThen scope
    (andThen (insertSym var i)
    (andThen bodyE
    (andThen unscope
    (bind GetInsertBlock (\<lambda>loopBodyEnd.
     bind (CreateBin BAdd i (ConstInt32 1)) (\<lambda>i_nxt.
     andThen (addIncoming i i_nxt loopBodyEnd)
    (bind (CreateCmp SLT i_nxt iNum) (\<lambda>exitCond.
     andThen (CreateCondBr exitCond loopBodyStart loopEnd)
       (SetInsertPoint loopEnd))))))))))))))))))"

definition compile_While :: "operand emitter \<Rightarrow> unit emitter \<Rightarrow> unit emitter" where
  "compile_While condE bodyE =
     bind condE (\<lambda>cond.
     bind (CreateCmp EQ (ConstBool True) cond) (\<lambda>condEval.
     bind BasicBlockCreate (\<lambda>bodyBlock.
     bind BasicBlockCreate (\<lambda>checkBlock.
     bind BasicBlockCreate (\<lambda>exitBlock.
     andThen (CreateCondBr condEval bodyBlock exitBlock)
    (andThen (SetInsertPoint bodyBlock)
    (andThen bodyE
    (andThen (CreateBr checkBlock)
    (let priorBodyBlock = bodyBlock in
     andThen (SetInsertPoint checkBlock)
    (bind condE (\<lambda>cond2.
     bind (CreateCmp EQ (ConstBool True) cond2) (\<lambda>condEval2.
     andThen (CreateCondBr condEval2 priorBodyBlock exitBlock)
       (SetInsertPoint exitBlock)))))))))))))"

section \<open>Printing\<close>

definition newline :: char where
  "newline = CHR 0x0A"

definition getOrInsertFunction :: "string \<Rightarrow> unit emitter" where
  "getOrInsertFunction name =
     modify (\<lambda>b. if name \<in> fst ` set (moduleFunctions b) then b
                  else b\<lparr>moduleFunctions := moduleFunctions b @ [(name, None)]\<rparr>)"

fun castFloatArgs :: "operand list \<Rightarrow> operand list emitter" where
  "castFloatArgs [] = ret []"
| "castFloatArgs (a # rest) =
     bind (if typeOf a = LFloat then CreateCast a LDouble else ret a) (\<lambda>a'.
     bind (castFloatArgs rest) (\<lambda>rest'. ret (a' # rest')))"

definition emitPrintf :: "string \<Rightarrow> operand list \<Rightarrow> unit emitter" where
  "emitPrintf format args =
     andThen (getOrInsertFunction ''printf'')
    (bind (castFloatArgs args) (\<lambda>args'.
     bind (CreateCall (LInt 32) ''printf'' (GlobalString format # args')) (\<lambda>r. ret ())))"

definition loadFromArray :: "operand \<Rightarrow> operand \<Rightarrow> operand emitter" where
  "loadFromArray array idx = bind (CreateGEP array idx) (\<lambda>loc. CreateLoad loc)"

fun loadElements :: "operand \<Rightarrow> nat list \<Rightarrow> operand list emitter" where
  "loadElements result [] = ret []"
| "loadElements result (i # rest) =
     bind (loadFromArray result (llvmInt i)) (\<lambda>element.
     bind (loadElements result rest) (\<lambda>elements. ret (element # elements)))"

text \<open>
  Modelled from the spec: \<^verbatim>\<open>IndexSet::getSize\<close>, \<^verbatim>\<open>IndexDomain::getSize\<close> and
  \<^verbatim>\<open>TensorType::size\<close> are declared outside the sources. A range has its static size, a
  dimension the product of the sizes of its index sets, a tensor the product of the
  sizes of its dimensions; asking an index set that is not a range for its size is an
  internal error.
\<close>

fun getSizeIS :: "'e IndexSet \<Rightarrow> nat" where
  "getSizeIS (RangeIS n) = n"
| "getSizeIS other = 0"

fun isRange :: "'e IndexSet \<Rightarrow> bool" where
  "isRange (RangeIS n) = True"
| "isRange other = False"

definition getSizeDom :: "'e IndexDomain \<Rightarrow> nat" where
  "getSizeDom d = prod_list (map getSizeIS d)"

definition tensorSize :: "'e TensorType \<Rightarrow> nat" where
  "tensorSize t = prod_list (map getSizeDom (getDimensions t))"

definition staticDims :: "'e TensorType \<Rightarrow> bool" where
  "staticDims t \<longleftrightarrow> list_all (list_all isRange) (getDimensions t)"

definition sizeOf :: "'e TensorType \<Rightarrow> nat emitter" where
  "sizeOf t = (if staticDims t then ret (tensorSize t) else fail (Internal ''size of a dynamic index set''))"

definition domainSizeOf :: "'e IndexDomain \<Rightarrow> nat emitter" where
  "domainSizeOf d = (if list_all isRange d then ret (getSizeDom d) else fail (Internal ''size of a dynamic index set''))"

fun isSetIS :: "'e IndexSet \<Rightarrow> bool" where
  "isSetIS (SetIS e) = True"
| "isSetIS other = False"

text \<open>\<^verbatim>\<open>format.back() = '\n'\<close>: undefined on the empty string.\<close>

definition setBack :: "string \<Rightarrow> string emitter" where
  "setBack format =
     (if format = [] then fail (UndefinedBehaviour ''back() of an empty string'')
      else ret (butlast format @ [newline]))"

text \<open>The fallback loop over a tensor with a set-backed dimension.\<close>

definition printLoop :: "Expr TensorType \<Rightarrow> string \<Rightarrow> operand \<Rightarrow> unit emitter" where
  "printLoop tensor specifier result =
     bind GetInsertBlock (\<lambda>entryBlock.
     let rangeStart = llvmInt 0 in
     bind (emitComputeLen tensor DenseRowMajor) (\<lambda>len.
     bind (CreateBin BSub len (llvmInt 1)) (\<lambda>rangeEnd.
     bind BasicBlockCreate (\<lambda>loopBodyStart.
     andThen (CreateBr loopBodyStart)
    (andThen (SetInsertPoint loopBodyStart)
    (bind (CreatePHI (LInt 32)) (\<lambda>i.
     andThen (addIncoming i rangeStart entryBlock)
    (bind (loadFromArray result i) (\<lambda>entry.
     andThen (emitPrintf (specifier @ '' '') [entry])
    (bind GetInsertBlock (\<lambda>loopBodyEnd.
     bind (CreateBin BAdd i (llvmInt 1)) (\<lambda>iNext.
     andThen (addIncoming i iNext loopBodyEnd)
    (bind (CreateCmp SLT iNext rangeEnd) (\<lambda>exitCond.
     bind BasicBlockCreate (\<lambda>loopEnd.
     andThen (CreateCondBr exitCond loopBodyStart loopEnd)
    (andThen (SetInsertPoint loopEnd)
    (bind (loadFromArray result iNext) (\<lambda>lastEntry.
       emitPrintf (specifier @ [newline]) [lastEntry]))))))))))))))))))"

text \<open>A vector with static dimensions: one format string, one load per element.\<close>

definition printVector :: "Expr TensorType \<Rightarrow> string \<Rightarrow> operand \<Rightarrow> unit emitter" where
  "printVector tensor specifier result =
     (let delim = (if isColumnVector tensor then [newline] else '' '') in
      bind (sizeOf tensor) (\<lambda>size'.
      bind (loadElements result [0 ..< size']) (\<lambda>args.
      bind (setBack (concat (replicate size' (specifier @ delim)))) (\<lambda>format.
        emitPrintf format args))))"

text \<open>
  Tensors of order two and more: one format line per row; a line that ends a block of
  \<open>stride\<close> rows gets one more newline, for every stride from the innermost dimension
  outwards.
\<close>

definition pushNewlines :: "nat \<Rightarrow> string list \<Rightarrow> string list" where
  "pushNewlines stride formatLines =
     map (\<lambda>(j, l). if stride \<noteq> 0 \<and> Suc j mod stride = 0 then l @ [newline] else l)
       (zip [0 ..< length formatLines] formatLines)"

fun separate :: "nat \<Rightarrow> nat list \<Rightarrow> string list \<Rightarrow> string list" where
  "separate stride [] formatLines = formatLines"
| "separate stride (s # sizes) formatLines =
     separate (stride * s) sizes (pushNewlines (stride * s) formatLines)"

definition find_last_not_of_newline :: "string \<Rightarrow> nat option" where
  "find_last_not_of_newline s =
     (case filter (\<lambda>k. s ! k \<noteq> newline) (rev [0 ..< length s]) of [] \<Rightarrow> None | k # ks \<Rightarrow> Some k)"

definition resizeBack :: "string list \<Rightarrow> string list emitter" where
  "resizeBack formatLines =
     (if formatLines = [] then fail (UndefinedBehaviour ''back() of an empty vector'')
      else let l = last formatLines;
               n = (case find_last_not_of_newline l of None \<Rightarrow> 1 | Some k \<Rightarrow> k + 2)
           in ret (butlast formatLines @ [take n l @ replicate (n - length l) (CHR 0x00)]))"

definition printMatrix :: "Expr TensorType \<Rightarrow> string \<Rightarrow> operand \<Rightarrow> unit emitter" where
  "printMatrix tensor specifier result =
     (let dimensions = getDimensions tensor in
      bind (sizeOf tensor) (\<lambda>size'.
      bind (domainSizeOf (last dimensions)) (\<lambda>rowSize.
      if rowSize = 0 then fail (UndefinedBehaviour ''remainder by zero'')
      else if size' mod rowSize \<noteq> 0 then
        fail (NotSupportedYet ''Not a rectangular tensor (total entries not amultiple of entries per row)'')
      else
        bind (setBack (concat (replicate rowSize (specifier @ '' '')))) (\<lambda>format.
        let numlines = size' div rowSize;
            formatLines = replicate numlines format;
            sizes = map getSizeDom (rev (butlast dimensions))
        in
        bind (resizeBack (separate 1 sizes formatLines)) (\<lambda>formatLines'.
        bind (loadElements result [0 ..< size']) (\<lambda>args.
        bind (setBack (concat formatLines')) (\<lambda>format'.
          emitPrintf format' args)))))))"

definition compile_Print :: "Expr \<Rightarrow> unit emitter" where
  "compile_Print expr =
     bind (compile expr) (\<lambda>result.
     case type_of expr of
       Tensor tensor \<Rightarrow>
         (let specifier = (if componentType tensor = SFloat then ''%f'' else ''%d'') in
          if order tensor = 0 then emitPrintf (specifier @ [newline]) [result]
          else if list_ex (list_ex isSetIS) (getDimensions tensor) then printLoop tensor specifier result
          else if order tensor = 1 then printVector tensor specifier result
          else printMatrix tensor specifier result)
     | Element et \<Rightarrow> fail (NotSupportedYet [])
     | SetT st \<Rightarrow> fail (NotSupportedYet [])
     | Tuple \<Rightarrow> fail (NotSupportedYet []))"

section \<open>Call statements\<close>

definition emitCall :: "string \<Rightarrow> operand list \<Rightarrow> ltype \<Rightarrow> operand emitter" where
  "emitCall name args returnType =
     andThen (getOrInsertFunction name) (CreateCall returnType name args)"

text \<open>
  The loop over the actuals: \<^verbatim>\<open>a.type().toTensor()\<close> asserts that the argument is a
  tensor before the argument is compiled.
\<close>

fun compileAll :: "Expr list \<Rightarrow> operand list emitter" where
  "compileAll [] = ret []"
| "compileAll (a # rest) =
     bind (toTensor (type_of a)) (\<lambda>t.
     bind (compile a) (\<lambda>a'. bind (compileAll rest) (\<lambda>rest'. ret (a' # rest'))))"

definition llvmFloatType :: "nat \<Rightarrow> ltype" where
  "llvmFloatType fb = llvmScalarType fb SFloat"

definition floatTypeName :: "nat \<Rightarrow> string" where
  "floatTypeName fb = (if fb = 4 then ''_f32'' else ''_f64'')"

text \<open>
  The extra arguments of \<^verbatim>\<open>solve\<close>, after the user's arguments \<open>args\<close> are compiled.
  Reading element 0 or 1 of a vector that is shorter is undefined in C++.
\<close>

definition nthDimension :: "'a list \<Rightarrow> nat \<Rightarrow> 'a emitter" where
  "nthDimension ds i = (if i < length ds then ret (ds ! i) else fail (UndefinedBehaviour ''index past the end of a vector''))"

fun systemTargetSet :: "'e TensorStorage \<Rightarrow> 'e emitter" where
  "systemTargetSet (SystemReduced t s) = ret t"
| "systemTargetSet (SystemDiagonal t s) = ret t"
| "systemTargetSet other = fail (Internal ''not a system tensor storage'')"

fun systemStorageSet :: "'e TensorStorage \<Rightarrow> 'e emitter" where
  "systemStorageSet (SystemReduced t s) = ret s"
| "systemStorageSet (SystemDiagonal t s) = ret s"
| "systemStorageSet other = fail (Internal ''not a system tensor storage'')"

definition solveCall :: "Expr list \<Rightarrow> operand list \<Rightarrow> operand emitter" where
  "solveCall actuals args =
     bind (nthDimension actuals 0) (\<lambda>actual0.
     bind (toTensor (type_of actual0)) (\<lambda>type.
     let dimensions = getDimensions type in
     bind (case actual0 of
             VarExpr t v \<Rightarrow> getStorage v
           | other \<Rightarrow> fail (TemporaryAssert ''isa<VarExpr>(callStmt.actuals[0])'')) (\<lambda>tensorStorage.
     bind (bind (systemTargetSet tensorStorage) compile) (\<lambda>targetSet.
     bind (bind (systemStorageSet tensorStorage) compile) (\<lambda>storageSet.
     bind (CreateExtractValue storageSet 0) (\<lambda>setSize.
     bind (CreateExtractValue targetSet 2) (\<lambda>row_start.
     bind (CreateExtractValue targetSet 3) (\<lambda>col_idx.
     bind (CreateGEP row_start setSize) (\<lambda>neighborIndexSizeLoc.
     bind (CreateLoad neighborIndexSizeLoc) (\<lambda>len.
     let blockType = getBlockType type; blockDimensions = getDimensions blockType in
     bind (if \<not> isScalar (Tensor blockType)
           then bind (bind (nthDimension blockDimensions 0) emitComputeLenDom) (\<lambda>r.
                bind (bind (nthDimension blockDimensions 1) emitComputeLenDom) (\<lambda>c. ret (r, c)))
           else ret (llvmInt 1, llvmInt 1)) (\<lambda>blockSize.
     bind (bind (nthDimension dimensions 0) emitComputeLenDom) (\<lambda>rows.
     bind (bind (nthDimension dimensions 1) emitComputeLenDom) (\<lambda>cols.
     bind (gets floatBytes) (\<lambda>fb.
       emitCall (''cMatSolve'' @ floatTypeName fb)
         (args @ [row_start, col_idx, rows, cols, len, fst blockSize, snd blockSize]) LVoid))))))))))))))"

definition llvmIntrinsicByName :: "string list" where
  "llvmIntrinsicByName = [''sin'', ''cos'', ''sqrt'', ''log'', ''exp'', ''pow'']"

definition compile_CallStmt :: "Expr Var list \<Rightarrow> Callee \<Rightarrow> Expr list \<Rightarrow> unit emitter" where
  "compile_CallStmt results callee actuals =
     bind (compileAll actuals) (\<lambda>args.
     bind (gets floatBytes) (\<lambda>fb.
     let name = calleeName callee in
     if calleeKind callee = FIntrinsic then
       andThen (iassert (name \<noteq> ''norm'' \<and> name \<noteq> ''dot'') ''norm and dot should have been lowered'')
      (bind
        (if name \<in> set llvmIntrinsicByName then
           andThen (iassert (length results = 1) [])
          (bind (toTensor (getType (hd results))) (\<lambda>rt.
             CreateCall (llvmScalarType fb (componentType rt)) (''llvm.'' @ name) args))
         else if name \<in> {''atan2'', ''tan'', ''asin'', ''acos''} then
           emitCall (name @ floatTypeName fb) args (llvmFloatType fb)
         else if name = ''mod'' then
           andThen (iassert (length actuals = 2) ''mod takes two inputs'')
          (bind (compile (actuals ! 0)) (\<lambda>x. bind (compile (actuals ! 1)) (\<lambda>y. CreateBin BSRem x y)))
         else if name = ''det'' then
           andThen (iassert (length args = 1) [])
             (emitCall (name @ ''3'' @ floatTypeName fb) args (llvmFloatType fb))
         else if name = ''inv'' then
           andThen (iassert (length args = 1) [])
          (bind (nthDimension results 0) (\<lambda>result.
           bind (getSym result) (\<lambda>llvmResult.
             emitCall (name @ ''3'' @ floatTypeName fb) (args @ [llvmResult]) LVoid)))
         else if name = ''solve'' then solveCall actuals args
         else if name = ''loc'' then emitCall ''loc'' args (LInt 32)
         else fail (Internal ''intrinsic not found''))
        (\<lambda>call.
           if typeOf call \<noteq> LVoid then
             andThen (iassert (length results = 1) [])
               (bind (getSym (hd results)) (\<lambda>llvmVar. CreateStore call llvmVar))
           else ret ()))
     else
       bind (gets (\<lambda>b. name \<in> fst ` set (moduleFunctions b))) (\<lambda>known.
       if known then
         bind (gets (\<lambda>b. map (symtable_get (symtable b)) results)) (\<lambda>rs.
         if None \<in> set rs then fail (Internal ''symbol not found'')
         else bind (CreateCall LVoid name (args @ map the rs)) (\<lambda>call. ret ()))
       else fail (Internal ''function not found in module''))))"

section \<open>The statement visitor\<close>

fun compileStmt :: "Stmt \<Rightarrow> unit emitter" where
  "compileStmt (VarDecl var) = compile_VarDecl var"
| "compileStmt (AssignStmt var val cop) = compile_AssignStmt var val cop"
| "compileStmt (Store buffer idx val cop) = compile_Store buffer idx val cop"
| "compileStmt (FieldWrite elementOrSet fieldName val cop) = compile_FieldWrite elementOrSet fieldName val cop"
| "compileStmt (CallStmt results callee actuals) = compile_CallStmt results callee actuals"
| "compileStmt (Block first rest scoped) =
     andThen (if scoped then scope else ret ())
    (andThen (compileStmt first)
    (andThen (case rest of None \<Rightarrow> ret () | Some r \<Rightarrow> compileStmt r)
      (if scoped then unscope else ret ())))"
| "compileStmt (IfThenElse cond thenBody elseBody) =
     compile_IfThenElse (compile cond) (compileStmt thenBody) (compileStmt elseBody)"
| "compileStmt (ForRange var start end' body) =
     compile_ForRange var (compile start) (compile end') (compileStmt body)"
| "compileStmt (For var domain body) = compile_For var domain (compileStmt body)"
| "compileStmt (While cond body) = compile_While (compile cond) (compileStmt body)"
| "compileStmt (Print expr) = compile_Print expr"



section \<open>Reasoning about straight-line emission\<close>

lemma bind_Inr: "bind m f b = Inr r \<longleftrightarrow> (\<exists>x b1. m b = Inr (x, b1) \<and> f x b1 = Inr r)"
  by (auto simp: bind_def split: sum.splits)

lemma andThen_Inr: "andThen m k b = Inr r \<longleftrightarrow> (\<exists>x b1. m b = Inr (x, b1) \<and> k b1 = Inr r)"
  by (simp add: andThen_def bind_Inr)

lemma ret_Inr: "ret x b = Inr r \<longleftrightarrow> r = (x, b)"
  by (auto simp: ret_def)

lemma fail_Inr: "fail e b \<noteq> Inr r"
  by (simp add: fail_def)

lemma gets_Inr: "gets f b = Inr r \<longleftrightarrow> r = (f b, b)"
  by (auto simp: gets_def)

lemma modify_Inr: "modify f b = Inr r \<longleftrightarrow> r = ((), f b)"
  by (auto simp: modify_def)

lemma iassert_Inr: "iassert c msg b = Inr r \<longleftrightarrow> c \<and> r = ((), b)"
  by (auto simp: iassert_def ret_def fail_def)

lemma toTensor_Inr: "toTensor t b = Inr r \<longleftrightarrow> (\<exists>tt. t = Tensor tt \<and> r = (tt, b))"
  by (cases t) (auto simp: ret_def fail_def)

lemma getSym_Inr: "getSym v b = Inr r \<longleftrightarrow> (\<exists>x. symtable_get (symtable b) v = Some x \<and> r = (x, b))"
  by (auto simp: getSym_def split: option.splits)

fun computes :: "instr \<Rightarrow> nat option" where
  "computes (ILoad r p) = Some r"
| "computes (IExtractValue r agg i) = Some r"
| "computes (IGEP r p i) = Some r"
| "computes (IBin r bop x y) = Some r"
| "computes (IUn r uop x) = Some r"
| "computes (ICmp r p x y) = Some r"
| "computes (ICast r x ty) = Some r"
| "computes other = None"

definition appended :: "backend \<Rightarrow> instr list \<Rightarrow> backend \<Rightarrow> bool" where
  "appended b is b' \<longleftrightarrow>
     b' = b\<lparr>blocks := (blocks b)(insertBlock b := blocks b (insertBlock b) @ is),
            nextReg := nextReg b + length is\<rparr>
     \<and> map computes is = map Some [nextReg b ..< nextReg b + length is]"

lemma appended_refl: "appended b [] b"
  by (simp add: appended_def)

lemma appended_trans:
  assumes "appended b is1 b1" and "appended b1 is2 b2"
  shows "appended b (is1 @ is2) b2"
proof -
  have u: "[nextReg b ..< nextReg b + (length is1 + length is2)]
         = [nextReg b ..< nextReg b + length is1] @ [nextReg b + length is1 ..< nextReg b + length is1 + length is2]"
    by (metis add.assoc le_add1 upt_add_eq_append)
  from assms show ?thesis
    unfolding appended_def by (auto simp: u)
qed

lemma emitValue_appended:
  assumes "emitValue ty mk b = Inr (v, b')" and "\<And>r. computes (mk r) = Some r"
  shows "appended b [mk (nextReg b)] b' \<and> v = Reg (nextReg b) ty"
  using assms by (auto simp: emitValue_def appended_def insertInstr_def)

lemmas Create_defs = CreateLoad_def CreateExtractValue_def CreateGEP_def CreateBin_def
  CreateUn_def CreateCmp_def CreateCast_def

lemma Create_appended:
  "CreateLoad p b = Inr (v, b') \<Longrightarrow> appended b [ILoad (nextReg b) p] b' \<and> v = Reg (nextReg b) (pointee (typeOf p))"
  "CreateExtractValue agg i b = Inr (v, b') \<Longrightarrow> appended b [IExtractValue (nextReg b) agg i] b' \<and> v = Reg (nextReg b) (memberTy (typeOf agg) i)"
  "CreateGEP p k b = Inr (v, b') \<Longrightarrow> appended b [IGEP (nextReg b) p k] b' \<and> v = Reg (nextReg b) (typeOf p)"
  "CreateBin bop x y b = Inr (v, b') \<Longrightarrow> appended b [IBin (nextReg b) bop x y] b' \<and> v = Reg (nextReg b) (typeOf x)"
  "CreateUn uop x b = Inr (v, b') \<Longrightarrow> appended b [IUn (nextReg b) uop x] b' \<and> v = Reg (nextReg b) (typeOf x)"
  "CreateCmp pr x y b = Inr (v, b') \<Longrightarrow> appended b [ICmp (nextReg b) pr x y] b' \<and> v = Reg (nextReg b) (LInt 1)"
  unfolding Create_defs by (drule emitValue_appended; simp)+

definition straight :: "'a emitter \<Rightarrow> bool" where
  "straight m \<longleftrightarrow> (\<forall>b v b'. m b = Inr (v, b') \<longrightarrow> (\<exists>is. appended b is b'))"

lemma straightD: "straight m \<Longrightarrow> m b = Inr (v, b') \<Longrightarrow> \<exists>is. appended b is b'"
  by (auto simp: straight_def)

lemma straight_bind [intro!]: "straight m \<Longrightarrow> (\<And>x. straight (f x)) \<Longrightarrow> straight (bind m f)"
  unfolding straight_def bind_Inr by (metis appended_trans)

lemma straight_andThen [intro!]: "straight m \<Longrightarrow> straight k \<Longrightarrow> straight (andThen m k)"
  by (auto simp: andThen_def)

lemma straight_basic [intro!, simp]:
  "straight (ret x)" "straight (fail e)" "straight (gets g)" "straight (iassert c msg)"
  "straight (toTensor t)" "straight (getSym v)" "straight (getStorage v)"
  by (auto simp: straight_def ret_Inr fail_Inr gets_Inr iassert_Inr toTensor_Inr getSym_Inr
      getStorage_def split: option.splits intro: exI[of _ "[]"] appended_refl)

lemma straight_Create [intro!, simp]:
  "straight (CreateLoad p)" "straight (CreateExtractValue agg i)" "straight (CreateGEP p k)"
  "straight (CreateBin bop x y)" "straight (CreateUn uop x)" "straight (CreateCmp pr x y)"
  unfolding straight_def by (blast dest: Create_appended)+

lemma straight_if [intro!]: "(c \<Longrightarrow> straight m) \<Longrightarrow> (\<not> c \<Longrightarrow> straight k) \<Longrightarrow> straight (if c then m else k)"
  by simp

lemma straight_compile: "straight (compile e)"
proof (induction e)
  case (Literal t d)
  show ?case by (auto split: Type.splits ScalarKind.splits option.splits list.splits)
next
  case (FieldRead t e f)
  then show ?case by (auto simp: emitFieldRead_with_def Let_def split: Type.splits option.splits)
next
  case (Length t i)
  then show ?case by (cases i) auto
next
  case (IndexRead t e k)
  then show ?case by (auto simp: Let_def split: Type.splits)
qed (auto simp: arith_def compare_def compareAsserts_def logicalAsserts_def split: ScalarKind.splits)

fun regBelow :: "nat \<Rightarrow> operand \<Rightarrow> bool" where
  "regBelow k (Reg r ty) = (r < k)"
| "regBelow k other = True"

definition symtableWf :: "backend \<Rightarrow> bool" where
  "symtableWf b \<longleftrightarrow> (\<forall>s \<in> set (symtable b). \<forall>v x. s v = Some x \<longrightarrow> regBelow (nextReg b) x)"

lemma regBelow_mono: "regBelow k x \<Longrightarrow> k \<le> k' \<Longrightarrow> regBelow k' x"
  by (cases x) auto

lemma symtable_get_mem: "symtable_get ss v = Some x \<Longrightarrow> \<exists>s \<in> set ss. s v = Some x"
  by (induction ss) (auto split: option.splits)

lemma symtableWf_get: "symtableWf b \<Longrightarrow> symtable_get (symtable b) v = Some x \<Longrightarrow> regBelow (nextReg b) x"
  unfolding symtableWf_def by (blast dest: symtable_get_mem)

lemma appended_facts:
  assumes "appended b is b'"
  shows "nextReg b' = nextReg b + length is" "symtable b' = symtable b" "insertBlock b' = insertBlock b"
    "blocks b' (insertBlock b) = blocks b (insertBlock b) @ is" "globals b' = globals b"
    "storage b' = storage b" "buffers b' = buffers b" "floatBytes b' = floatBytes b"
    "numBlocks b' = numBlocks b"
    "map computes is = map Some [nextReg b ..< nextReg b + length is]"
  using assms by (auto simp: appended_def)

lemma appended_symtableWf: "appended b is b' \<Longrightarrow> symtableWf b \<Longrightarrow> symtableWf b'"
  unfolding symtableWf_def
  by (metis appended_facts(1,2) le_add1 regBelow_mono)

definition fresh :: "operand emitter \<Rightarrow> bool" where
  "fresh m \<longleftrightarrow> (\<forall>b v b'. m b = Inr (v, b') \<longrightarrow> regBelow (nextReg b') v)"

lemma fresh_bind [intro!]: "(\<And>x. fresh (f x)) \<Longrightarrow> fresh (bind m f)"
  unfolding fresh_def bind_Inr by blast

lemma fresh_andThen [intro!]: "fresh k \<Longrightarrow> fresh (andThen m k)"
  by (auto simp: andThen_def)

lemma fresh_if [intro!]: "(c \<Longrightarrow> fresh m) \<Longrightarrow> (\<not> c \<Longrightarrow> fresh k) \<Longrightarrow> fresh (if c then m else k)"
  by simp

lemma fresh_basic [intro!, simp]:
  "fresh (fail e)" "fresh (ret (ConstInt32 w))" "fresh (ret (ConstBool c))" "fresh (ret (ConstFP bs))"
  "fresh (ret (ConstData ty bs))" "fresh (ret (llvmInt n))"
  by (auto simp: fresh_def fail_Inr ret_Inr llvmInt_def)

lemma fresh_Create [intro!, simp]:
  "fresh (CreateLoad p)" "fresh (CreateExtractValue agg i)" "fresh (CreateGEP p k)"
  "fresh (CreateBin bop x y)" "fresh (CreateUn uop x)" "fresh (CreateCmp pr x y)"
  unfolding fresh_def by (auto dest!: Create_appended simp: appended_facts)

lemma fresh_compile: "(\<And>t x. e \<noteq> VarExpr t x) \<Longrightarrow> fresh (compile e)"
proof (cases e)
  case (FieldRead t x f)
  show ?thesis unfolding FieldRead
    by (auto simp: emitFieldRead_with_def Let_def split: Type.splits option.splits)
next
  case (Length t i)
  show ?thesis unfolding Length by (cases i) auto
qed (auto simp: arith_def compare_def Let_def
      split: Type.splits ScalarKind.splits option.splits list.splits)

lemma compile_bound:
  assumes "symtableWf b" and "compile e b = Inr (v, b')"
  shows "regBelow (nextReg b') v"
proof (cases "\<exists>t x. e = VarExpr t x")
  case True
  then obtain t x where VarExpr: "e = VarExpr t x" by blast
  from assms(2) VarExpr have found: "symtable_contains (symtable b) x"
    by (cases "symtable_contains (symtable b) x") (simp_all add: bind_def gets_def fail_def)
  from assms(2) VarExpr found have
    "bind (getSym x) (\<lambda>val0.
       bind (gets (\<lambda>b. x \<in> set (globals b))) (\<lambda>isGlobal.
       bind (if isGlobal then CreateLoad val0 else ret val0) (\<lambda>val1.
       if isScalar t \<and> isPointerTy (typeOf val1) then CreateLoad val1 else ret val1))) b = Inr (v, b')"
    by (simp add: bind_def gets_def)
  then obtain val0 val1 b1 where
    g: "symtable_get (symtable b) x = Some val0" and
    s1: "(if x \<in> set (globals b) then CreateLoad val0 else ret val0) b = Inr (val1, b1)" and
    s2: "(if isScalar t \<and> isPointerTy (typeOf val1) then CreateLoad val1 else ret val1) b1 = Inr (v, b')"
    unfolding bind_Inr gets_Inr getSym_Inr by blast
  have b0: "regBelow (nextReg b) val0" using assms(1) g by (rule symtableWf_get)
  have b1: "regBelow (nextReg b1) val1"
  proof (cases "x \<in> set (globals b)")
    case True
    with s1 show ?thesis using fresh_Create(1) by (auto simp: fresh_def)
  next
    case False
    with s1 b0 show ?thesis by (simp add: ret_Inr)
  qed
  show ?thesis
  proof (cases "isScalar t \<and> isPointerTy (typeOf val1)")
    case True
    with s2 show ?thesis using fresh_Create(1) by (auto simp: fresh_def)
  next
    case False
    with s2 b1 show ?thesis by (auto simp add: ret_Inr)
  qed
next
  case False
  then have "fresh (compile e)" by (intro fresh_compile) blast
  with assms show ?thesis by (auto simp: fresh_def)
qed

lemma appended_unique: "appended b is b' \<Longrightarrow> appended b js b' \<Longrightarrow> is = js"
  by (metis appended_facts(4) same_append_eq)

lemma straight_emitComputeLenIS [intro!, simp]: "straight (emitComputeLenIS i)"
  unfolding emitComputeLenIS_def by (cases i) (auto intro: straight_compile)

lemma straight_mulIndexSets [intro!, simp]: "straight (mulIndexSets acc rest)"
  by (induction rest arbitrary: acc) auto

lemma straight_emitComputeLenDom [intro!, simp]: "straight (emitComputeLenDom d)"
  unfolding emitComputeLenDom_def by (auto split: list.splits)

lemma straight_mulDimensions [intro!, simp]: "straight (mulDimensions acc rest)"
  by (induction rest arbitrary: acc) auto

lemma straight_emitComputeLenDense [intro!, simp]: "straight (emitComputeLenDense t)"
  unfolding emitComputeLenDense_def by (auto split: list.splits)

lemma fresh_emitComputeLenIS [intro!, simp]: "fresh (emitComputeLenIS i)"
  unfolding emitComputeLenIS_def by (cases i) auto

lemma mulIndexSets_bound:
  "mulIndexSets acc rest b = Inr (v, b') \<Longrightarrow> regBelow (nextReg b) acc \<Longrightarrow> regBelow (nextReg b') v"
proof (induction rest arbitrary: acc b)
  case Nil
  then show ?case by (simp add: ret_Inr)
next
  case (Cons i rest)
  from Cons.prems(1) obtain l b1 acc' b2 where
    "emitComputeLenIS i b = Inr (l, b1)" "CreateBin BMul acc l b1 = Inr (acc', b2)"
    "mulIndexSets acc' rest b2 = Inr (v, b')"
    by (auto simp: bind_Inr)
  then show ?case using Cons.IH fresh_Create(4) unfolding fresh_def by blast
qed

lemma fresh_emitComputeLenDom [intro!, simp]: "fresh (emitComputeLenDom d)"
  unfolding fresh_def emitComputeLenDom_def
  using fresh_emitComputeLenIS mulIndexSets_bound
  by (auto simp: bind_Inr fail_Inr fresh_def split: list.splits)

lemma mulDimensions_bound:
  "mulDimensions acc rest b = Inr (v, b') \<Longrightarrow> regBelow (nextReg b) acc \<Longrightarrow> regBelow (nextReg b') v"
proof (induction rest arbitrary: acc b)
  case Nil
  then show ?case by (simp add: ret_Inr)
next
  case (Cons i rest)
  from Cons.prems(1) obtain l b1 acc' b2 where
    "emitComputeLenDom i b = Inr (l, b1)" "CreateBin BMul acc l b1 = Inr (acc', b2)"
    "mulDimensions acc' rest b2 = Inr (v, b')"
    by (auto simp: bind_Inr)
  then show ?case using Cons.IH fresh_Create(4) unfolding fresh_def by blast
qed

lemma fresh_emitComputeLenDense [intro!, simp]: "fresh (emitComputeLenDense t)"
  unfolding fresh_def emitComputeLenDense_def
  using fresh_emitComputeLenDom mulDimensions_bound
  by (auto simp: bind_Inr fail_Inr ret_Inr llvmInt_def fresh_def split: list.splits if_splits)

subsection \<open>Frame\<close>

lemma execInstrs_append: "execInstrs (xs @ ys) m = execInstrs ys (execInstrs xs m)"
  by (induction xs arbitrary: m) auto

lemma evalOp_cong:
  "regs m' = regs m \<Longrightarrow> arguments m' = arguments m \<Longrightarrow> globalAddr m' = globalAddr m
     \<Longrightarrow> dataAddr m' = dataAddr m \<Longrightarrow> evalOp m' v = evalOp m v"
  by (cases v) auto

lemma exec_computes:
  assumes "computes i = Some r"
  shows "memory (exec i m) = memory m" "arguments (exec i m) = arguments m"
    "globalAddr (exec i m) = globalAddr m" "r' \<noteq> r \<Longrightarrow> regs (exec i m) r' = regs m r'"
    "dataAddr (exec i m) = dataAddr m"
  using assms by (cases i; auto simp: setReg_def logEvent_def split: rval.splits)+

lemma exec_frame:
  assumes "computes i = Some r" and "regBelow k v" and "k \<le> r"
  shows "evalOp (exec i m) v = evalOp m v"
  using assms exec_computes(2,3,4,5)[OF assms(1), where m = m] by (cases v) auto

lemma execInstrs_frame:
  assumes "map computes is = map Some [k ..< k + length is]"
  shows "(regBelow k v \<longrightarrow> evalOp (execInstrs is m) v = evalOp m v)
       \<and> memory (execInstrs is m) = memory m"
  using assms
proof (induction "is" arbitrary: k m)
  case Nil
  then show ?case by simp
next
  case (Cons i rest)
  have u: "[k ..< k + length (i # rest)] = k # [Suc k ..< Suc k + length rest]"
    by (simp add: upt_rec)
  from Cons.prems have c: "computes i = Some k"
    and r: "map computes rest = map Some [Suc k ..< Suc k + length rest]"
    unfolding u by auto
  from Cons.IH[OF r, of "exec i m"] show ?case
    using exec_frame[OF c, where k = k and v = v and m = m] exec_computes(1)[OF c, where m = m]
      regBelow_mono[of k v "Suc k"]
    by auto
qed

section \<open>Evaluating the examples\<close>

lemmas builder_defs = bind_def andThen_def ret_def fail_def gets_def modify_def iassert_def
  getSym_def symtable_contains_def emitValue_def emitInstr_def insertInstr_def llvmInt_def
  CreateLoad_def CreateBin_def CreateCmp_def CreatePHI_def CreateCall_def CreateBr_def
  CreateCondBr_def BasicBlockCreate_def SetInsertPoint_def GetInsertBlock_def addIncoming_def
  scope_def unscope_def insertSym_def getOrInsertFunction_def emitPrintf_def

lemmas run_defs = step_def stepInstr_def setReg_def logEvent_def binopVal_def cmpVal_def
  gepVal_def memberVal_def

lemma steps_numeral:
  "steps (numeral k) P c = (case step P c of None \<Rightarrow> None | Some c' \<Rightarrow> steps (pred_numeral k) P c')"
  by (simp add: numeral_eq_Suc)

section \<open>Running straight-line code and counted loops\<close>

text \<open>
  An instruction is plain when control falls through to the next one; \<open>defOf\<close> is the
  register it writes. \<open>plainCode k\<close> is code of plain instructions that write no register
  below \<open>k\<close>.
\<close>

fun plain :: "instr \<Rightarrow> bool" where
  "plain (IPhi r inc) = False"
| "plain (IBr t) = False"
| "plain (ICondBr c t f) = False"
| "plain IRetVoid = False"
| "plain other = True"

fun defOf :: "instr \<Rightarrow> nat option" where
  "defOf (ILoad r p) = Some r"
| "defOf (IExtractValue r agg i) = Some r"
| "defOf (IGEP r p i) = Some r"
| "defOf (IBin r bop x y) = Some r"
| "defOf (IUn r uop x) = Some r"
| "defOf (ICmp r p x y) = Some r"
| "defOf (ICast r x ty) = Some r"
| "defOf (IAlloca r ty) = Some r"
| "defOf (IPhi r inc) = Some r"
| "defOf (ICall ro name args) = ro"
| "defOf other = None"

definition plainCode :: "nat \<Rightarrow> instr list \<Rightarrow> bool" where
  "plainCode k code \<longleftrightarrow>
     list_all (\<lambda>i. plain i \<and> (case defOf i of None \<Rightarrow> True | Some r \<Rightarrow> k \<le> r)) code"

lemma plainCode_simps [simp]:
  "plainCode k []"
  "plainCode k (i # code) \<longleftrightarrow> plain i \<and> (case defOf i of None \<Rightarrow> True | Some r \<Rightarrow> k \<le> r) \<and> plainCode k code"
  "plainCode k (xs @ ys) \<longleftrightarrow> plainCode k xs \<and> plainCode k ys"
  by (auto simp: plainCode_def)

lemma plainCode_plain: "plainCode k code \<Longrightarrow> list_all plain code"
  by (induction code) auto

lemma stepInstr_plain: "plain i \<Longrightarrow> stepInstr i (blk, pc, prev, m) = Some (blk, Suc pc, prev, exec i m)"
  by (cases i) (simp_all add: stepInstr_def)

lemma steps_add:
  "steps (a + b) P c = (case steps a P c of None \<Rightarrow> None | Some c' \<Rightarrow> steps b P c')"
  by (induction a arbitrary: c) (auto split: option.splits)

lemma steps_plain:
  assumes "drop pc (P blk) = code @ rest" and "list_all plain code"
  shows "steps (length code) P (blk, pc, prev, m) = Some (blk, pc + length code, prev, execInstrs code m)"
  using assms
proof (induction code arbitrary: pc m)
  case Nil
  show ?case by simp
next
  case (Cons i code)
  from Cons.prems(1) have lt: "pc < length (P blk)" by (cases "pc < length (P blk)") auto
  from Cons.prems(1) lt have at: "P blk ! pc = i" and dr: "drop (Suc pc) (P blk) = code @ rest"
    by (simp_all add: Cons_nth_drop_Suc[symmetric])
  from Cons.prems(2) have pl: "plain i" "list_all plain code" by simp_all
  have "step P (blk, pc, prev, m) = Some (blk, Suc pc, prev, exec i m)"
    by (simp add: step_def lt at stepInstr_plain[OF pl(1)])
  then show ?case using Cons.IH[OF dr pl(2), of "exec i m"] by simp
qed

lemma exec_plain_frame:
  assumes "plain i" and "case defOf i of None \<Rightarrow> True | Some r \<Rightarrow> k \<le> r"
  shows "r' < k \<Longrightarrow> regs (exec i m) r' = regs m r'" "arguments (exec i m) = arguments m"
    "globalAddr (exec i m) = globalAddr m" "dataAddr (exec i m) = dataAddr m"
  using assms by (cases i; auto simp: setReg_def logEvent_def Let_def split: rval.splits option.splits)+

lemma execInstrs_plain_frame':
  "plainCode k code \<Longrightarrow>
     (\<forall>r' < k. regs (execInstrs code m) r' = regs m r') \<and> arguments (execInstrs code m) = arguments m
   \<and> globalAddr (execInstrs code m) = globalAddr m \<and> dataAddr (execInstrs code m) = dataAddr m"
proof (induction code arbitrary: m)
  case Nil
  show ?case by simp
next
  case (Cons i code)
  from Cons.prems have i: "plain i" "case defOf i of None \<Rightarrow> True | Some r \<Rightarrow> k \<le> r"
    and c: "plainCode k code" by simp_all
  show ?case using Cons.IH[OF c, of "exec i m"] exec_plain_frame[OF i, where m = m] by simp
qed

lemma execInstrs_plain_frame:
  assumes "plainCode k code"
  shows "r' < k \<Longrightarrow> regs (execInstrs code m) r' = regs m r'" "arguments (execInstrs code m) = arguments m"
    "globalAddr (execInstrs code m) = globalAddr m" "dataAddr (execInstrs code m) = dataAddr m"
  using execInstrs_plain_frame'[OF assms, of m] by simp_all

lemma execInstrs_plain_evalOp:
  "plainCode k code \<Longrightarrow> regBelow k v \<Longrightarrow> evalOp (execInstrs code m) v = evalOp m v"
  by (cases v) (simp_all add: execInstrs_plain_frame)

lemma evalOp_setReg_below: "regBelow r v \<Longrightarrow> evalOp (setReg r x m) v = evalOp m v"
  by (cases v) (auto simp: setReg_def)

text \<open>
  The block of a counted loop: the counter is a phi node that starts from \<open>v0\<close> when the
  block is entered from \<open>e\<close>; after the body \<open>code\<close> the counter is incremented, compared
  (signed) with \<open>bound\<close>, and control goes back to the block or leaves to \<open>E\<close>.
\<close>

definition loopBlock ::
  "nat \<Rightarrow> nat \<Rightarrow> operand \<Rightarrow> nat \<Rightarrow> nat \<Rightarrow> nat \<Rightarrow> instr list \<Rightarrow> operand \<Rightarrow> instr list" where
  "loopBlock ri rn v0 e L E code bound =
     IPhi ri [(v0, e), (Reg rn (LInt 32), L)] # code @
       [IBin rn BAdd (Reg ri (LInt 32)) (ConstInt32 1),
        ICmp (Suc rn) SLT (Reg rn (LInt 32)) bound,
        ICondBr (Reg (Suc rn) (LInt 1)) L E]"

text \<open>What one pass with counter value \<open>i\<close> does to the machine.\<close>

definition loopPass :: "instr list \<Rightarrow> nat \<Rightarrow> nat \<Rightarrow> 32 word \<Rightarrow> nat \<Rightarrow> machine \<Rightarrow> machine" where
  "loopPass code ri rn B i m =
     setReg (Suc rn) (VBool (sint (word_of_nat (Suc i) :: 32 word) < sint B))
       (setReg rn (VInt (word_of_nat (Suc i)))
         (execInstrs code (setReg ri (VInt (word_of_nat i)) m)))"

lemma loop_pass:
  assumes PL: "P L = loopBlock ri rn v0 e L E code bound" and eL: "e \<noteq> L"
    and pc: "plainCode k0 code" and ri: "ri < k0" and rn: "k0 \<le> rn" and bd: "regBelow ri bound"
    and B: "evalOp m bound = VInt B"
    and inc: "(prev = e \<and> evalOp m v0 = VInt (word_of_nat i)) \<or> (prev = L \<and> regs m rn = VInt (word_of_nat i))"
  shows "steps (length code + 4) P (L, 0, prev, m)
           = Some (if sint (word_of_nat (Suc i) :: 32 word) < sint B then L else E, 0, L,
                   loopPass code ri rn B i m)"
    and "evalOp (loopPass code ri rn B i m) bound = VInt B"
    and "regs (loopPass code ri rn B i m) rn = VInt (word_of_nat (Suc i))"
proof -
  define m1 where "m1 = setReg ri (VInt (word_of_nat i)) m"
  define m2 where "m2 = execInstrs code m1"
  define m3 where "m3 = setReg rn (VInt (word_of_nat (Suc i))) m2"
  define m4 where "m4 = setReg (Suc rn) (VBool (sint (word_of_nat (Suc i) :: 32 word) < sint B)) m3"
  have m4: "m4 = loopPass code ri rn B i m" by (simp add: loopPass_def m1_def m2_def m3_def m4_def)
  have bd': "regBelow k0 bound" "regBelow rn bound" "regBelow (Suc rn) bound"
    using bd ri rn by (auto intro: regBelow_mono)
  have B1: "evalOp m1 bound = VInt B" using B bd by (simp add: m1_def evalOp_setReg_below)
  have B2: "evalOp m2 bound = VInt B" using B1 by (simp add: m2_def execInstrs_plain_evalOp[OF pc bd'(1)])
  have B3: "evalOp m3 bound = VInt B" using B2 bd'(2) by (simp add: m3_def evalOp_setReg_below)
  have B4: "evalOp m4 bound = VInt B" using B3 bd'(3) by (simp add: m4_def evalOp_setReg_below)
  have i2: "regs m2 ri = VInt (word_of_nat i)"
    by (simp add: m2_def execInstrs_plain_frame(1)[OF pc ri] m1_def setReg_def)
  have s1: "step P (L, 0, prev, m) = Some (L, 1, prev, m1)"
    using inc eL by (auto simp: step_def PL loopBlock_def stepInstr_def m1_def)
  have d1: "drop 1 (P L) = code @ [IBin rn BAdd (Reg ri (LInt 32)) (ConstInt32 1),
        ICmp (Suc rn) SLT (Reg rn (LInt 32)) bound, ICondBr (Reg (Suc rn) (LInt 1)) L E]"
    by (simp add: PL loopBlock_def)
  have s2: "steps (length code) P (L, 1, prev, m1) = Some (L, 1 + length code, prev, m2)"
    unfolding m2_def by (rule steps_plain[where P = P and blk = L, OF d1 plainCode_plain[OF pc]])
  define l2 where "l2 = [IBin rn BAdd (Reg ri (LInt 32)) (ConstInt32 1),
        ICmp (Suc rn) SLT (Reg rn (LInt 32)) bound]"
  have d2: "drop (1 + length code) (P L) = l2 @ [ICondBr (Reg (Suc rn) (LInt 1)) L E]"
    by (simp add: PL loopBlock_def l2_def)
  have pl2: "list_all plain l2" by (simp add: l2_def)
  have e3: "exec (IBin rn BAdd (Reg ri (LInt 32)) (ConstInt32 1)) m2 = m3"
    by (simp add: m3_def i2 binopVal_def add.commute)
  have r3: "regs m3 rn = VInt (word_of_nat (Suc i))" by (simp add: m3_def setReg_def)
  have e4: "exec (ICmp (Suc rn) SLT (Reg rn (LInt 32)) bound) m3 = m4"
    by (simp add: m4_def r3 B3 cmpVal_def)
  have e34: "execInstrs l2 m2 = m4"
    unfolding l2_def by (simp only: execInstrs.simps e3 e4)
  have s3: "steps (length l2) P (L, 1 + length code, prev, m2) = Some (L, 1 + length code + length l2, prev, m4)"
    using steps_plain[where P = P and blk = L, OF d2 pl2, of prev m2] by (simp only: e34)
  have at: "P L ! (1 + length code + length l2) = ICondBr (Reg (Suc rn) (LInt 1)) L E"
    "1 + length code + length l2 < length (P L)"
    by (simp_all add: PL loopBlock_def nth_append l2_def)
  have s4: "step P (L, 1 + length code + length l2, prev, m4)
      = Some (if sint (word_of_nat (Suc i) :: 32 word) < sint B then L else E, 0, L, m4)"
    unfolding step_def using at by (simp add: stepInstr_def) (simp add: m4_def setReg_def)
  have t1: "steps 1 P (L, 0, prev, m) = Some (L, 1, prev, m1)" using s1 by simp
  have t4: "steps 1 P (L, 1 + length code + length l2, prev, m4)
      = Some (if sint (word_of_nat (Suc i) :: 32 word) < sint B then L else E, 0, L, m4)"
    using s4 by simp
  have "steps (1 + (length code + (length l2 + 1))) P (L, 0, prev, m)
      = Some (if sint (word_of_nat (Suc i) :: 32 word) < sint B then L else E, 0, L, m4)"
    by (simp only: steps_add[of 1] steps_add[of "length code"] steps_add[of "length l2"] t1 s2 s3 t4
        option.case)
  moreover have "1 + (length code + (length l2 + 1)) = length code + 4" by (simp add: l2_def)
  ultimately show "steps (length code + 4) P (L, 0, prev, m)
           = Some (if sint (word_of_nat (Suc i) :: 32 word) < sint B then L else E, 0, L,
                   loopPass code ri rn B i m)"
    by (simp only: m4)
  show "evalOp (loopPass code ri rn B i m) bound = VInt B" using B4 by (simp add: m4)
  show "regs (loopPass code ri rn B i m) rn = VInt (word_of_nat (Suc i))"
    by (simp add: m4[symmetric] m4_def m3_def setReg_def)
qed

lemma loop_run:
  assumes PL: "P L = loopBlock ri rn v0 e L E code bound" and eL: "e \<noteq> L"
    and pc: "plainCode k0 code" and ri: "ri < k0" and rn: "k0 \<le> rn" and bd: "regBelow ri bound"
    and B: "evalOp m bound = VInt B"
    and inc: "(prev = e \<and> evalOp m v0 = VInt (word_of_nat k)) \<or> (prev = L \<and> regs m rn = VInt (word_of_nat k))"
    and cont: "\<forall>i < j. sint (word_of_nat (Suc (k + i)) :: 32 word) < sint B"
    and stop: "\<not> sint (word_of_nat (Suc (k + j)) :: 32 word) < sint B"
  shows "steps (Suc j * (length code + 4)) P (L, 0, prev, m)
           = Some (E, 0, L, foldl (\<lambda>m i. loopPass code ri rn B i m) m [k ..< k + Suc j])"
  using B inc cont stop
proof (induction j arbitrary: k prev m)
  case 0
  from loop_pass(1)[where P = P and L = L, OF PL eL pc ri rn bd "0.prems"(1,2)] "0.prems"(4)
  show ?case by simp
next
  case (Suc j)
  note p = loop_pass[where P = P and L = L, OF PL eL pc ri rn bd Suc.prems(1,2)]
  from Suc.prems(3) have c0: "sint (word_of_nat (Suc k) :: 32 word) < sint B" by force
  have first: "steps (length code + 4) P (L, 0, prev, m) = Some (L, 0, L, loopPass code ri rn B k m)"
    using p(1) c0 by simp
  have cont': "\<forall>i < j. sint (word_of_nat (Suc (Suc k + i)) :: 32 word) < sint B"
    using Suc.prems(3) by (metis Suc_less_eq add_Suc_shift)
  have stop': "\<not> sint (word_of_nat (Suc (Suc k + j)) :: 32 word) < sint B"
    using Suc.prems(4) by simp
  have inc': "(L = e \<and> evalOp (loopPass code ri rn B k m) v0 = VInt (word_of_nat (Suc k)))
      \<or> (L = L \<and> regs (loopPass code ri rn B k m) rn = VInt (word_of_nat (Suc k)))"
    using p(3) by simp
  note IH = Suc.IH[OF p(2) inc' cont' stop']
  have u: "[k ..< k + Suc (Suc j)] = k # [Suc k ..< Suc k + Suc j]" by (simp add: upt_rec)
  let ?f = "\<lambda>m i. loopPass code ri rn B i m"
  have "steps ((length code + 4) + Suc j * (length code + 4)) P (L, 0, prev, m)
      = steps (Suc j * (length code + 4)) P (L, 0, L, loopPass code ri rn B k m)"
    by (simp only: steps_add[of "length code + 4"] first option.case)
  also have "\<dots> = Some (E, 0, L, foldl ?f (loopPass code ri rn B k m) [Suc k ..< Suc k + Suc j])"
    by (rule IH)
  also have "foldl ?f (loopPass code ri rn B k m) [Suc k ..< Suc k + Suc j] = foldl ?f m [k ..< k + Suc (Suc j)]"
    by (simp only: u foldl_Cons)
  finally have "steps ((length code + 4) + Suc j * (length code + 4)) P (L, 0, prev, m)
      = Some (E, 0, L, foldl ?f m [k ..< k + Suc (Suc j)])" .
  then show ?case by (simp only: mult_Suc)
qed

lemma sint_llvmInt:
  assumes "k < 2 ^ 31"
  shows "sint (word_of_nat k :: 32 word) = int k"
proof -
  have "(word_of_nat k :: 32 word) = word_of_int (int k)" by simp
  then have "sint (word_of_nat k :: 32 word) = (int k + 2 ^ 31) mod 2 ^ 32 - 2 ^ 31"
    by (simp only: int_word_sint) simp
  with assms show ?thesis by simp
qed



section \<open>The length of a reduced system tensor\<close>

definition loadVal :: "machine \<Rightarrow> rval \<Rightarrow> rval" where
  "loadVal m p = (case p of VPtr a \<Rightarrow> memory m a | other \<Rightarrow> VUndef)"

lemma staticDimsD: "staticDims t \<Longrightarrow> d \<in> set (getDimensions t) \<Longrightarrow> i \<in> set d \<Longrightarrow> isRange i"
  by (auto simp: staticDims_def list_all_iff)

lemma binopVal_Mul [simp]: "binopVal BMul (VInt x) (VInt y) = VInt (x * y)"
  by (simp add: binopVal_def)

lemma mulIndexSets_static:
  assumes "\<forall>i \<in> set rest. isRange i" and "mulIndexSets acc rest b = Inr (v, b')"
    and "regBelow (nextReg b) acc"
  shows "\<exists>is. appended b is b' \<and> (\<forall>m a. evalOp m acc = VInt a \<longrightarrow>
            evalOp (execInstrs is m) v = VInt (a * of_nat (prod_list (map getSizeIS rest))))"
  using assms
proof (induction rest arbitrary: acc b)
  case Nil
  then show ?case by (auto simp: ret_Inr intro!: exI[of _ "[]"] appended_refl)
next
  case (Cons i rest)
  from Cons.prems(1) obtain n where i: "i = RangeIS n" by (cases i) auto
  from Cons.prems(2) i obtain acc' b2 where
    mul: "CreateBin BMul acc (llvmInt n) b = Inr (acc', b2)" and
    rec: "mulIndexSets acc' rest b2 = Inr (v, b')"
    by (auto simp: bind_Inr emitComputeLenIS_def ret_Inr)
  from Create_appended(4)[OF mul] have
    a1: "appended b [IBin (nextReg b) BMul acc (llvmInt n)] b2" and
    acc': "acc' = Reg (nextReg b) (typeOf acc)" by auto
  have bnd: "regBelow (nextReg b2) acc'" using a1 acc' by (simp add: appended_facts)
  from Cons.IH[OF _ rec bnd] Cons.prems(1) obtain js where
    a2: "appended b2 js b'" and
    v: "\<And>m a. evalOp m acc' = VInt a \<Longrightarrow>
          evalOp (execInstrs js m) v = VInt (a * of_nat (prod_list (map getSizeIS rest)))"
    by auto
  show ?case
  proof (intro exI conjI allI impI)
    show "appended b ([IBin (nextReg b) BMul acc (llvmInt n)] @ js) b'"
      using a1 a2 by (rule appended_trans)
  next
    fix m a assume "evalOp m acc = VInt a"
    then have "evalOp (exec (IBin (nextReg b) BMul acc (llvmInt n)) m) acc' = VInt (a * of_nat n)"
      by (simp add: acc' setReg_def llvmInt_def)
    from v[OF this]
    show "evalOp (execInstrs ([IBin (nextReg b) BMul acc (llvmInt n)] @ js) m) v
          = VInt (a * of_nat (prod_list (map getSizeIS (i # rest))))"
      by (simp add: i mult.assoc)
  qed
qed

lemma emitComputeLenDom_static:
  assumes "\<forall>i \<in> set d. isRange i" and "emitComputeLenDom d b = Inr (v, b')"
  shows "\<exists>is. appended b is b' \<and> (\<forall>m. evalOp (execInstrs is m) v = VInt (of_nat (getSizeDom d)))"
proof (cases d)
  case Nil
  with assms show ?thesis by (simp add: emitComputeLenDom_def fail_Inr)
next
  case (Cons i rest)
  from assms(1) Cons obtain n where i: "i = RangeIS n" by (cases i) auto
  from assms(2) Cons i have rec: "mulIndexSets (llvmInt n) rest b = Inr (v, b')"
    by (auto simp: emitComputeLenDom_def bind_Inr emitComputeLenIS_def ret_Inr)
  have "regBelow (nextReg b) (llvmInt n)" by (simp add: llvmInt_def)
  from mulIndexSets_static[OF _ rec this] assms(1) Cons obtain js where
    "appended b js b'" and
    "\<And>m a. evalOp m (llvmInt n) = VInt a \<Longrightarrow>
        evalOp (execInstrs js m) v = VInt (a * of_nat (prod_list (map getSizeIS rest)))"
    by auto
  then show ?thesis
    by (intro exI[of _ js]) (simp add: llvmInt_def getSizeDom_def Cons i)
qed

lemma mulDimensions_static:
  assumes "\<forall>d \<in> set rest. \<forall>i \<in> set d. isRange i" and "mulDimensions acc rest b = Inr (v, b')"
    and "regBelow (nextReg b) acc"
  shows "\<exists>is. appended b is b' \<and> (\<forall>m a. evalOp m acc = VInt a \<longrightarrow>
            evalOp (execInstrs is m) v = VInt (a * of_nat (prod_list (map getSizeDom rest))))"
  using assms
proof (induction rest arbitrary: acc b)
  case Nil
  then show ?case by (auto simp: ret_Inr intro!: exI[of _ "[]"] appended_refl)
next
  case (Cons d rest)
  from Cons.prems(2) obtain l b1 acc' b2 where
    dm: "emitComputeLenDom d b = Inr (l, b1)" and
    mul: "CreateBin BMul acc l b1 = Inr (acc', b2)" and
    rec: "mulDimensions acc' rest b2 = Inr (v, b')"
    by (auto simp: bind_Inr)
  from emitComputeLenDom_static[OF _ dm] Cons.prems(1) obtain ds where
    a0: "appended b ds b1" and
    lv: "\<And>m. evalOp (execInstrs ds m) l = VInt (of_nat (getSizeDom d))"
    by auto
  from Create_appended(4)[OF mul] have
    a1: "appended b1 [IBin (nextReg b1) BMul acc l] b2" and
    acc': "acc' = Reg (nextReg b1) (typeOf acc)" by auto
  have bnd: "regBelow (nextReg b2) acc'" using a1 acc' by (simp add: appended_facts)
  from Cons.IH[OF _ rec bnd] Cons.prems(1) obtain js where
    a2: "appended b2 js b'" and
    v: "\<And>m a. evalOp m acc' = VInt a \<Longrightarrow>
          evalOp (execInstrs js m) v = VInt (a * of_nat (prod_list (map getSizeDom rest)))"
    by auto
  show ?case
  proof (intro exI conjI allI impI)
    show "appended b (ds @ [IBin (nextReg b1) BMul acc l] @ js) b'"
      using a0 a1 a2 by (blast intro: appended_trans)
  next
    fix m a assume a: "evalOp m acc = VInt a"
    have "evalOp (execInstrs ds m) acc = VInt a"
      using execInstrs_frame[OF appended_facts(10)[OF a0], of acc m] Cons.prems(3) a by simp
    then have "evalOp (exec (IBin (nextReg b1) BMul acc l) (execInstrs ds m)) acc'
               = VInt (a * of_nat (getSizeDom d))"
      by (simp add: acc' setReg_def lv)
    from v[OF this]
    show "evalOp (execInstrs (ds @ [IBin (nextReg b1) BMul acc l] @ js) m) v
          = VInt (a * of_nat (prod_list (map getSizeDom (d # rest))))"
      by (simp add: execInstrs_append mult.assoc)
  qed
qed

lemma emitComputeLenDense_static:
  assumes "staticDims t" and "order t \<noteq> 0" and "emitComputeLenDense t b = Inr (v, b')"
  shows "\<exists>is. appended b is b' \<and> (\<forall>m. evalOp (execInstrs is m) v = VInt (of_nat (tensorSize t)))"
proof (cases "getDimensions t")
  case Nil
  with assms show ?thesis by (simp add: order_def)
next
  case (Cons d rest)
  from assms(2,3) Cons obtain l b1 where
    dm: "emitComputeLenDom d b = Inr (l, b1)" and
    rec: "mulDimensions l rest b1 = Inr (v, b')"
    by (auto simp: emitComputeLenDense_def bind_Inr)
  from emitComputeLenDom_static[OF _ dm] assms(1) Cons obtain ds where
    a0: "appended b ds b1" and
    lv: "\<And>m. evalOp (execInstrs ds m) l = VInt (of_nat (getSizeDom d))"
    by (auto simp: staticDims_def list_all_iff)
  have bnd: "regBelow (nextReg b1) l" using dm fresh_emitComputeLenDom by (auto simp: fresh_def)
  from mulDimensions_static[OF _ rec bnd] assms(1) Cons obtain js where
    a2: "appended b1 js b'" and
    v: "\<And>m a. evalOp m l = VInt a \<Longrightarrow>
          evalOp (execInstrs js m) v = VInt (a * of_nat (prod_list (map getSizeDom rest)))"
    by (auto simp: staticDims_def list_all_iff)
  show ?thesis
  proof (intro exI conjI allI)
    show "appended b (ds @ js) b'" using a0 a2 by (rule appended_trans)
  next
    fix m
    from v[OF lv, of m]
    show "evalOp (execInstrs (ds @ js) m) v = VInt (of_nat (tensorSize t))"
      by (simp add: execInstrs_append tensorSize_def Cons)
  qed
qed

lemma evalOp_setReg: "regBelow k v \<Longrightarrow> k \<le> r \<Longrightarrow> evalOp (setReg r x m) v = evalOp m v"
  by (cases v) (auto simp: setReg_def)

lemma evalOp_logEvent [simp]: "evalOp (logEvent e m) v = evalOp m v"
  by (cases v) (auto simp: logEvent_def)

lemma core4:
  assumes "regBelow k ts" and "regBelow k ss"
  shows "regs (execInstrs [IExtractValue k ss 0, IExtractValue (Suc k) ts 2,
             IGEP (Suc (Suc k)) (Reg (Suc k) ty1) (Reg k ty0),
             ILoad (Suc (Suc (Suc k))) (Reg (Suc (Suc k)) ty2)] m) (Suc (Suc (Suc k)))
         = loadVal m (gepVal (memberVal (evalOp m ts) 2) (memberVal (evalOp m ss) 0))"
proof -
  have t: "evalOp (setReg k x m) ts = evalOp m ts" for x
    using assms(1) by (simp add: evalOp_setReg)
  show ?thesis
    by (cases "gepVal (memberVal (evalOp m ts) 2) (memberVal (evalOp m ss) 0)")
       (simp_all add: t loadVal_def, simp_all add: setReg_def logEvent_def)
qed

definition lengthOfSystemReduced ::
  "Expr TensorType \<Rightarrow> operand \<Rightarrow> operand \<Rightarrow> operand \<Rightarrow> machine \<Rightarrow> bool" where
  "lengthOfSystemReduced tensorType targetSet storageSet len m \<longleftrightarrow>
     (let loaded = loadVal m (gepVal (memberVal (evalOp m targetSet) 2) (memberVal (evalOp m storageSet) 0));
          blockType = getBlockType tensorType
      in (isScalar (Tensor blockType) \<longrightarrow> evalOp m len = loaded)
       \<and> (\<not> isScalar (Tensor blockType) \<longrightarrow>
            (\<exists>blockSize b3 b4. emitComputeLenDense blockType b3 = Inr (blockSize, b4)
               \<and> evalOp m len = binopVal BMul loaded (evalOp m blockSize)))
       \<and> (\<not> isScalar (Tensor blockType) \<and> staticDims blockType \<longrightarrow>
            evalOp m len = binopVal BMul loaded (VInt (of_nat (tensorSize blockType)))))"

text \<open>
  Claim C1. For a tensor of order at least one with \<open>SystemReduced\<close> storage, the code
  that \<open>emitComputeLen\<close> emits is straight-line, and whatever machine runs it, the
  operand returned holds the value loaded from the target set's row-start array (member
  2 of the target set's aggregate) at the index given by the storage set's element count
  (member 0 of the storage set's aggregate). When the block type is not a scalar, that
  value is multiplied by the value of the dense length of the block type, which is the
  product of the block's dimension sizes when these are ranges. (The multiplication is
  that of 32-bit integers. A tensor of order 0 is answered with the constant 1 before
  the storage is looked at.)
\<close>

theorem emitComputeLen_SystemReduced:
  assumes ord: "order tensorType \<noteq> 0" and wf: "symtableWf b"
    and run: "emitComputeLen tensorType (SystemReduced targetSetE storageSetE) b = Inr (len, b')"
  shows "\<exists>targetSet storageSet b1 b2 is.
           compile targetSetE b = Inr (targetSet, b1) \<and> compile storageSetE b1 = Inr (storageSet, b2)
         \<and> appended b is b'
         \<and> (\<forall>m. lengthOfSystemReduced tensorType targetSet storageSet len (execInstrs is m))"
proof -
  let ?blk = "getBlockType tensorType"
  from run ord obtain targetSet b1 storageSet b2 setSize b3 nsi b4 loc b5 ld b6 where
    c1: "compile targetSetE b = Inr (targetSet, b1)" and
    c2: "compile storageSetE b1 = Inr (storageSet, b2)" and
    e1: "CreateExtractValue storageSet 0 b2 = Inr (setSize, b3)" and
    e2: "CreateExtractValue targetSet 2 b3 = Inr (nsi, b4)" and
    e3: "CreateGEP nsi setSize b4 = Inr (loc, b5)" and
    e4: "CreateLoad loc b5 = Inr (ld, b6)" and
    fin: "(if \<not> isScalar (Tensor ?blk)
           then bind (emitComputeLenDense ?blk) (\<lambda>blockSize. CreateBin BMul ld blockSize)
           else ret ld) b6 = Inr (len, b')"
    unfolding emitComputeLen_def by (simp add: bind_Inr) blast
  from straightD[OF straight_compile c1] obtain is1 where a1: "appended b is1 b1" by blast
  from straightD[OF straight_compile c2] obtain is2 where a2: "appended b1 is2 b2" by blast
  have wf1: "symtableWf b1" using a1 wf by (rule appended_symtableWf)
  have wf2: "symtableWf b2" using a2 wf1 by (rule appended_symtableWf)
  define k where "k = nextReg b2"
  have bt: "regBelow k targetSet"
    using compile_bound[OF wf c1] appended_facts(1)[OF a2] by (auto simp: k_def intro: regBelow_mono)
  have bs: "regBelow k storageSet" using compile_bound[OF wf1 c2] by (simp add: k_def)
  note x1 = Create_appended(2)[OF e1] 
  note x2 = Create_appended(2)[OF e2]
  note x3 = Create_appended(3)[OF e3]
  note x4 = Create_appended(1)[OF e4]
  have n3: "nextReg b3 = Suc k" using appended_facts(1)[OF conjunct1[OF x1]] by (simp add: k_def)
  have n4: "nextReg b4 = Suc (Suc k)" using appended_facts(1)[OF conjunct1[OF x2]] n3 by simp
  have n5: "nextReg b5 = Suc (Suc (Suc k))" using appended_facts(1)[OF conjunct1[OF x3]] n4 by simp
  have n6: "nextReg b6 = Suc (Suc (Suc (Suc k)))" using appended_facts(1)[OF conjunct1[OF x4]] n5 by simp
  define core where "core = [IExtractValue k storageSet 0, IExtractValue (Suc k) targetSet 2,
     IGEP (Suc (Suc k)) nsi setSize, ILoad (Suc (Suc (Suc k))) loc]"
  have a6: "appended b2 core b6"
    using appended_trans[OF appended_trans[OF appended_trans[OF conjunct1[OF x1] conjunct1[OF x2]] conjunct1[OF x3]] conjunct1[OF x4]]
    by (simp add: core_def k_def[symmetric] n3 n4 n5)
  have ldv: "ld = Reg (Suc (Suc (Suc k))) (pointee (typeOf loc))" using x4 n5 by simp
  have corev: "regs (execInstrs core m) (Suc (Suc (Suc k)))
       = loadVal m (gepVal (memberVal (evalOp m targetSet) 2) (memberVal (evalOp m storageSet) 0))" for m
    using core4[OF bt bs, of _ _ _ m] x1 x2 x3 unfolding core_def
    by (simp add: k_def[symmetric] n3 n4)
  have coreframe: "evalOp (execInstrs core m) targetSet = evalOp m targetSet
      \<and> evalOp (execInstrs core m) storageSet = evalOp m storageSet
      \<and> memory (execInstrs core m) = memory m" for m
    using execInstrs_frame[OF appended_facts(10)[OF a6], of _ m] bt bs by (simp add: k_def)
  have a02: "appended b (is1 @ is2) b2" using a1 a2 by (rule appended_trans)
  have bt6: "regBelow (nextReg b6) targetSet" "regBelow (nextReg b6) storageSet" "regBelow (nextReg b6) ld"
    using bt bs n6 ldv by (auto intro: regBelow_mono)
  show ?thesis
  proof (cases "isScalar (Tensor ?blk)")
    case True
    with fin have eq: "len = ld" "b' = b6" by (auto simp: ret_Inr)
    have a: "appended b ((is1 @ is2) @ core) b'" using a02 a6 eq by (blast intro: appended_trans)
    have "lengthOfSystemReduced tensorType targetSet storageSet len (execInstrs ((is1 @ is2) @ core) m)" for m
    proof -
      define m2 where "m2 = execInstrs (is1 @ is2) m"
      define m6 where "m6 = execInstrs core m2"
      have m6: "execInstrs ((is1 @ is2) @ core) m = m6"
        unfolding m6_def m2_def by (rule execInstrs_append)
      show ?thesis
        unfolding m6 lengthOfSystemReduced_def Let_def
        using True coreframe[of m2] corev[of m2]
        by (simp add: m6_def[symmetric] eq ldv loadVal_def cong: rval.case_cong)
    qed
    with c1 c2 a show ?thesis by blast
  next
    case False
    with fin obtain blockSize b7 where
      d: "emitComputeLenDense ?blk b6 = Inr (blockSize, b7)" and
      mul: "CreateBin BMul ld blockSize b7 = Inr (len, b')"
      by (auto simp: bind_Inr)
    from straightD[OF straight_emitComputeLenDense d] obtain ds where a7: "appended b6 ds b7" by blast
    have bb: "regBelow (nextReg b7) blockSize" using d fresh_emitComputeLenDense by (auto simp: fresh_def)
    note x8 = Create_appended(4)[OF mul]
    let ?mulI = "IBin (nextReg b7) BMul ld blockSize"
    have lenv: "len = Reg (nextReg b7) (typeOf ld)" using x8 by simp
    let ?all = "(is1 @ is2) @ core @ ds @ [?mulI]"
    have a: "appended b ?all b'"
      using a02 a6 a7 conjunct1[OF x8] by (blast intro: appended_trans)
    have sem: "lengthOfSystemReduced tensorType targetSet storageSet len (execInstrs ?all m)" for m
    proof -
      define m2 where "m2 = execInstrs (is1 @ is2) m"
      define m6 where "m6 = execInstrs core m2"
      define m7 where "m7 = execInstrs ds m6"
      define m8 where "m8 = exec ?mulI m7"
      have m8: "execInstrs ?all m = m8"
        unfolding m8_def m7_def m6_def m2_def execInstrs_append by simp
      have f7: "evalOp m7 targetSet = evalOp m6 targetSet" "evalOp m7 storageSet = evalOp m6 storageSet"
        "evalOp m7 ld = evalOp m6 ld" "memory m7 = memory m6"
        using execInstrs_frame[OF appended_facts(10)[OF a7], of _ m6] bt6 by (simp_all add: m7_def)
      have le: "nextReg b6 \<le> nextReg b7" using appended_facts(1)[OF a7] by simp
      have f8: "evalOp m8 targetSet = evalOp m7 targetSet" "evalOp m8 storageSet = evalOp m7 storageSet"
        "evalOp m8 blockSize = evalOp m7 blockSize" "memory m8 = memory m7"
      proof -
        have e: "m8 = setReg (nextReg b7) (binopVal BMul (evalOp m7 ld) (evalOp m7 blockSize)) m7"
          by (simp add: m8_def)
        show "evalOp m8 targetSet = evalOp m7 targetSet" unfolding e
          using bt6(1) le by (rule evalOp_setReg)
        show "evalOp m8 storageSet = evalOp m7 storageSet" unfolding e
          using bt6(2) le by (rule evalOp_setReg)
        show "evalOp m8 blockSize = evalOp m7 blockSize" unfolding e
          using bb by (rule evalOp_setReg) simp
        show "memory m8 = memory m7" unfolding e by (simp add: setReg_def)
      qed
      have v8: "evalOp m8 len = binopVal BMul (evalOp m7 ld) (evalOp m7 blockSize)"
        by (simp add: m8_def lenv setReg_def)
      have ld6: "evalOp m6 ld = loadVal m2 (gepVal (memberVal (evalOp m2 targetSet) 2) (memberVal (evalOp m2 storageSet) 0))"
        using corev[of m2] by (simp add: m6_def ldv)
      have fr6: "evalOp m6 targetSet = evalOp m2 targetSet" "evalOp m6 storageSet = evalOp m2 storageSet"
        "memory m6 = memory m2"
        using coreframe[of m2] by (simp_all add: m6_def)
      have loaded: "evalOp m7 ld = loadVal m8 (gepVal (memberVal (evalOp m8 targetSet) 2) (memberVal (evalOp m8 storageSet) 0))"
        by (simp add: f7 f8 fr6 ld6 loadVal_def cong: rval.case_cong)
      have main: "evalOp m8 len = binopVal BMul
          (loadVal m8 (gepVal (memberVal (evalOp m8 targetSet) 2) (memberVal (evalOp m8 storageSet) 0)))
          (evalOp m8 blockSize)"
        using v8 loaded f8(3) by simp
      have stat: "evalOp m8 blockSize = VInt (of_nat (tensorSize ?blk))" if st: "staticDims ?blk"
      proof -
        have o: "order ?blk \<noteq> 0" using False by simp
        from emitComputeLenDense_static[OF st o d] obtain js where
          "appended b6 js b7" and jv: "\<And>m. evalOp (execInstrs js m) blockSize = VInt (of_nat (tensorSize ?blk))"
          by blast
        with a7 have "js = ds" by (blast intro: appended_unique)
        with jv[of m6] show ?thesis by (simp add: f8 m7_def)
      qed
      show ?thesis
        unfolding m8 lengthOfSystemReduced_def Let_def using False main stat d by auto
    qed
    from c1 c2 a sem show ?thesis by blast
  qed
qed

definition ex_V_type :: "Expr Type" where
  "ex_V_type = SetT (SetType (ElementType ''Point'' []) [])"

definition ex_V :: "Expr Var" where
  "ex_V = Var ''V'' ex_V_type"

definition ex_E_type :: "Expr Type" where
  "ex_E_type = SetT (SetType (ElementType ''Spring'' []) [VarExpr ex_V_type ex_V, VarExpr ex_V_type ex_V])"

definition ex_E :: "Expr Var" where
  "ex_E = Var ''E'' ex_E_type"

definition ex_A :: "Expr TensorType option \<Rightarrow> Expr TensorType" where
  "ex_A blk = TensorType SFloat
     [[SetIS (VarExpr ex_V_type ex_V)], [SetIS (VarExpr ex_V_type ex_V)]] blk False"

definition ex_block33 :: "Expr TensorType" where
  "ex_block33 = TensorType SFloat [[RangeIS 3], [RangeIS 3]] None False"

definition ex_backend :: backend where
  "ex_backend = \<lparr>blocks = (\<lambda>k. []), numBlocks = 1, insertBlock = 0, nextReg = 0,
     symtable = [[ex_V \<mapsto> Argument 0 (llvmType 8 ex_V_type), ex_E \<mapsto> Argument 1 (llvmType 8 ex_E_type)]],
     buffers = [], storage = Map.empty, globals = [], moduleFunctions = [], moduleGlobals = [],
     floatBytes = 8\<rparr>"

definition ex_machine :: machine where
  "ex_machine = \<lparr>regs = (\<lambda>r. VUndef),
     memory = (\<lambda>a. if 100 \<le> a \<and> a < 105 then VInt ([0, 2, 5, 5, 8] ! nat (a - 100)) else VUndef),
     arguments = (\<lambda>i. if i = 0 then VAgg [VInt 4]
                       else if i = 1 then VAgg [VInt 8, VPtr 300, VPtr 100, VPtr 200] else VUndef),
     globalAddr = (\<lambda>n. 0), dataAddr = (\<lambda>d. 0), nextAddr = 1000, events = []\<rparr>"

lemma ex_symtableWf: "symtableWf ex_backend"
  by (simp add: symtableWf_def ex_backend_def)

lemma ex_compile_V: "compile (VarExpr ex_V_type ex_V) b = Inr (x, b') \<Longrightarrow> symtable b = symtable ex_backend
   \<Longrightarrow> globals b = [] \<Longrightarrow> x = Argument 0 (llvmType 8 ex_V_type)"
  by (simp add: bind_def gets_def getSym_def symtable_contains_def ex_backend_def ret_def fail_def
        ex_V_type_def ex_V_def ex_E_def split: if_splits)

lemma ex_compile_E: "compile (VarExpr ex_E_type ex_E) b = Inr (x, b') \<Longrightarrow> symtable b = symtable ex_backend
   \<Longrightarrow> globals b = [] \<Longrightarrow> x = Argument 1 (llvmType 8 ex_E_type)"
  by (simp add: bind_def gets_def getSym_def symtable_contains_def ex_backend_def ret_def fail_def
        ex_V_type_def ex_V_def ex_E_def ex_E_type_def split: if_splits)

lemmas ex_eval = emitComputeLen_def emitComputeLenDense_def emitComputeLenDom_def emitComputeLenIS_def
      ex_A_def ex_block33_def order_def bind_def gets_def getSym_def
      symtable_contains_def ex_backend_def ret_def fail_def ex_V_type_def ex_V_def ex_E_def ex_E_type_def
      CreateExtractValue_def CreateGEP_def CreateLoad_def CreateBin_def emitValue_def getBlockType_def
      insertInstr_def llvmInt_def

lemma ex_runs_scalar: "\<exists>len b'. emitComputeLen (ex_A None) (SystemReduced (VarExpr ex_E_type ex_E) (VarExpr ex_V_type ex_V)) ex_backend = Inr (len, b')"
  by (simp add: ex_eval)

lemma ex_runs_block: "\<exists>len b'. emitComputeLen (ex_A (Some ex_block33)) (SystemReduced (VarExpr ex_E_type ex_E) (VarExpr ex_V_type ex_V)) ex_backend = Inr (len, b')"
  by (simp add: ex_eval)

lemma execInstrs_arguments:
  "map computes is = map Some [k ..< k + length is] \<Longrightarrow> evalOp (execInstrs is m) (Argument i ty) = arguments m i"
  using execInstrs_frame[of "is" k "Argument i ty" m] by simp

text \<open>
  The instance of the spec: a target set whose row-start array is \<open>[0, 2, 5, 5, 8]\<close>
  and a storage set of 4 elements give the length 8 for a scalar block, and 72 for a
  block of 3 by 3.
\<close>

theorem emitComputeLen_SystemReduced_witness:
  "order (ex_A None) \<noteq> 0 \<and> symtableWf ex_backend
   \<and> (\<exists>len b' is.
         emitComputeLen (ex_A None) (SystemReduced (VarExpr ex_E_type ex_E) (VarExpr ex_V_type ex_V)) ex_backend
           = Inr (len, b')
       \<and> appended ex_backend is b' \<and> evalOp (execInstrs is ex_machine) len = VInt 8)
   \<and> (\<exists>len b' is.
         emitComputeLen (ex_A (Some ex_block33)) (SystemReduced (VarExpr ex_E_type ex_E) (VarExpr ex_V_type ex_V)) ex_backend
           = Inr (len, b')
       \<and> appended ex_backend is b' \<and> evalOp (execInstrs is ex_machine) len = VInt 72)"
proof -
  have ord: "order (ex_A blk) \<noteq> 0" for blk by (simp add: ex_A_def order_def)
  have val: "\<exists>is. appended ex_backend is b' \<and> evalOp (execInstrs is ex_machine) len
               = VInt (8 * (if blk = None then 1 else 9))"
    if run: "emitComputeLen (ex_A blk) (SystemReduced (VarExpr ex_E_type ex_E) (VarExpr ex_V_type ex_V)) ex_backend = Inr (len, b')"
      and blk: "blk = None \<or> blk = Some ex_block33" for blk len b'
  proof -
    from emitComputeLen_SystemReduced[OF ord ex_symtableWf run]
    obtain targetSet storageSet b1 b2 "is" where
      c1: "compile (VarExpr ex_E_type ex_E) ex_backend = Inr (targetSet, b1)" and
      c2: "compile (VarExpr ex_V_type ex_V) b1 = Inr (storageSet, b2)" and
      app: "appended ex_backend is b'" and
      sem: "lengthOfSystemReduced (ex_A blk) targetSet storageSet len (execInstrs is ex_machine)"
      by blast
    have t: "targetSet = Argument 1 (llvmType 8 ex_E_type)"
      using ex_compile_E[OF c1] by (simp add: ex_backend_def)
    from straightD[OF straight_compile c1] obtain is1 where "appended ex_backend is1 b1" by blast
    then have "symtable b1 = symtable ex_backend" "globals b1 = []"
      by (simp_all add: appended_facts ex_backend_def)
    from ex_compile_V[OF c2 this] have s: "storageSet = Argument 0 (llvmType 8 ex_V_type)" .
    note num = appended_facts(10)[OF app]
    have mem: "memory (execInstrs is ex_machine) = memory ex_machine"
      using execInstrs_frame[OF num] by simp
    have loaded: "loadVal (execInstrs is ex_machine)
       (gepVal (memberVal (evalOp (execInstrs is ex_machine) targetSet) 2)
               (memberVal (evalOp (execInstrs is ex_machine) storageSet) 0)) = VInt 8"
    proof -
      have a: "arguments ex_machine (Suc 0) = VAgg [VInt 8, VPtr 300, VPtr 100, VPtr 200]"
        "arguments ex_machine 0 = VAgg [VInt 4]" "memory ex_machine 104 = VInt 8"
        by (simp_all add: ex_machine_def)
      show ?thesis
        unfolding t s execInstrs_arguments[OF num]
        by (simp add: loadVal_def mem a memberVal_def gepVal_def)
    qed
    from blk have "evalOp (execInstrs is ex_machine) len = VInt (8 * (if blk = None then 1 else 9))"
    proof
      assume "blk = None"
      with sem loaded show ?thesis
        by (simp add: lengthOfSystemReduced_def Let_def getBlockType_def ex_A_def order_def)
    next
      assume b: "blk = Some ex_block33"
      have "staticDims ex_block33" "tensorSize ex_block33 = 9" "order ex_block33 \<noteq> 0"
        by (simp_all add: staticDims_def ex_block33_def tensorSize_def getSizeDom_def order_def)
      with sem loaded b show ?thesis
        by (simp add: lengthOfSystemReduced_def Let_def getBlockType_def ex_A_def)
    qed
    with app show ?thesis by blast
  qed
  from ex_runs_scalar obtain l1 b1 where
    r1: "emitComputeLen (ex_A None) (SystemReduced (VarExpr ex_E_type ex_E) (VarExpr ex_V_type ex_V)) ex_backend = Inr (l1, b1)"
    by blast
  from ex_runs_block obtain l2 b2 where
    r2: "emitComputeLen (ex_A (Some ex_block33)) (SystemReduced (VarExpr ex_E_type ex_E) (VarExpr ex_V_type ex_V)) ex_backend = Inr (l2, b2)"
    by blast
  from val[OF r1] val[OF r2] r1 r2 ord ex_symtableWf show ?thesis by auto
qed



section \<open>What an assignment emits\<close>

definition assignTail :: "Expr Var \<Rightarrow> Expr \<Rightarrow> operand \<Rightarrow> operand \<Rightarrow> Expr TensorType \<Rightarrow> Expr TensorType \<Rightarrow> unit emitter" where
  "assignTail var val valuePtr varPtr varType valType =
     (if order varType = 0 \<and> order valType = 0 then CreateStore valuePtr varPtr
      else
        bind (getStorage var) (\<lambda>tensorStorage.
        bind (emitComputeLen varType tensorStorage) (\<lambda>len.
        bind (gets floatBytes) (\<lambda>fb.
        let componentSize = bytes fb (componentType varType) in
        bind (CreateBin BMul len (llvmInt componentSize)) (\<lambda>size'.
        if 0 < order varType \<and> order valType = 0 then
          (if assignsZero fb val then emitMemSet varPtr (ConstInt8 0) size' componentSize
           else fail (NotSupportedYet
                  ''you can only currently assign a scalar to a tensor if the scalar is 0.''))
        else
          andThen (iassert (getType var = type_of val) ''variable and value types don't match'')
            (emitMemCpy varPtr valuePtr size' componentSize))))))"

lemma emitAssign_unfold:
  "emitAssign var val =
     bind (compile val) (\<lambda>valuePtr.
     andThen (iassert (isTensor (getType var) \<and> isTensor (type_of val)) [])
    (andThen (bind (gets (\<lambda>b. symtable_contains (symtable b) var))
                (\<lambda>declared. iassert declared ''has not been declared''))
    (bind (getSym var) (\<lambda>varPtr0.
     andThen (iassert (isPointerTy (typeOf varPtr0)) [])
    (bind (gets (\<lambda>b. var \<in> set (globals b))) (\<lambda>isGlobal.
     bind (if isGlobal then CreateLoad varPtr0 else ret varPtr0) (\<lambda>varPtr.
     bind (toTensor (getType var)) (\<lambda>varType.
     bind (toTensor (type_of val)) (\<lambda>valType.
       assignTail var val valuePtr varPtr varType valType)))))))))"
  unfolding emitAssign_def assignTail_def ..


lemma emitAssign_InrD:
  assumes "emitAssign var val b = Inr (u, b')"
  obtains valuePtr b1 varPtr0 varPtr b2 varType valType where
    "compile val b = Inr (valuePtr, b1)" "getType var = Tensor varType" "type_of val = Tensor valType"
    "symtable_get (symtable b1) var = Some varPtr0" "isPointerTy (typeOf varPtr0)"
    "(if var \<in> set (globals b1) then CreateLoad varPtr0 else ret varPtr0) b1 = Inr (varPtr, b2)"
    "assignTail var val valuePtr varPtr varType valType b2 = Inr (u, b')"
proof -
  from assms obtain valuePtr b1 where
    c: "compile val b = Inr (valuePtr, b1)" and
    r1: "andThen (iassert (isTensor (getType var) \<and> isTensor (type_of val)) [])
    (andThen (bind (gets (\<lambda>b. symtable_contains (symtable b) var))
                (\<lambda>declared. iassert declared ''has not been declared''))
    (bind (getSym var) (\<lambda>varPtr0.
     andThen (iassert (isPointerTy (typeOf varPtr0)) [])
    (bind (gets (\<lambda>b. var \<in> set (globals b))) (\<lambda>isGlobal.
     bind (if isGlobal then CreateLoad varPtr0 else ret varPtr0) (\<lambda>varPtr.
     bind (toTensor (getType var)) (\<lambda>varType.
     bind (toTensor (type_of val)) (\<lambda>valType.
       assignTail var val valuePtr varPtr varType valType)))))))) b1 = Inr (u, b')"
    unfolding emitAssign_unfold by (subst (asm) bind_Inr) blast
  from r1 have
    r2: "bind (getSym var) (\<lambda>varPtr0.
     andThen (iassert (isPointerTy (typeOf varPtr0)) [])
    (bind (gets (\<lambda>b. var \<in> set (globals b))) (\<lambda>isGlobal.
     bind (if isGlobal then CreateLoad varPtr0 else ret varPtr0) (\<lambda>varPtr.
     bind (toTensor (getType var)) (\<lambda>varType.
     bind (toTensor (type_of val)) (\<lambda>valType.
       assignTail var val valuePtr varPtr varType valType)))))) b1 = Inr (u, b')"
    by (simp add: andThen_Inr iassert_Inr bind_Inr gets_Inr)
  then obtain varPtr0 where
    g: "symtable_get (symtable b1) var = Some varPtr0" and
    r3: "andThen (iassert (isPointerTy (typeOf varPtr0)) [])
    (bind (gets (\<lambda>b. var \<in> set (globals b))) (\<lambda>isGlobal.
     bind (if isGlobal then CreateLoad varPtr0 else ret varPtr0) (\<lambda>varPtr.
     bind (toTensor (getType var)) (\<lambda>varType.
     bind (toTensor (type_of val)) (\<lambda>valType.
       assignTail var val valuePtr varPtr varType valType))))) b1 = Inr (u, b')"
    by (subst (asm) bind_Inr) (auto simp: getSym_Inr)
  from r3 have p: "isPointerTy (typeOf varPtr0)" and
    r4: "bind (if var \<in> set (globals b1) then CreateLoad varPtr0 else ret varPtr0) (\<lambda>varPtr.
     bind (toTensor (getType var)) (\<lambda>varType.
     bind (toTensor (type_of val)) (\<lambda>valType.
       assignTail var val valuePtr varPtr varType valType))) b1 = Inr (u, b')"
    by (simp_all add: andThen_Inr iassert_Inr bind_Inr[of "gets _"] gets_Inr)
  from r4 obtain varPtr b2 where
    l: "(if var \<in> set (globals b1) then CreateLoad varPtr0 else ret varPtr0) b1 = Inr (varPtr, b2)" and
    r5: "bind (toTensor (getType var)) (\<lambda>varType.
     bind (toTensor (type_of val)) (\<lambda>valType.
       assignTail var val valuePtr varPtr varType valType)) b2 = Inr (u, b')"
    by (subst (asm) bind_Inr) blast
  from r5 obtain varType valType where
    t: "getType var = Tensor varType" "type_of val = Tensor valType"
    "assignTail var val valuePtr varPtr varType valType b2 = Inr (u, b')"
    by (auto simp: bind_Inr toTensor_Inr)
  show ?thesis by (rule that[OF c t(1,2) g p l t(3)])
qed

lemma emitAssign_tail:
  assumes "compile val b = Inr (valuePtr, b1)" "getType var = Tensor varType" "type_of val = Tensor valType"
    "symtable_get (symtable b1) var = Some varPtr0" "isPointerTy (typeOf varPtr0)"
    "(if var \<in> set (globals b1) then CreateLoad varPtr0 else ret varPtr0) b1 = Inr (varPtr, b2)"
  shows "emitAssign var val b = assignTail var val valuePtr varPtr varType valType b2"
proof -
  have 1: "emitAssign var val b = andThen (iassert (isTensor (getType var) \<and> isTensor (type_of val)) [])
    (andThen (bind (gets (\<lambda>b. symtable_contains (symtable b) var))
                (\<lambda>declared. iassert declared ''has not been declared''))
    (bind (getSym var) (\<lambda>varPtr0.
     andThen (iassert (isPointerTy (typeOf varPtr0)) [])
    (bind (gets (\<lambda>b. var \<in> set (globals b))) (\<lambda>isGlobal.
     bind (if isGlobal then CreateLoad varPtr0 else ret varPtr0) (\<lambda>varPtr.
     bind (toTensor (getType var)) (\<lambda>varType.
     bind (toTensor (type_of val)) (\<lambda>valType.
       assignTail var val valuePtr varPtr varType valType)))))))) b1"
    unfolding emitAssign_unfold using assms(1) by (simp add: bind_def)
  also have "\<dots> = bind (if var \<in> set (globals b1) then CreateLoad varPtr0 else ret varPtr0) (\<lambda>varPtr.
     bind (toTensor (getType var)) (\<lambda>varType.
     bind (toTensor (type_of val)) (\<lambda>valType.
       assignTail var val valuePtr varPtr varType valType))) b1"
    using assms(2-5)
    by (simp add: andThen_def bind_def iassert_def ret_def gets_def getSym_def symtable_contains_def)
  also have "\<dots> = assignTail var val valuePtr varPtr varType valType b2"
    using assms(2,3,6) by (simp add: bind_def ret_def)
  finally show ?thesis .
qed


lemma straight_emitComputeLen [intro!, simp]: "straight (emitComputeLen t ts)"
  unfolding emitComputeLen_def
  by (auto intro: straight_compile split: TensorStorage.splits option.splits)

lemma getStorage_Inr: "getStorage v b = Inr r \<longleftrightarrow> (\<exists>ts. storage b v = Some ts \<and> r = (ts, b))"
  by (auto simp: getStorage_def split: option.splits)

lemma emitInstr_Inr: "emitInstr i b = Inr r \<longleftrightarrow> r = ((), insertInstr i b)"
  by (auto simp: emitInstr_def modify_def)

lemma assignTail_tensor:
  assumes "order valType \<noteq> 0" and "assignTail var val valuePtr varPtr varType valType b2 = Inr (u, b')"
  shows "getType var = type_of val \<and>
    (\<exists>ts len b3 sz b4. storage b2 var = Some ts \<and> emitComputeLen varType ts b2 = Inr (len, b3)
       \<and> CreateBin BMul len (llvmInt (bytes (floatBytes b3) (componentType varType))) b3 = Inr (sz, b4)
       \<and> b' = insertInstr (IMemCpy varPtr valuePtr sz (bytes (floatBytes b3) (componentType varType))) b4)"
proof -
  from assms obtain ts len b3 sz b4 where
    s: "storage b2 var = Some ts" and l: "emitComputeLen varType ts b2 = Inr (len, b3)" and
    m: "CreateBin BMul len (llvmInt (bytes (floatBytes b3) (componentType varType))) b3 = Inr (sz, b4)" and
    r: "andThen (iassert (getType var = type_of val) ''variable and value types don't match'')
          (emitMemCpy varPtr valuePtr sz (bytes (floatBytes b3) (componentType varType))) b4 = Inr (u, b')"
    unfolding assignTail_def
    by (simp add: bind_Inr getStorage_Inr gets_Inr Let_def) blast
  from r have "getType var = type_of val"
    "b' = insertInstr (IMemCpy varPtr valuePtr sz (bytes (floatBytes b3) (componentType varType))) b4"
    by (auto simp: andThen_Inr iassert_Inr emitMemCpy_def emitInstr_Inr)
  with s l m show ?thesis by blast
qed

text \<open>
  Claim C4. Let the value assigned be a tensor of order at least one. When the type of
  the variable differs from the type of the value, \<open>emitAssign\<close> yields an error and no
  code; and when the value compiles, the variable is bound to a pointer and its length
  can be computed, the error is the assertion "variable and value types don't match".
  When the types are equal and \<open>emitAssign\<close> succeeds, the code it emits after the length
  computation is the multiplication of the length by the component size followed by one
  memcpy from the value to the variable over that many bytes.
\<close>

theorem emitAssign_tensor_to_tensor:
  assumes "type_of val = Tensor valType" and "order valType \<noteq> 0"
  shows "(getType var \<noteq> type_of val \<longrightarrow> (\<exists>e. emitAssign var val b = Inl e))
    \<and> (getType var \<noteq> type_of val \<longrightarrow>
         (\<forall>valuePtr b1 varType varPtr0 varPtr b2 ts len b3.
            compile val b = Inr (valuePtr, b1) \<and> getType var = Tensor varType
            \<and> symtable_get (symtable b1) var = Some varPtr0 \<and> isPointerTy (typeOf varPtr0)
            \<and> (if var \<in> set (globals b1) then CreateLoad varPtr0 else ret varPtr0) b1 = Inr (varPtr, b2)
            \<and> storage b2 var = Some ts \<and> emitComputeLen varType ts b2 = Inr (len, b3)
            \<longrightarrow> emitAssign var val b = Inl (Internal ''variable and value types don't match'')))
    \<and> (getType var = type_of val \<longrightarrow>
         (\<forall>b'. emitAssign var val b = Inr ((), b') \<longrightarrow>
            (\<exists>valuePtr b1 varPtr0 varPtr b2 ts len b3.
               compile val b = Inr (valuePtr, b1)
             \<and> symtable_get (symtable b1) var = Some varPtr0
             \<and> (if var \<in> set (globals b1) then CreateLoad varPtr0 else ret varPtr0) b1 = Inr (varPtr, b2)
             \<and> storage b2 var = Some ts \<and> emitComputeLen valType ts b2 = Inr (len, b3)
             \<and> blocks b' (insertBlock b) = blocks b3 (insertBlock b)
                  @ [IBin (nextReg b3) BMul len (llvmInt (bytes (floatBytes b) (componentType valType))),
                     IMemCpy varPtr valuePtr (Reg (nextReg b3) (typeOf len))
                       (bytes (floatBytes b) (componentType valType))])))"
proof (intro conjI impI allI)
  assume ne: "getType var \<noteq> type_of val"
  show "\<exists>e. emitAssign var val b = Inl e"
  proof (cases "emitAssign var val b")
    case (Inl e)
    then show ?thesis by blast
  next
    case (Inr r)
    then have "emitAssign var val b = Inr ((), snd r)" by (cases r) simp
    then obtain valuePtr b1 varPtr0 varPtr b2 varType valType' where
      v: "type_of val = Tensor valType'" and
      t: "assignTail var val valuePtr varPtr varType valType' b2 = Inr ((), snd r)"
      by (rule emitAssign_InrD)
    from v assms have "order valType' \<noteq> 0" by simp
    from assignTail_tensor[OF this t] ne show ?thesis by simp
  qed
next
  fix valuePtr b1 varType varPtr0 varPtr b2 ts len b3
  assume ne: "getType var \<noteq> type_of val"
    and pre: "compile val b = Inr (valuePtr, b1) \<and> getType var = Tensor varType
            \<and> symtable_get (symtable b1) var = Some varPtr0 \<and> isPointerTy (typeOf varPtr0)
            \<and> (if var \<in> set (globals b1) then CreateLoad varPtr0 else ret varPtr0) b1 = Inr (varPtr, b2)
            \<and> storage b2 var = Some ts \<and> emitComputeLen varType ts b2 = Inr (len, b3)"
  then have "emitAssign var val b = assignTail var val valuePtr varPtr varType valType b2"
    using assms(1) by (intro emitAssign_tail) auto
  also have "\<dots> = Inl (Internal ''variable and value types don't match'')"
    using pre ne assms(2)
    by (simp add: assignTail_def bind_def getStorage_def gets_def Let_def CreateBin_def emitValue_def
        andThen_def iassert_def fail_def)
  finally show "emitAssign var val b = Inl (Internal ''variable and value types don't match'')" .
next
  fix b'
  assume eq: "getType var = type_of val" and run: "emitAssign var val b = Inr ((), b')"
  from run obtain valuePtr b1 varPtr0 varPtr b2 varType valType' where
    c: "compile val b = Inr (valuePtr, b1)" and vt: "getType var = Tensor varType" and
    v: "type_of val = Tensor valType'" and
    g: "symtable_get (symtable b1) var = Some varPtr0" and
    l: "(if var \<in> set (globals b1) then CreateLoad varPtr0 else ret varPtr0) b1 = Inr (varPtr, b2)" and
    t: "assignTail var val valuePtr varPtr varType valType' b2 = Inr ((), b')"
    by (rule emitAssign_InrD)
  from v vt eq assms have same: "valType' = valType" "varType = valType" by simp_all
  from assignTail_tensor[OF _ t] assms(2) same obtain ts len b3 sz b4 where
    s: "storage b2 var = Some ts" and len: "emitComputeLen valType ts b2 = Inr (len, b3)" and
    m: "CreateBin BMul len (llvmInt (bytes (floatBytes b3) (componentType valType))) b3 = Inr (sz, b4)" and
    b': "b' = insertInstr (IMemCpy varPtr valuePtr sz (bytes (floatBytes b3) (componentType valType))) b4"
    by auto
  from straightD[OF straight_compile c] obtain is1 where a1: "appended b is1 b1" by blast
  have "straight (if var \<in> set (globals b1) then CreateLoad varPtr0 else ret varPtr0)" by auto
  from straightD[OF this l] obtain is2 where a2: "appended b1 is2 b2" by blast
  from straightD[OF straight_emitComputeLen len] obtain is3 where a3: "appended b2 is3 b3" by blast
  note a4 = Create_appended(4)[OF m]
  have ib: "insertBlock b3 = insertBlock b" "floatBytes b3 = floatBytes b"
    using appended_facts(3,8)[OF a1] appended_facts(3,8)[OF a2] appended_facts(3,8)[OF a3] by simp_all
  have ib4: "insertBlock b4 = insertBlock b"
    "blocks b4 (insertBlock b) = blocks b3 (insertBlock b) @ [IBin (nextReg b3) BMul len (llvmInt (bytes (floatBytes b) (componentType valType)))]"
    using appended_facts(3,4)[OF conjunct1[OF a4]] ib by simp_all
  have "blocks b' (insertBlock b) = blocks b3 (insertBlock b)
        @ [IBin (nextReg b3) BMul len (llvmInt (bytes (floatBytes b) (componentType valType))),
           IMemCpy varPtr valuePtr (Reg (nextReg b3) (typeOf len)) (bytes (floatBytes b) (componentType valType))]"
    using ib4 ib a4 by (simp add: b' insertInstr_def)
  with c g l s len show "\<exists>valuePtr b1 varPtr0 varPtr b2 ts len b3.
               compile val b = Inr (valuePtr, b1)
             \<and> symtable_get (symtable b1) var = Some varPtr0
             \<and> (if var \<in> set (globals b1) then CreateLoad varPtr0 else ret varPtr0) b1 = Inr (varPtr, b2)
             \<and> storage b2 var = Some ts \<and> emitComputeLen valType ts b2 = Inr (len, b3)
             \<and> blocks b' (insertBlock b) = blocks b3 (insertBlock b)
                  @ [IBin (nextReg b3) BMul len (llvmInt (bytes (floatBytes b) (componentType valType))),
                     IMemCpy varPtr valuePtr (Reg (nextReg b3) (typeOf len))
                       (bytes (floatBytes b) (componentType valType))]"
    by blast
qed

lemma assignTail_cases:
  assumes "assignTail var val valuePtr varPtr varType valType b2 = Inr (u, b')"
  shows "(order varType = 0 \<and> order valType = 0 \<and> b' = insertInstr (IStore valuePtr varPtr) b2)
    \<or> (\<exists>ts len b3 sz b4 wr. storage b2 var = Some ts \<and> emitComputeLen varType ts b2 = Inr (len, b3)
         \<and> CreateBin BMul len (llvmInt (bytes (floatBytes b3) (componentType varType))) b3 = Inr (sz, b4)
         \<and> b' = insertInstr wr b4
         \<and> (wr = IMemSet varPtr (ConstInt8 0) sz (bytes (floatBytes b3) (componentType varType))
            \<or> wr = IMemCpy varPtr valuePtr sz (bytes (floatBytes b3) (componentType varType))))"
proof (cases "order varType = 0 \<and> order valType = 0")
  case True
  with assms show ?thesis by (simp add: assignTail_def CreateStore_def emitInstr_Inr)
next
  case False
  with assms obtain ts len b3 sz b4 where
    s: "storage b2 var = Some ts" and l: "emitComputeLen varType ts b2 = Inr (len, b3)" and
    m: "CreateBin BMul len (llvmInt (bytes (floatBytes b3) (componentType varType))) b3 = Inr (sz, b4)" and
    r: "(if 0 < order varType \<and> order valType = 0 then
          (if assignsZero (floatBytes b3) val
           then emitMemSet varPtr (ConstInt8 0) sz (bytes (floatBytes b3) (componentType varType))
           else fail (NotSupportedYet
                  ''you can only currently assign a scalar to a tensor if the scalar is 0.''))
        else
          andThen (iassert (getType var = type_of val) ''variable and value types don't match'')
            (emitMemCpy varPtr valuePtr sz (bytes (floatBytes b3) (componentType varType)))) b4 = Inr (u, b')"
    unfolding assignTail_def
    by (simp add: bind_Inr getStorage_Inr gets_Inr Let_def) blast
  from r have "b' = insertInstr (IMemSet varPtr (ConstInt8 0) sz (bytes (floatBytes b3) (componentType varType))) b4
     \<or> b' = insertInstr (IMemCpy varPtr valuePtr sz (bytes (floatBytes b3) (componentType varType))) b4"
    by (auto simp: andThen_Inr iassert_Inr emitMemCpy_def emitMemSet_def emitInstr_Inr fail_Inr
        split: if_splits)
  with s l m show ?thesis by blast
qed

text \<open>
  Claim C10. For a variable that is a global: (write side) when \<open>emitAssign\<close> succeeds,
  the first instruction it emits after the code of the value is the load of the
  variable's slot; what follows is nothing (scalar to scalar) or the code of the length
  computer and the multiplication by the component size; and the last instruction is
  the store, the memset or the memcpy whose destination is the loaded pointer. (Read
  side) \<open>compile\<close> of a \<open>VarExpr\<close> of the variable emits the load of the slot first, and
  after it at most the load of the scalar the loaded pointer points to.
\<close>

theorem emitAssign_global_dereferences_once:
  assumes "var \<in> set (globals b)"
  shows "(\<forall>val b'. emitAssign var val b = Inr ((), b') \<longrightarrow>
          (\<exists>valuePtr b1 slot b2 code wr.
             compile val b = Inr (valuePtr, b1) \<and> symtable_get (symtable b) var = Some slot
           \<and> appended b1 [ILoad (nextReg b1) slot] b2
           \<and> blocks b' (insertBlock b) = blocks b2 (insertBlock b) @ code @ [wr]
           \<and> ((code = [] \<and> wr = IStore valuePtr (Reg (nextReg b1) (pointee (typeOf slot))))
              \<or> (\<exists>varType ts len b3 lenCode sz al.
                    getType var = Tensor varType \<and> storage b var = Some ts
                  \<and> emitComputeLen varType ts b2 = Inr (len, b3) \<and> appended b2 lenCode b3
                  \<and> code = lenCode @ [IBin (nextReg b3) BMul len (llvmInt al)]
                  \<and> (wr = IMemSet (Reg (nextReg b1) (pointee (typeOf slot))) (ConstInt8 0) sz al
                     \<or> wr = IMemCpy (Reg (nextReg b1) (pointee (typeOf slot))) valuePtr sz al)))))
    \<and> (\<forall>t v b'. compile (VarExpr t var) b = Inr (v, b') \<longrightarrow>
          (\<exists>slot. symtable_get (symtable b) var = Some slot
           \<and> (appended b [ILoad (nextReg b) slot] b'
              \<or> appended b [ILoad (nextReg b) slot,
                   ILoad (Suc (nextReg b)) (Reg (nextReg b) (pointee (typeOf slot)))] b')))"
proof (intro conjI allI impI)
  fix val b'
  assume run: "emitAssign var val b = Inr ((), b')"
  from run obtain valuePtr b1 slot varPtr b2 varType valType where
    c: "compile val b = Inr (valuePtr, b1)" and vt: "getType var = Tensor varType" and
    g: "symtable_get (symtable b1) var = Some slot" and
    l: "(if var \<in> set (globals b1) then CreateLoad slot else ret slot) b1 = Inr (varPtr, b2)" and
    t: "assignTail var val valuePtr varPtr varType valType b2 = Inr ((), b')"
    by (rule emitAssign_InrD)
  from straightD[OF straight_compile c] obtain is1 where a1: "appended b is1 b1" by blast
  note f1 = appended_facts[OF a1]
  from l assms f1(5) have l': "CreateLoad slot b1 = Inr (varPtr, b2)" by simp
  from Create_appended(1)[OF l'] have
    a2: "appended b1 [ILoad (nextReg b1) slot] b2" and
    vp: "varPtr = Reg (nextReg b1) (pointee (typeOf slot))" by auto
  note f2 = appended_facts[OF a2]
  have g': "symtable_get (symtable b) var = Some slot" using g f1(2) by simp
  from assignTail_cases[OF t]
  show "\<exists>valuePtr b1 slot b2 code wr.
             compile val b = Inr (valuePtr, b1) \<and> symtable_get (symtable b) var = Some slot
           \<and> appended b1 [ILoad (nextReg b1) slot] b2
           \<and> blocks b' (insertBlock b) = blocks b2 (insertBlock b) @ code @ [wr]
           \<and> ((code = [] \<and> wr = IStore valuePtr (Reg (nextReg b1) (pointee (typeOf slot))))
              \<or> (\<exists>varType ts len b3 lenCode sz al.
                    getType var = Tensor varType \<and> storage b var = Some ts
                  \<and> emitComputeLen varType ts b2 = Inr (len, b3) \<and> appended b2 lenCode b3
                  \<and> code = lenCode @ [IBin (nextReg b3) BMul len (llvmInt al)]
                  \<and> (wr = IMemSet (Reg (nextReg b1) (pointee (typeOf slot))) (ConstInt8 0) sz al
                     \<or> wr = IMemCpy (Reg (nextReg b1) (pointee (typeOf slot))) valuePtr sz al)))"
  proof
    assume "order varType = 0 \<and> order valType = 0 \<and> b' = insertInstr (IStore valuePtr varPtr) b2"
    then have "blocks b' (insertBlock b) = blocks b2 (insertBlock b) @ [] @ [IStore valuePtr varPtr]"
      using f1(3) f2(3) by (simp add: insertInstr_def)
    with c g' a2 vp show ?thesis by blast
  next
    assume "\<exists>ts len b3 sz b4 wr. storage b2 var = Some ts \<and> emitComputeLen varType ts b2 = Inr (len, b3)
         \<and> CreateBin BMul len (llvmInt (bytes (floatBytes b3) (componentType varType))) b3 = Inr (sz, b4)
         \<and> b' = insertInstr wr b4
         \<and> (wr = IMemSet varPtr (ConstInt8 0) sz (bytes (floatBytes b3) (componentType varType))
            \<or> wr = IMemCpy varPtr valuePtr sz (bytes (floatBytes b3) (componentType varType)))"
    then obtain ts len b3 sz b4 wr where
      s: "storage b2 var = Some ts" and len: "emitComputeLen varType ts b2 = Inr (len, b3)" and
      m: "CreateBin BMul len (llvmInt (bytes (floatBytes b3) (componentType varType))) b3 = Inr (sz, b4)" and
      b': "b' = insertInstr wr b4" and
      wr: "wr = IMemSet varPtr (ConstInt8 0) sz (bytes (floatBytes b3) (componentType varType))
            \<or> wr = IMemCpy varPtr valuePtr sz (bytes (floatBytes b3) (componentType varType))"
      by blast
    from straightD[OF straight_emitComputeLen len] obtain lenCode where a3: "appended b2 lenCode b3" by blast
    note f3 = appended_facts[OF a3]
    note a4 = conjunct1[OF Create_appended(4)[OF m]]
    note f4 = appended_facts[OF a4]
    let ?al = "bytes (floatBytes b3) (componentType varType)"
    have ib: "insertBlock b4 = insertBlock b" "insertBlock b3 = insertBlock b" "insertBlock b2 = insertBlock b"
      using f1(3) f2(3) f3(3) f4(3) by simp_all
    have "blocks b' (insertBlock b) = blocks b2 (insertBlock b) @ (lenCode @ [IBin (nextReg b3) BMul len (llvmInt ?al)]) @ [wr]"
      using f3(4) f4(4) ib by (simp add: b' insertInstr_def)
    moreover have "storage b var = Some ts" using s f1(6) f2(6) by simp
    ultimately show ?thesis using c g' a2 vt len a3 wr unfolding vp by blast
  qed
next
  fix t v b'
  assume run: "compile (VarExpr t var) b = Inr (v, b')"
  then have found: "symtable_contains (symtable b) var"
    by (cases "symtable_contains (symtable b) var") (simp_all add: bind_def gets_def fail_def)
  from run found have
    "bind (getSym var) (\<lambda>val0.
       bind (gets (\<lambda>b. var \<in> set (globals b))) (\<lambda>isGlobal.
       bind (if isGlobal then CreateLoad val0 else ret val0) (\<lambda>val1.
       if isScalar t \<and> isPointerTy (typeOf val1) then CreateLoad val1 else ret val1))) b = Inr (v, b')"
    by (simp add: bind_def gets_def)
  then obtain slot val1 b1 where
    g: "symtable_get (symtable b) var = Some slot" and
    l0: "(if var \<in> set (globals b) then CreateLoad slot else ret slot) b = Inr (val1, b1)" and
    r: "(if isScalar t \<and> isPointerTy (typeOf val1) then CreateLoad val1 else ret val1) b1 = Inr (v, b')"
    unfolding bind_Inr gets_Inr getSym_Inr by blast
  from l0 assms have l1: "CreateLoad slot b = Inr (val1, b1)" by simp
  from Create_appended(1)[OF l1] have a1: "appended b [ILoad (nextReg b) slot] b1"
    and v1: "val1 = Reg (nextReg b) (pointee (typeOf slot))" by auto
  show "\<exists>slot. symtable_get (symtable b) var = Some slot
           \<and> (appended b [ILoad (nextReg b) slot] b'
              \<or> appended b [ILoad (nextReg b) slot,
                   ILoad (Suc (nextReg b)) (Reg (nextReg b) (pointee (typeOf slot)))] b')"
  proof (cases "isScalar t \<and> isPointerTy (typeOf val1)")
    case True
    with r have "CreateLoad val1 b1 = Inr (v, b')" by simp
    from Create_appended(1)[OF this] have "appended b1 [ILoad (nextReg b1) val1] b'" by simp
    with a1 have "appended b ([ILoad (nextReg b) slot] @ [ILoad (nextReg b1) val1]) b'"
      by (rule appended_trans)
    then show ?thesis using g v1 appended_facts(1)[OF a1] by auto
  next
    case False
    with r have "b' = b1" by (simp add: ret_Inr)
    with a1 g show ?thesis by blast
  qed
qed

definition ex_int33 :: "Expr TensorType" where
  "ex_int33 = TensorType SInt [[RangeIS 3], [RangeIS 3]] None False"

definition ex_int22 :: "Expr TensorType" where
  "ex_int22 = TensorType SInt [[RangeIS 2], [RangeIS 2]] None False"

definition ex_float33 :: "Expr TensorType" where
  "ex_float33 = TensorType SFloat [[RangeIS 3], [RangeIS 3]] None False"

definition ex_varA :: "Expr Var" where "ex_varA = Var ''A'' (Tensor ex_int33)"
definition ex_varB :: "Expr Var" where "ex_varB = Var ''B'' (Tensor ex_int33)"
definition ex_varC :: "Expr Var" where "ex_varC = Var ''C'' (Tensor ex_int22)"
definition ex_varD :: "Expr Var" where "ex_varD = Var ''D'' (Tensor ex_float33)"
definition ex_varG :: "Expr Var" where "ex_varG = Var ''G'' (Tensor ex_int33)"

definition ex_assign_backend :: backend where
  "ex_assign_backend = \<lparr>blocks = (\<lambda>k. []), numBlocks = 1, insertBlock = 0, nextReg = 0,
     symtable = [[ex_varA \<mapsto> Argument 0 (LPtr (LInt 32)), ex_varB \<mapsto> Argument 1 (LPtr (LInt 32)),
                  ex_varC \<mapsto> Argument 2 (LPtr (LInt 32)), ex_varD \<mapsto> Argument 3 (LPtr LDouble),
                  ex_varG \<mapsto> GlobalVar 0 (LPtr (LPtr (LInt 32)))]],
     buffers = [],
     storage = [ex_varA \<mapsto> DenseRowMajor, ex_varB \<mapsto> DenseRowMajor, ex_varC \<mapsto> DenseRowMajor,
                ex_varD \<mapsto> DenseRowMajor, ex_varG \<mapsto> DenseRowMajor],
     globals = [ex_varG], moduleFunctions = [], moduleGlobals = [(''G'', LPtr (LInt 32))],
     floatBytes = 8\<rparr>"

text \<open>The literal \<open>1.0\<close> as a double: \<open>0x3FF0000000000000\<close>, least significant byte first.\<close>

definition ex_one :: Expr where
  "ex_one = Literal (Tensor (TensorType SFloat [] None False)) [0, 0, 0, 0, 0, 0, 0xF0, 0x3F]"

definition ex_zero :: Expr where
  "ex_zero = Literal (Tensor (TensorType SInt [] None False)) [0, 0, 0, 0]"

lemmas ex_assign_defs = ex_int33_def ex_int22_def ex_float33_def ex_varA_def ex_varB_def ex_varC_def
  ex_varD_def ex_varG_def ex_assign_backend_def ex_one_def ex_zero_def

lemmas eval_defs = emitAssign_def emitComputeLen_def emitComputeLenDense_def emitComputeLenDom_def
  emitComputeLenIS_def order_def bind_def andThen_def iassert_def gets_def getSym_def getStorage_def
  symtable_contains_def ret_def fail_def CreateExtractValue_def CreateGEP_def CreateLoad_def
  CreateBin_def CreateStore_def emitValue_def emitInstr_def modify_def insertInstr_def llvmInt_def
  emitMemSet_def emitMemCpy_def getFloatVal0_is_zero_def

lemma ex_one_not_zero: "\<not> getFloatVal0_is_zero 8 [0, 0, 0, 0, 0, 0, 0xF0, 0x3F]"
  by (simp add: getFloatVal0_is_zero_def)

text \<open>
  Claim C3. The claim has a scalar assigned to a tensor succeed only for the literal
  zero. With 8-byte floats the code accepts more: the second disjunct of its test reads
  the first four bytes of the literal as an integer, and these are zero for the double
  1.0. The assignment of the literal 1.0 to a 3 by 3 tensor of doubles is lowered, with
  no error, to a zero-fill of the tensor's 72 bytes.
\<close>

theorem emitAssign_literal_one_zero_fills:
  "\<exists>b'. emitAssign ex_varD ex_one ex_assign_backend = Inr ((), b')
      \<and> blocks b' 0 = [IBin 0 BMul (ConstInt32 3) (ConstInt32 3),
                        IBin 1 BMul (Reg 0 (LInt 32)) (ConstInt32 8),
                        IMemSet (Argument 3 (LPtr LDouble)) (ConstInt8 0) (Reg 1 (LInt 32)) 8]"
  by (simp add: eval_defs ex_assign_defs)

text \<open>The zero-fill the spec names: the literal 0 into a 3 by 3 tensor of 4-byte integers.\<close>

lemma emitAssign_literal_zero_fills_36:
  "\<exists>b'. emitAssign ex_varA ex_zero ex_assign_backend = Inr ((), b')
      \<and> blocks b' 0 = [IBin 0 BMul (ConstInt32 3) (ConstInt32 3),
                        IBin 1 BMul (Reg 0 (LInt 32)) (ConstInt32 4),
                        IMemSet (Argument 0 (LPtr (LInt 32))) (ConstInt8 0) (Reg 1 (LInt 32)) 4]
      \<and> events (execInstrs (blocks b' 0) m)
          = events m @ [EMemSet (arguments m 0) (VByte 0) (VInt 36)]"
  by (simp add: eval_defs ex_assign_defs setReg_def logEvent_def binopVal_def)

definition ex_elem :: Expr where
  "ex_elem = VarExpr (Element (ElementType ''Point'' [(''x'', ex_float33)]))
               (Var ''p'' (Element (ElementType ''Point'' [(''x'', ex_float33)])))"

text \<open>The field write tests \<^verbatim>\<open>getFloatVal(0) == 0.0\<close> only, and refuses the literal 1.0.\<close>

lemma compile_FieldWrite_refuses_one:
  "compile_FieldWrite ex_elem ''x'' ex_one CopNone ex_assign_backend = Inl (NotSupportedYet [])"
  by (simp add: compile_FieldWrite_def ex_elem_def eval_defs ex_assign_defs)

text \<open>
  Claim C4 at an instance: a 2 by 2 tensor assigned to a 3 by 3 tensor is refused with
  the type mismatch; a 3 by 3 tensor of 4-byte integers assigned to another is a copy
  of 3 * 3 * 4 bytes.
\<close>

theorem emitAssign_tensor_to_tensor_witness:
  "type_of (VarExpr_make ex_varA) = Tensor ex_int33 \<and> type_of (VarExpr_make ex_varC) = Tensor ex_int22
   \<and> order ex_int33 \<noteq> 0 \<and> order ex_int22 \<noteq> 0
   \<and> emitAssign ex_varB (VarExpr_make ex_varC) ex_assign_backend
       = Inl (Internal ''variable and value types don't match'')
   \<and> (\<exists>b'. emitAssign ex_varB (VarExpr_make ex_varA) ex_assign_backend = Inr ((), b')
         \<and> blocks b' 0 = [IBin 0 BMul (ConstInt32 3) (ConstInt32 3),
                           IBin 1 BMul (Reg 0 (LInt 32)) (ConstInt32 4),
                           IMemCpy (Argument 1 (LPtr (LInt 32))) (Argument 0 (LPtr (LInt 32)))
                             (Reg 1 (LInt 32)) 4])"
proof -
  have tA: "type_of (VarExpr_make ex_varA) = Tensor ex_int33"
    and tC: "type_of (VarExpr_make ex_varC) = Tensor ex_int22"
    by (simp_all add: VarExpr_make_def ex_assign_defs)
  have o: "order ex_int33 \<noteq> 0" "order ex_int22 \<noteq> 0" by (simp_all add: order_def ex_assign_defs)
  have neC: "getType ex_varB \<noteq> type_of (VarExpr_make ex_varC)"
    by (simp add: VarExpr_make_def ex_assign_defs)
  have eqA: "getType ex_varB = type_of (VarExpr_make ex_varA)"
    by (simp add: VarExpr_make_def ex_assign_defs)
  have cC: "compile (VarExpr_make ex_varC) ex_assign_backend = Inr (Argument 2 (LPtr (LInt 32)), ex_assign_backend)"
    by (simp add: VarExpr_make_def eval_defs ex_assign_defs)
  have cA: "compile (VarExpr_make ex_varA) ex_assign_backend = Inr (Argument 0 (LPtr (LInt 32)), ex_assign_backend)"
    by (simp add: VarExpr_make_def eval_defs ex_assign_defs)
  have pre: "getType ex_varB = Tensor ex_int33
     \<and> symtable_get (symtable ex_assign_backend) ex_varB = Some (Argument 1 (LPtr (LInt 32)))
     \<and> isPointerTy (typeOf (Argument 1 (LPtr (LInt 32))))
     \<and> (if ex_varB \<in> set (globals ex_assign_backend) then CreateLoad (Argument 1 (LPtr (LInt 32)))
         else ret (Argument 1 (LPtr (LInt 32)))) ex_assign_backend
         = Inr (Argument 1 (LPtr (LInt 32)), ex_assign_backend)
     \<and> storage ex_assign_backend ex_varB = Some DenseRowMajor"
    by (simp add: ex_assign_defs ret_def)
  obtain len b3 where len: "emitComputeLen ex_int33 DenseRowMajor ex_assign_backend = Inr (len, b3)"
    and b3: "blocks b3 0 = [IBin 0 BMul (ConstInt32 3) (ConstInt32 3)]" "nextReg b3 = 1"
      "len = Reg 0 (LInt 32)"
    by (simp add: eval_defs ex_assign_defs)
  note inst = emitAssign_tensor_to_tensor[of _ _ ex_varB ex_assign_backend]
  from inst[OF tC o(2)] neC cC pre len
  have mism: "emitAssign ex_varB (VarExpr_make ex_varC) ex_assign_backend
       = Inl (Internal ''variable and value types don't match'')"
    by blast
  obtain b' where run: "emitAssign ex_varB (VarExpr_make ex_varA) ex_assign_backend = Inr ((), b')"
    by (simp add: VarExpr_make_def eval_defs ex_assign_defs)
  from inst[OF tA o(1)] eqA run obtain valuePtr b1 varPtr0 varPtr b2 ts len' b3' where
    c: "compile (VarExpr_make ex_varA) ex_assign_backend = Inr (valuePtr, b1)" and
    g: "symtable_get (symtable b1) ex_varB = Some varPtr0" and
    l: "(if ex_varB \<in> set (globals b1) then CreateLoad varPtr0 else ret varPtr0) b1 = Inr (varPtr, b2)" and
    s: "storage b2 ex_varB = Some ts" and
    len': "emitComputeLen ex_int33 ts b2 = Inr (len', b3')" and
    blk: "blocks b' (insertBlock ex_assign_backend) = blocks b3' (insertBlock ex_assign_backend)
           @ [IBin (nextReg b3') BMul len' (llvmInt (bytes (floatBytes ex_assign_backend) (componentType ex_int33))),
              IMemCpy varPtr valuePtr (Reg (nextReg b3') (typeOf len'))
                (bytes (floatBytes ex_assign_backend) (componentType ex_int33))]"
    by blast
  from c cA have 1: "valuePtr = Argument 0 (LPtr (LInt 32))" "b1 = ex_assign_backend" by simp_all
  have ngl: "ex_varB \<notin> set (globals ex_assign_backend)" by (simp add: ex_assign_defs)
  from g pre 1 have "varPtr0 = Argument 1 (LPtr (LInt 32))" by simp
  with l ngl 1 have 2: "varPtr = Argument 1 (LPtr (LInt 32))" "b2 = ex_assign_backend"
    by (simp_all add: ret_Inr)
  from s pre 2 have 3: "ts = DenseRowMajor" by simp
  from len' len 2 3 have 4: "len' = len" "b3' = b3" by simp_all
  have "blocks b' 0 = [IBin 0 BMul (ConstInt32 3) (ConstInt32 3),
                           IBin 1 BMul (Reg 0 (LInt 32)) (ConstInt32 4),
                           IMemCpy (Argument 1 (LPtr (LInt 32))) (Argument 0 (LPtr (LInt 32)))
                             (Reg 1 (LInt 32)) 4]"
    using blk unfolding 1 2 4 b3
    by (simp add: ex_assign_backend_def ex_int33_def llvmInt_def b3)
  with tA tC o mism run show ?thesis by blast
qed

text \<open>
  Claim C10 at an instance: assigning to the global \<open>G\<close> loads its slot first and
  writes through the loaded pointer; reading \<open>G\<close> loads its slot once.
\<close>

theorem emitAssign_global_dereferences_once_witness:
  "ex_varG \<in> set (globals ex_assign_backend)
   \<and> (\<exists>b' code wr. emitAssign ex_varG (VarExpr_make ex_varA) ex_assign_backend = Inr ((), b')
        \<and> blocks b' 0 = ILoad 0 (GlobalVar 0 (LPtr (LPtr (LInt 32)))) # code @ [wr]
        \<and> (wr = IStore (Argument 0 (LPtr (LInt 32))) (Reg 0 (LPtr (LInt 32)))
           \<or> (\<exists>sz al. wr = IMemSet (Reg 0 (LPtr (LInt 32))) (ConstInt8 0) sz al
                     \<or> wr = IMemCpy (Reg 0 (LPtr (LInt 32))) (Argument 0 (LPtr (LInt 32))) sz al)))
   \<and> (\<exists>v b'. compile (VarExpr_make ex_varG) ex_assign_backend = Inr (v, b')
        \<and> blocks b' 0 = [ILoad 0 (GlobalVar 0 (LPtr (LPtr (LInt 32))))])"
proof -
  have gl: "ex_varG \<in> set (globals ex_assign_backend)" by (simp add: ex_assign_defs)
  note inst = emitAssign_global_dereferences_once[OF gl]
  have cA: "compile (VarExpr_make ex_varA) ex_assign_backend = Inr (Argument 0 (LPtr (LInt 32)), ex_assign_backend)"
    by (simp add: VarExpr_make_def eval_defs ex_assign_defs)
  have sl: "symtable_get (symtable ex_assign_backend) ex_varG = Some (GlobalVar 0 (LPtr (LPtr (LInt 32))))"
    by (simp add: ex_assign_defs)
  obtain b' where run: "emitAssign ex_varG (VarExpr_make ex_varA) ex_assign_backend = Inr ((), b')"
    by (simp add: VarExpr_make_def eval_defs ex_assign_defs)
  from inst[THEN conjunct1, rule_format, OF run] obtain valuePtr b1 slot b2 code wr where
    c: "compile (VarExpr_make ex_varA) ex_assign_backend = Inr (valuePtr, b1)" and
    g: "symtable_get (symtable ex_assign_backend) ex_varG = Some slot" and
    a: "appended b1 [ILoad (nextReg b1) slot] b2" and
    blk: "blocks b' (insertBlock ex_assign_backend) = blocks b2 (insertBlock ex_assign_backend) @ code @ [wr]" and
    wr: "(code = [] \<and> wr = IStore valuePtr (Reg (nextReg b1) (pointee (typeOf slot))))
       \<or> (\<exists>varType ts len b3 lenCode sz al.
             getType ex_varG = Tensor varType \<and> storage ex_assign_backend ex_varG = Some ts
           \<and> emitComputeLen varType ts b2 = Inr (len, b3) \<and> appended b2 lenCode b3
           \<and> code = lenCode @ [IBin (nextReg b3) BMul len (llvmInt al)]
           \<and> (wr = IMemSet (Reg (nextReg b1) (pointee (typeOf slot))) (ConstInt8 0) sz al
              \<or> wr = IMemCpy (Reg (nextReg b1) (pointee (typeOf slot))) valuePtr sz al))"
    by blast
  from c cA have 1: "valuePtr = Argument 0 (LPtr (LInt 32))" "b1 = ex_assign_backend" by simp_all
  from g sl have 2: "slot = GlobalVar 0 (LPtr (LPtr (LInt 32)))" by simp
  have nb: "nextReg ex_assign_backend = 0" "insertBlock ex_assign_backend = 0"
    "blocks ex_assign_backend 0 = []" by (simp_all add: ex_assign_defs)
  from appended_facts(4)[OF a] have b2: "blocks b2 0 = [ILoad 0 (GlobalVar 0 (LPtr (LPtr (LInt 32))))]"
    by (simp add: 1 2 nb)
  have w1: "blocks b' 0 = ILoad 0 (GlobalVar 0 (LPtr (LPtr (LInt 32)))) # code @ [wr]"
    using blk by (simp add: nb b2)
  have w2: "wr = IStore (Argument 0 (LPtr (LInt 32))) (Reg 0 (LPtr (LInt 32)))
           \<or> (\<exists>sz al. wr = IMemSet (Reg 0 (LPtr (LInt 32))) (ConstInt8 0) sz al
                     \<or> wr = IMemCpy (Reg 0 (LPtr (LInt 32))) (Argument 0 (LPtr (LInt 32))) sz al)"
    using wr unfolding 1 2 by (auto simp: nb)
  obtain v bv where rd: "compile (VarExpr_make ex_varG) ex_assign_backend = Inr (v, bv)"
    and ln: "length (blocks bv 0) = 1"
    by (simp add: VarExpr_make_def eval_defs ex_assign_defs)
  have ns: "\<not> isScalar (getType ex_varG)" by (simp add: ex_assign_defs order_def)
  from inst[THEN conjunct2, rule_format, OF rd[unfolded VarExpr_make_def]] sl
  have "appended ex_assign_backend [ILoad 0 (GlobalVar 0 (LPtr (LPtr (LInt 32))))] bv
      \<or> appended ex_assign_backend [ILoad 0 (GlobalVar 0 (LPtr (LPtr (LInt 32)))),
           ILoad (Suc 0) (Reg 0 (pointee (typeOf (GlobalVar 0 (LPtr (LPtr (LInt 32)))))))] bv"
    by (auto simp: nb)
  with ln have "blocks bv 0 = [ILoad 0 (GlobalVar 0 (LPtr (LPtr (LInt 32))))]"
    by (auto dest!: appended_facts(4) simp: nb)
  with gl run w1 w2 rd show ?thesis by blast
qed

section \<open>For loops over a domain\<close>

text \<open>
  The part of \<open>compile_For\<close> between the bound and the body, and the part after the
  body, as emitters of their own; \<open>compile_For_split\<close> shows that \<open>compile_For\<close> is their
  sequence.
\<close>

definition forHeader :: "Expr Var \<Rightarrow> operand \<Rightarrow> (nat \<times> nat \<times> operand) emitter" where
  "forHeader var iNum =
     bind GetInsertBlock (\<lambda>entryBlock.
     bind BasicBlockCreate (\<lambda>loopBodyStart.
     bind BasicBlockCreate (\<lambda>loopEnd.
     bind (CreateCmp SLT (llvmInt 0) iNum) (\<lambda>firstCmp.
     andThen (CreateCondBr firstCmp loopBodyStart loopEnd)
    (andThen (SetInsertPoint loopBodyStart)
    (bind (CreatePHI (LInt 32)) (\<lambda>i.
     andThen (addIncoming i (ConstInt32 0) entryBlock)
    (andThen scope
    (andThen (insertSym var i)
      (ret (loopBodyStart, loopEnd, i)))))))))))"

definition forLatch :: "operand \<Rightarrow> nat \<Rightarrow> nat \<Rightarrow> operand \<Rightarrow> unit emitter" where
  "forLatch iNum loopBodyStart loopEnd i =
     andThen unscope
    (bind GetInsertBlock (\<lambda>loopBodyEnd.
     bind (CreateBin BAdd i (ConstInt32 1)) (\<lambda>i_nxt.
     andThen (addIncoming i i_nxt loopBodyEnd)
    (bind (CreateCmp SLT i_nxt iNum) (\<lambda>exitCond.
     andThen (CreateCondBr exitCond loopBodyStart loopEnd)
       (SetInsertPoint loopEnd))))))"

lemma bind_assoc: "bind (bind m f) g = bind m (\<lambda>x. bind (f x) g)"
  by (rule ext) (simp add: bind_def split: sum.splits)

lemma bind_ret: "bind (ret x) f = f x"
  by (rule ext) (simp add: bind_def ret_def)

lemma compile_For_sequence:
  "compile_For var domain bodyE =
     bind (case domainKind domain of
             IndexSetDomain \<Rightarrow> emitComputeLenIS (domainIndexSet domain)
           | Endpoints \<Rightarrow> fail (NotSupportedYet [])
           | Edges \<Rightarrow> fail (NotSupportedYet [])
           | NeighborsOf \<Rightarrow> fail (NotSupportedYet [])
           | Neighbors \<Rightarrow> fail (NotSupportedYet [])
           | Diagonal \<Rightarrow> fail (NotSupportedYet [])) (\<lambda>iNum.
     bind (forHeader var iNum) (\<lambda>h.
     andThen bodyE (forLatch iNum (fst h) (fst (snd h)) (snd (snd h)))))"
  by (simp add: compile_For_def forHeader_def forLatch_def andThen_def bind_assoc bind_ret)

lemma compile_For_split:
  assumes "compile_For var domain bodyE b = Inr ((), b')"
  obtains iNum b1 L E i pre post where
    "domainKind domain = IndexSetDomain"
    "emitComputeLenIS (domainIndexSet domain) b = Inr (iNum, b1)"
    "forHeader var iNum b1 = Inr ((L, E, i), pre)"
    "bodyE pre = Inr ((), post)"
    "forLatch iNum L E i post = Inr ((), b')"
proof -
  from assms[unfolded compile_For_sequence] obtain iNum b1 h pre post where
    c: "(case domainKind domain of
             IndexSetDomain \<Rightarrow> emitComputeLenIS (domainIndexSet domain)
           | Endpoints \<Rightarrow> fail (NotSupportedYet [])
           | Edges \<Rightarrow> fail (NotSupportedYet [])
           | NeighborsOf \<Rightarrow> fail (NotSupportedYet [])
           | Neighbors \<Rightarrow> fail (NotSupportedYet [])
           | Diagonal \<Rightarrow> fail (NotSupportedYet [])) b = Inr (iNum, b1)"
    and h: "forHeader var iNum b1 = Inr (h, pre)"
    and bd: "bodyE pre = Inr ((), post)"
    and l: "forLatch iNum (fst h) (fst (snd h)) (snd (snd h)) post = Inr ((), b')"
    by (subst (asm) bind_Inr, subst (asm) bind_Inr, subst (asm) andThen_Inr) auto
  from c have k: "domainKind domain = IndexSetDomain"
    by (cases "domainKind domain") (simp_all add: fail_Inr)
  with c have e: "emitComputeLenIS (domainIndexSet domain) b = Inr (iNum, b1)" by simp
  show ?thesis
    by (rule that[OF k e _ bd l]) (simp add: h)
qed

lemma plain_addIncomingI: "plain i \<Longrightarrow> addIncomingI r v blk i = i"
  by (cases i) simp_all

lemma plain_map_addIncomingI: "list_all plain code \<Longrightarrow> map (addIncomingI r v blk) code = code"
  by (induction code) (simp_all add: plain_addIncomingI)

lemma computes_plain: "computes i = Some r \<Longrightarrow> plain i \<and> defOf i = Some r"
  by (cases i) simp_all

lemma appended_plainCode: "appended b is b' \<Longrightarrow> plainCode (nextReg b) is"
proof -
  have "map computes is = map Some [k ..< k + length is] \<Longrightarrow> plainCode k is" for k
  proof (induction "is" arbitrary: k)
    case Nil
    show ?case by simp
  next
    case (Cons i rest)
    have u: "[k ..< k + length (i # rest)] = k # [Suc k ..< Suc k + length rest]"
      by (simp add: upt_rec)
    from Cons.prems have c: "computes i = Some k"
      and r: "map computes rest = map Some [Suc k ..< Suc k + length rest]"
      unfolding u by auto
    have "plainCode (Suc k) rest" by (rule Cons.IH[OF r])
    then have "plainCode k rest" by (auto simp: plainCode_def list_all_iff split: option.splits)
    with computes_plain[OF c] show ?case by simp
  qed
  then show "appended b is b' \<Longrightarrow> plainCode (nextReg b) is"
    by (simp add: appended_facts(10))
qed

text \<open>The state the body is lowered in.\<close>

lemma forHeader_Inr:
  assumes "forHeader var iNum b1 = Inr ((L, E, i), pre)" and wf: "insertBlock b1 < numBlocks b1"
  shows "L = numBlocks b1" "E = Suc (numBlocks b1)" "i = Reg (Suc (nextReg b1)) (LInt 32)"
    "blocks pre (insertBlock b1)
       = map (addIncomingI (Suc (nextReg b1)) (ConstInt32 0) (insertBlock b1)) (blocks b1 (insertBlock b1))
        @ [ICmp (nextReg b1) SLT (llvmInt 0) iNum,
           ICondBr (Reg (nextReg b1) (LInt 1)) (numBlocks b1) (Suc (numBlocks b1))]"
    "blocks pre (numBlocks b1) = [IPhi (Suc (nextReg b1)) [(ConstInt32 0, insertBlock b1)]]"
    "blocks pre (Suc (numBlocks b1)) = []"
    "insertBlock pre = numBlocks b1" "nextReg pre = nextReg b1 + 2" "numBlocks pre = numBlocks b1 + 2"
    "symtable pre = symtable_insert var (Reg (Suc (nextReg b1)) (LInt 32)) (Map.empty # symtable b1)"
    "globals pre = globals b1"
  using assms by (auto simp: forHeader_def builder_defs)

lemma forLatch_Inr:
  assumes "forLatch iNum L E (Reg ri (LInt 32)) post = Inr ((), b')"
  shows "blocks b' (insertBlock post)
       = map (addIncomingI ri (Reg (nextReg post) (LInt 32)) (insertBlock post))
           (blocks post (insertBlock post) @ [IBin (nextReg post) BAdd (Reg ri (LInt 32)) (ConstInt32 1)])
         @ [ICmp (Suc (nextReg post)) SLT (Reg (nextReg post) (LInt 32)) iNum,
            ICondBr (Reg (Suc (nextReg post)) (LInt 1)) L E]"
    "k \<noteq> insertBlock post \<Longrightarrow>
       blocks b' k = map (addIncomingI ri (Reg (nextReg post) (LInt 32)) (insertBlock post)) (blocks post k)"
    "insertBlock b' = E" "nextReg b' = nextReg post + 2" "numBlocks b' = numBlocks post"
    "symtable b' = tl (symtable post)"
  using assms by (auto simp: forLatch_def builder_defs)

lemma word_of_nat_sint:
  assumes "0 \<le> sint (N :: 32 word)"
  shows "word_of_nat (nat (sint N)) = N"
proof -
  have "(word_of_nat (nat (sint N)) :: 32 word) = word_of_int (int (nat (sint N)))" by simp
  also have "\<dots> = word_of_int (sint N)" using assms by simp
  finally show ?thesis by simp
qed

lemma sint_bound: "sint (N :: 32 word) < 2 ^ 31"
  using sint_lt[of N] by simp

text \<open>
  Running the code of a \<open>For\<close> loop whose body is plain code: the bound is computed and
  tested; if it is positive the body runs with the counter at 0, 1, ... up to the bound.
\<close>

lemma for_runs:
  assumes de: "drop len0 (P e) = boundCode @ [ICmp r0 SLT (llvmInt 0) iNum, ICondBr (Reg r0 (LInt 1)) L E]"
    and PL: "P L = loopBlock ri rn (ConstInt32 0) e L E code iNum"
    and eL: "e \<noteq> L"
    and pb: "list_all plain boundCode"
    and pc: "plainCode k0 code" and r0: "r0 < ri" and ri: "ri < k0" and rn: "k0 \<le> rn"
    and bd: "regBelow r0 iNum"
    and N: "evalOp (execInstrs boundCode m) iNum = VInt N"
  shows "\<exists>K. steps K P (e, len0, prev, m)
           = Some (E, 0, (if 0 < sint N then L else e),
                   foldl (\<lambda>m i. loopPass code ri rn N i m)
                     (setReg r0 (VBool (0 < sint N)) (execInstrs boundCode m)) [0 ..< nat (sint N)])"
proof -
  define m1 where "m1 = execInstrs boundCode m"
  define m2 where "m2 = setReg r0 (VBool (0 < sint N)) m1"
  define hd2 where "hd2 = boundCode @ [ICmp r0 SLT (llvmInt 0) iNum]"
  have d1: "drop len0 (P e) = hd2 @ [ICondBr (Reg r0 (LInt 1)) L E]" by (simp add: de hd2_def)
  have p1: "list_all plain hd2" using pb by (simp add: hd2_def)
  have e1: "execInstrs hd2 m = m2"
    by (simp add: hd2_def execInstrs_append m2_def m1_def[symmetric] N[folded m1_def] cmpVal_def llvmInt_def)
  have s1: "steps (length hd2) P (e, len0, prev, m) = Some (e, len0 + length hd2, prev, m2)"
    using steps_plain[where P = P and blk = e, OF d1 p1, of prev m] by (simp only: e1)
  have at: "len0 + length hd2 < length (P e)" "P e ! (len0 + length hd2) = ICondBr (Reg r0 (LInt 1)) L E"
  proof -
    have "drop (len0 + length hd2) (P e) = [ICondBr (Reg r0 (LInt 1)) L E]"
      using d1 by (metis add.commute append_eq_conv_conj drop_drop)
    then show "len0 + length hd2 < length (P e)" "P e ! (len0 + length hd2) = ICondBr (Reg r0 (LInt 1)) L E"
      by (metis drop_eq_Nil linorder_not_less list.distinct(1), metis nth_via_drop)
  qed
  have s2: "steps 1 P (e, len0 + length hd2, prev, m2) = Some (if 0 < sint N then L else e', 0, e, m2)"
    if "e' = E" for e'
    using at that by (simp add: step_def stepInstr_def m2_def setReg_def)
  have s12: "steps (length hd2 + 1) P (e, len0, prev, m) = Some (if 0 < sint N then L else E, 0, e, m2)"
    by (simp only: steps_add[of "length hd2"] s1 option.case s2[OF refl])
  show ?thesis
  proof (cases "0 < sint N")
    case False
    then have "[0 ..< nat (sint N)] = []" by simp
    with s12 False show ?thesis unfolding m2_def m1_def by (intro exI[of _ "length hd2 + 1"]) simp
  next
    case True
    define j where "j = nat (sint N) - 1"
    have n: "nat (sint N) = Suc j" using True by (simp add: j_def)
    have B: "evalOp m2 iNum = VInt N"
      using N bd by (simp add: m2_def m1_def evalOp_setReg_below)
    have bd': "regBelow ri iNum" using bd r0 by (auto intro: regBelow_mono)
    have inc: "(e = e \<and> evalOp m2 (ConstInt32 0) = VInt (word_of_nat 0)) \<or> (e = L \<and> regs m2 rn = VInt (word_of_nat 0))"
      by simp
    have "int (Suc j) < 2 ^ 31" using sint_bound[of N] n True by (metis int_nat_eq less_le_not_le linorder_le_cases)
    then have small: "Suc j < 2 ^ 31" by (metis of_nat_less_iff of_nat_numeral of_nat_power)
    have cont: "\<forall>i < j. sint (word_of_nat (Suc (0 + i)) :: 32 word) < sint N"
    proof (intro allI impI)
      fix i assume i: "i < j"
      then have "Suc i < 2 ^ 31" using small by simp
      then have "sint (word_of_nat (Suc i) :: 32 word) = int (Suc i)" by (rule sint_llvmInt)
      also have "\<dots> < int (Suc j)" using i by simp
      also have "\<dots> = sint N" using n True by linarith
      finally show "sint (word_of_nat (Suc (0 + i)) :: 32 word) < sint N" by simp
    qed
    have "(word_of_nat (Suc j) :: 32 word) = N"
      using word_of_nat_sint[of N] True n by simp
    then have stop: "\<not> sint (word_of_nat (Suc (0 + j)) :: 32 word) < sint N" by simp
    from loop_run[where P = P and L = L, OF PL eL pc ri rn bd' B inc cont stop]
    have s3: "steps (Suc j * (length code + 4)) P (L, 0, e, m2)
        = Some (E, 0, L, foldl (\<lambda>m i. loopPass code ri rn N i m) m2 [0 ..< 0 + Suc j])" .
    have "steps ((length hd2 + 1) + Suc j * (length code + 4)) P (e, len0, prev, m)
        = Some (E, 0, L, foldl (\<lambda>m i. loopPass code ri rn N i m) m2 [0 ..< 0 + Suc j])"
      using s12 True s3 by (simp only: steps_add[of "length hd2 + 1"] option.case if_True)
    with True show ?thesis unfolding m2_def m1_def n by (intro exI) simp
  qed
qed

lemma symtable_get_insert_scoped: "symtable_get (symtable_insert v x (Map.empty # ss)) v = Some x"
  by simp

lemma compile_For_success:
  assumes run: "compile_For var domain bodyE b = Inr ((), b')" and wf: "insertBlock b < numBlocks b"
  shows "\<exists>iNum b1 boundCode pre post.
           emitComputeLenIS (domainIndexSet domain) b = Inr (iNum, b1) \<and> appended b boundCode b1
         \<and> bodyE pre = Inr ((), post)
         \<and> symtable_get (symtable pre) var = Some (Reg (Suc (nextReg b1)) (LInt 32))
         \<and> globals pre = globals b \<and> nextReg pre = nextReg b1 + 2
         \<and> drop (length (blocks b (insertBlock b))) (blocks pre (insertBlock b))
              = boundCode @ [ICmp (nextReg b1) SLT (llvmInt 0) iNum,
                             ICondBr (Reg (nextReg b1) (LInt 1)) (numBlocks b) (Suc (numBlocks b))]
         \<and> blocks pre (numBlocks b) = [IPhi (Suc (nextReg b1)) [(ConstInt32 0, insertBlock b)]]
         \<and> insertBlock pre = numBlocks b
         \<and> drop (length (blocks post (insertBlock post))) (blocks b' (insertBlock post))
              = [IBin (nextReg post) BAdd (Reg (Suc (nextReg b1)) (LInt 32)) (ConstInt32 1),
                 ICmp (Suc (nextReg post)) SLT (Reg (nextReg post) (LInt 32)) iNum,
                 ICondBr (Reg (Suc (nextReg post)) (LInt 1)) (numBlocks b) (Suc (numBlocks b))]
         \<and> insertBlock b' = Suc (numBlocks b)
         \<and> (\<forall>code m prev N.
               blocks post = (blocks pre)(numBlocks b := blocks pre (numBlocks b) @ code)
             \<and> insertBlock post = numBlocks b \<and> nextReg pre \<le> nextReg post
             \<and> plainCode (nextReg pre) code
             \<and> evalOp (execInstrs boundCode m) iNum = VInt N
             \<longrightarrow> (\<exists>K. steps K (blocks b') (insertBlock b, length (blocks b (insertBlock b)), prev, m)
                    = Some (Suc (numBlocks b), 0, (if 0 < sint N then numBlocks b else insertBlock b),
                            foldl (\<lambda>m i. loopPass code (Suc (nextReg b1)) (nextReg post) N i m)
                              (setReg (nextReg b1) (VBool (0 < sint N)) (execInstrs boundCode m))
                              [0 ..< nat (sint N)])))"
proof -
  from compile_For_split[OF run] obtain iNum b1 L E i pre post where
    k: "domainKind domain = IndexSetDomain" and
    len: "emitComputeLenIS (domainIndexSet domain) b = Inr (iNum, b1)" and
    h: "forHeader var iNum b1 = Inr ((L, E, i), pre)" and
    bd: "bodyE pre = Inr ((), post)" and
    l: "forLatch iNum L E i post = Inr ((), b')"
    by blast
  from straightD[OF straight_emitComputeLenIS len] obtain boundCode where
    ap: "appended b boundCode b1" by blast
  note af = appended_facts[OF ap]
  have wf1: "insertBlock b1 < numBlocks b1" using wf by (simp add: af(3,9))
  note hf = forHeader_Inr[OF h wf1]
  have below: "regBelow (nextReg b1) iNum"
    using fresh_emitComputeLenIS len unfolding fresh_def by blast
  define e where "e = insertBlock b"
  define ri where "ri = Suc (nextReg b1)"
  have eL: "e \<noteq> numBlocks b" using wf by (simp add: e_def)
  have pb: "list_all plain boundCode" using appended_plainCode[OF ap] by (rule plainCode_plain)
  have i: "i = Reg ri (LInt 32)" and L: "L = numBlocks b" and E: "E = Suc (numBlocks b)"
    by (simp_all add: hf(1,2,3) af(9) ri_def)
  note lf = forLatch_Inr[OF l[unfolded i]]
  have pre_e: "drop (length (blocks b e)) (blocks pre e)
       = boundCode @ [ICmp (nextReg b1) SLT (llvmInt 0) iNum,
                      ICondBr (Reg (nextReg b1) (LInt 1)) (numBlocks b) (Suc (numBlocks b))]"
    using hf(4) af(4) by (simp add: af(3,9) e_def plain_map_addIncomingI[OF pb])
  have pre_L: "blocks pre (numBlocks b) = [IPhi ri [(ConstInt32 0, e)]]"
    using hf(5) by (simp add: af(3,9) e_def ri_def)
  have sym: "symtable_get (symtable pre) var = Some (Reg ri (LInt 32))"
    by (simp add: hf(10) ri_def)
  have latch: "drop (length (blocks post (insertBlock post))) (blocks b' (insertBlock post))
              = [IBin (nextReg post) BAdd (Reg ri (LInt 32)) (ConstInt32 1),
                 ICmp (Suc (nextReg post)) SLT (Reg (nextReg post) (LInt 32)) iNum,
                 ICondBr (Reg (Suc (nextReg post)) (LInt 1)) (numBlocks b) (Suc (numBlocks b))]"
    by (simp add: lf(1) L E)
  have sem: "\<exists>K. steps K (blocks b') (e, length (blocks b e), prev, m)
                    = Some (Suc (numBlocks b), 0, (if 0 < sint N then numBlocks b else e),
                            foldl (\<lambda>m i. loopPass code ri (nextReg post) N i m)
                              (setReg (nextReg b1) (VBool (0 < sint N)) (execInstrs boundCode m))
                              [0 ..< nat (sint N)])"
    if post: "blocks post = (blocks pre)(numBlocks b := blocks pre (numBlocks b) @ code)"
      and ip: "insertBlock post = numBlocks b" and nr: "nextReg pre \<le> nextReg post"
      and pc: "plainCode (nextReg pre) code"
      and N: "evalOp (execInstrs boundCode m) iNum = VInt N" for code m prev N
  proof -
    have pl: "list_all plain code" using pc by (rule plainCode_plain)
    have post_e: "blocks post e = blocks pre e" using eL by (simp add: post)
    have Pe: "blocks b' e = map (addIncomingI ri (Reg (nextReg post) (LInt 32)) (numBlocks b)) (blocks pre e)"
      using lf(2)[of e] eL by (simp add: ip post_e)
    have de: "drop (length (blocks b e)) (blocks b' e)
        = boundCode @ [ICmp (nextReg b1) SLT (llvmInt 0) iNum,
                       ICondBr (Reg (nextReg b1) (LInt 1)) (numBlocks b) (Suc (numBlocks b))]"
      unfolding Pe drop_map pre_e by (simp add: plain_map_addIncomingI[OF pb])
    have PL: "blocks b' (numBlocks b)
        = loopBlock ri (nextReg post) (ConstInt32 0) e (numBlocks b) (Suc (numBlocks b)) code iNum"
      using lf(1) by (simp add: ip post pre_L loopBlock_def plain_map_addIncomingI[OF pl] L E)
    have r: "nextReg b1 < ri" "ri < nextReg pre" by (simp_all add: ri_def hf(8))
    show ?thesis
      by (rule for_runs[where P = "blocks b'" and L = "numBlocks b", OF de PL eL pb pc r nr below N])
  qed
  show ?thesis
    using len ap bd sym hf(11) hf(8) pre_e pre_L hf(7) latch lf(3) sem
    unfolding e_def ri_def L E af(9) af(5) by (intro conjI exI) (assumption | simp)+
qed


definition ex_int :: "Expr Type" where
  "ex_int = Tensor (TensorType SInt [] None False)"

definition ex_i :: "Expr Var" where
  "ex_i = Var ''i'' ex_int"

definition ex_print_i :: Stmt where
  "ex_print_i = Print (VarExpr ex_int ex_i)"

definition ex_for :: Stmt where
  "ex_for = For ex_i (ForDomain IndexSetDomain (RangeIS 3)) ex_print_i"

definition ex_for_set :: Stmt where
  "ex_for_set = For ex_i (ForDomain IndexSetDomain (SetIS (VarExpr ex_V_type ex_V))) ex_print_i"

definition ex_for_edges :: Stmt where
  "ex_for_edges = For ex_i (ForDomain Edges (SetIS (VarExpr ex_E_type ex_E))) ex_print_i"

definition ex_printf :: "32 word \<Rightarrow> event" where
  "ex_printf w = ECall ''printf'' [VStr [CHR ''%'', CHR ''d'', newline], VInt w]"

text \<open>The body \<open>print i\<close>, lowered where \<open>i\<close> is bound to a register: one call.\<close>

lemma ex_print_i_code:
  assumes "compileStmt ex_print_i s = Inr ((), s')"
    and "symtable_get (symtable s) ex_i = Some (Reg r (LInt 32))" and "globals s = []"
  shows "blocks s' = (blocks s)(insertBlock s := blocks s (insertBlock s)
            @ [ICall (Some (nextReg s)) ''printf'' [GlobalString [CHR ''%'', CHR ''d'', newline], Reg r (LInt 32)]])"
    "insertBlock s' = insertBlock s" "nextReg s \<le> nextReg s'"
  using assms
  by (auto simp: ex_print_i_def ex_int_def compile_Print_def order_def builder_defs)

lemma ex_print_i_events:
  "events (foldl (\<lambda>m i. loopPass [ICall (Some c) ''printf'' [GlobalString f, Reg ri ty]] ri rn B i m) m ks)
     = events m @ map (\<lambda>i. ECall ''printf'' [VStr f, VInt (word_of_nat i)]) ks"
  by (induction ks arbitrary: m) (simp_all add: loopPass_def setReg_def logEvent_def Let_def)

lemma ex_print_i_succeeds:
  assumes "symtable_get (symtable s) ex_i = Some (Reg r (LInt 32))" and "globals s = []"
  shows "\<exists>s'. compileStmt ex_print_i s = Inr ((), s')"
  using assms
  by (simp add: ex_print_i_def ex_int_def compile_Print_def order_def builder_defs)

lemma forHeader_succeeds: "\<exists>h pre. forHeader var iNum b1 = Inr (h, pre)"
  by (simp add: forHeader_def builder_defs)

lemma forLatch_succeeds: "\<exists>b'. forLatch iNum L E (Reg ri ty) post = Inr ((), b')"
  by (simp add: forLatch_def builder_defs)

lemma ex_for_succeeds:
  assumes len: "emitComputeLenIS indexSet b = Inr (iNum, b1)" and g: "globals b1 = []"
    and wf: "insertBlock b1 < numBlocks b1"
  shows "\<exists>b'. compileStmt (For ex_i (ForDomain IndexSetDomain indexSet) ex_print_i) b = Inr ((), b')"
proof -
  from forHeader_succeeds obtain h pre where h: "forHeader ex_i iNum b1 = Inr (h, pre)" by blast
  obtain L E i where hh: "h = (L, E, i)" by (cases h) auto
  note hf = forHeader_Inr[OF h[unfolded hh] wf]
  have "symtable_get (symtable pre) ex_i = Some (Reg (Suc (nextReg b1)) (LInt 32))" "globals pre = []"
    by (simp_all add: hf g)
  from ex_print_i_succeeds[OF this] obtain post where p: "compileStmt ex_print_i pre = Inr ((), post)"
    by blast
  from forLatch_succeeds obtain b' where
    l: "forLatch iNum L E (Reg (Suc (nextReg b1)) (LInt 32)) post = Inr ((), b')" by blast
  have "compile_For ex_i (ForDomain IndexSetDomain indexSet) (compileStmt ex_print_i) b = Inr ((), b')"
    unfolding compile_For_sequence
    by (simp add: bind_def andThen_def len h hh p l[unfolded hf(3)[symmetric]])
  then show ?thesis by auto
qed


section \<open>Printing a vector\<close>

text \<open>
  The text \<^verbatim>\<open>printf\<close> of the C library writes, for the conversions the backend emits
  for integers: \<^verbatim>\<open>%d\<close> takes the next argument and writes it in decimal, every other
  character is copied.
\<close>

function digits :: "nat \<Rightarrow> string" where
  "digits n = (if n < 10 then [''0123456789'' ! n] else digits (n div 10) @ [''0123456789'' ! (n mod 10)])"
  by pat_completeness auto
termination by (relation "measure id") auto

declare digits.simps [simp del]

definition decimal :: "int \<Rightarrow> string" where
  "decimal i = (if i < 0 then CHR ''-'' # digits (nat (- i)) else digits (nat i))"

fun printf_text :: "string \<Rightarrow> rval list \<Rightarrow> string" where
  "printf_text [] args = []"
| "printf_text [c] args = [c]"
| "printf_text (c # d # rest) args =
     (if c = CHR ''%'' \<and> d = CHR ''d'' then
        (case args of
           VInt w # args' \<Rightarrow> decimal (sint w) @ printf_text rest args'
         | other \<Rightarrow> printf_text rest (tl args))
      else c # printf_text (d # rest) args)"

fun output_of :: "event \<Rightarrow> string" where
  "output_of (ECall name (VStr format # args)) = (if name = ''printf'' then printf_text format args else [])"
| "output_of other = []"

definition printed :: "event list \<Rightarrow> string" where
  "printed es = concat (map output_of es)"

fun isCall :: "instr \<Rightarrow> bool" where
  "isCall (ICall r name args) = True"
| "isCall other = False"

text \<open>The loads \<open>loadElements\<close> emits, and the registers that hold the elements.\<close>

fun loadCode :: "nat \<Rightarrow> operand \<Rightarrow> nat list \<Rightarrow> instr list" where
  "loadCode r result [] = []"
| "loadCode r result (k # ks) =
     IGEP r result (llvmInt k) # ILoad (Suc r) (Reg r (typeOf result)) # loadCode (Suc (Suc r)) result ks"

fun loadRegs :: "nat \<Rightarrow> ltype \<Rightarrow> nat list \<Rightarrow> operand list" where
  "loadRegs r ty [] = []"
| "loadRegs r ty (k # ks) = Reg (Suc r) ty # loadRegs (Suc (Suc r)) ty ks"

lemma loadElements_appended:
  "\<exists>b'. loadElements result ks b = Inr (loadRegs (nextReg b) (pointee (typeOf result)) ks, b')
       \<and> appended b (loadCode (nextReg b) result ks) b'"
proof (induction ks arbitrary: b)
  case Nil
  show ?case by (simp add: ret_def appended_refl)
next
  case (Cons k ks)
  obtain b1 where g: "CreateGEP result (llvmInt k) b = Inr (Reg (nextReg b) (typeOf result), b1)"
    by (simp add: CreateGEP_def emitValue_def)
  obtain b2 where l: "CreateLoad (Reg (nextReg b) (typeOf result)) b1 = Inr (Reg (nextReg b1) (pointee (typeOf result)), b2)"
    by (simp add: CreateLoad_def emitValue_def)
  note a1 = Create_appended(3)[OF g, THEN conjunct1]
  note a2 = Create_appended(1)[OF l, THEN conjunct1]
  have n1: "nextReg b1 = Suc (nextReg b)" using appended_facts(1)[OF a1] by simp
  have n2: "nextReg b2 = Suc (Suc (nextReg b))" using appended_facts(1)[OF a2] n1 by simp
  from Cons[of b2] obtain b' where
    r: "loadElements result ks b2 = Inr (loadRegs (nextReg b2) (pointee (typeOf result)) ks, b')"
    and a3: "appended b2 (loadCode (nextReg b2) result ks) b'" by blast
  have "appended b ([IGEP (nextReg b) result (llvmInt k)] @ [ILoad (nextReg b1) (Reg (nextReg b) (typeOf result))]
          @ loadCode (nextReg b2) result ks) b'"
    by (intro appended_trans[OF a1] appended_trans[OF a2] a3)
  then have "appended b (loadCode (nextReg b) result (k # ks)) b'" by (simp add: n1 n2)
  moreover have "loadElements result (k # ks) b
      = Inr (loadRegs (nextReg b) (pointee (typeOf result)) (k # ks), b')"
    by (simp add: loadFromArray_def bind_def g l r n1 n2 ret_def)
  ultimately show ?case by blast
qed

lemma loadCode_exec:
  assumes "evalOp m result = VPtr a" and "regBelow r result" and "\<forall>k \<in> set ks. k < 2 ^ 31"
  shows "map (evalOp (execInstrs (loadCode r result ks) m)) (loadRegs r ty ks) = map (\<lambda>k. memory m (a + int k)) ks
       \<and> events (execInstrs (loadCode r result ks) m) = events m @ map (\<lambda>k. ELoad (a + int k)) ks
       \<and> memory (execInstrs (loadCode r result ks) m) = memory m
       \<and> (\<forall>v. regBelow r v \<longrightarrow> evalOp (execInstrs (loadCode r result ks) m) v = evalOp m v)"
  using assms
proof (induction ks arbitrary: r m)
  case Nil
  show ?case by simp
next
  case (Cons k ks)
  define m1 where "m1 = exec (ILoad (Suc r) (Reg r (typeOf result))) (exec (IGEP r result (llvmInt k)) m)"
  have k: "sint (word_of_nat k :: 32 word) = int k" using Cons.prems(3) by (simp add: sint_llvmInt)
  have m1: "m1 = (m\<lparr>regs := (regs m)(r := VPtr (a + int k), Suc r := memory m (a + int k)),
               events := events m @ [ELoad (a + int k)]\<rparr>)"
    by (simp add: m1_def setReg_def logEvent_def gepVal_def Cons.prems(1) llvmInt_def k)
  have fr: "regBelow r v \<Longrightarrow> evalOp m1 v = evalOp m v" for v
    by (cases v) (auto simp: m1)
  have r1: "evalOp m1 result = VPtr a" using fr[OF Cons.prems(2)] Cons.prems(1) by simp
  have r2: "regBelow (Suc (Suc r)) result" using Cons.prems(2) by (rule regBelow_mono) simp
  have r3: "\<forall>k \<in> set ks. k < 2 ^ 31" using Cons.prems(3) by simp
  note IH = Cons.IH[OF r1 r2 r3]
  have e: "execInstrs (loadCode r result (k # ks)) m = execInstrs (loadCode (Suc (Suc r)) result ks) m1"
    by (simp add: m1_def)
  have hd: "evalOp (execInstrs (loadCode (Suc (Suc r)) result ks) m1) (Reg (Suc r) ty) = memory m (a + int k)"
    using IH[THEN conjunct2, THEN conjunct2, THEN conjunct2, rule_format, of "Reg (Suc r) ty"]
    by (simp add: m1)
  have mem: "memory m1 = memory m" by (simp add: m1)
  have ev: "events m1 = events m @ [ELoad (a + int k)]" by (simp add: m1)
  have below: "regBelow r v \<Longrightarrow> evalOp (execInstrs (loadCode (Suc (Suc r)) result ks) m1) v = evalOp m v" for v
    using IH[THEN conjunct2, THEN conjunct2, THEN conjunct2, rule_format, of v] fr[of v]
      regBelow_mono[of r v "Suc (Suc r)"] by simp
  show ?case
    unfolding e using IH hd below by (simp add: mem ev)
qed

lemma printf_text_percent_d [simp]:
  "printf_text (CHR ''%'' # CHR ''d'' # rest) (VInt w # args) = decimal (sint w) @ printf_text rest args"
  by simp

lemma printf_text_copy: "c \<noteq> CHR ''%'' \<Longrightarrow> printf_text (c # rest) args = c # printf_text rest args"
  by (cases rest) auto

lemma printf_text_replicate:
  assumes "c \<noteq> CHR ''%''"
  shows "printf_text (concat (replicate (length xs) (''%d'' @ [c])) @ rest) (map VInt xs @ args)
       = concat (map (\<lambda>x. decimal (sint x) @ [c]) xs) @ printf_text rest args"
  using assms by (induction xs) (simp_all add: printf_text_copy)

lemma butlast_concat_replicate:
  "0 < n \<Longrightarrow> butlast (concat (replicate n (s @ [c]))) = concat (replicate (n - 1) (s @ [c])) @ s"
proof -
  assume "0 < n"
  then have "replicate n (s @ [c]) = replicate (n - 1) (s @ [c]) @ [s @ [c]]"
    by (metis Suc_pred' replicate_Suc replicate_append_same)
  then show ?thesis by (simp add: butlast_append)
qed

lemma vector_format_text:
  assumes "xs \<noteq> []" and "c \<noteq> CHR ''%''"
  shows "printf_text (butlast (concat (replicate (length xs) (''%d'' @ [c]))) @ [newline]) (map VInt xs)
       = concat (map (\<lambda>x. decimal (sint x) @ [c]) (butlast xs)) @ decimal (sint (last xs)) @ [newline]"
proof -
  from assms(1) have xs: "xs = butlast xs @ [last xs]" by simp
  have len: "length xs - 1 = length (butlast xs)" by simp
  have "printf_text (butlast (concat (replicate (length xs) (''%d'' @ [c]))) @ [newline]) (map VInt xs)
      = printf_text (concat (replicate (length (butlast xs)) (''%d'' @ [c])) @ (''%d'' @ [newline]))
          (map VInt (butlast xs) @ [VInt (last xs)])"
  proof -
    have "map VInt xs = map VInt (butlast xs) @ [VInt (last xs)]"
      using assms(1) by (metis (no_types) list.simps(8,9) map_append xs)
    then show ?thesis
      using assms(1) butlast_concat_replicate[of "length xs" "''%d''" c] by simp
  qed
  also have "\<dots> = concat (map (\<lambda>x. decimal (sint x) @ [c]) (butlast xs)) @ printf_text (''%d'' @ [newline]) [VInt (last xs)]"
    by (rule printf_text_replicate[OF assms(2)])
  finally show ?thesis by (simp add: newline_def)
qed

text \<open>
  The text the claim gives for a vector: the elements in decimal, separated by a space
  (row vector) or a newline (column vector), and a newline at the end.
\<close>

definition spec_vector_text :: "bool \<Rightarrow> 32 word list \<Rightarrow> string" where
  "spec_vector_text column xs =
     concat (map (\<lambda>x. decimal (sint x) @ (if column then [newline] else '' '')) (butlast xs))
       @ decimal (sint (last xs)) @ [newline]"

lemma castFloatArgs_ints:
  "\<forall>x \<in> set args. typeOf x \<noteq> LFloat \<Longrightarrow> castFloatArgs args b = Inr (args, b)"
  by (induction args) (simp_all add: ret_def bind_def)

lemma loadRegs_type: "x \<in> set (loadRegs r ty ks) \<Longrightarrow> typeOf x = ty"
  by (induction r ty ks rule: loadRegs.induct) auto

lemma loadCode_no_call: "filter isCall (loadCode r result ks) = []"
  by (induction r result ks rule: loadCode.induct) auto

lemma printed_append: "printed (es @ fs) = printed es @ printed fs"
  by (simp add: printed_def)

lemma printed_loads: "printed (map (\<lambda>k. ELoad (f k)) ks) = []"
  by (induction ks) (simp_all add: printed_def)

lemma emitPrintf_ints:
  assumes "\<forall>x \<in> set args. typeOf x \<noteq> LFloat"
  shows "\<exists>b'. emitPrintf format args b = Inr ((), b')
     \<and> blocks b' (insertBlock b) = blocks b (insertBlock b) @ [ICall (Some (nextReg b)) ''printf'' (GlobalString format # args)]"
  by (simp add: emitPrintf_def andThen_def bind_def getOrInsertFunction_def modify_def
      castFloatArgs_ints[OF assms] CreateCall_def emitValue_def insertInstr_def ret_def)

lemma printVector_code:
  assumes st: "staticDims t" and rt: "typeOf result = LPtr (LInt 32)" and n: "0 < tensorSize t"
  shows "\<exists>b'. printVector t ''%d'' result b1 = Inr ((), b')
     \<and> blocks b' (insertBlock b1) = blocks b1 (insertBlock b1)
          @ loadCode (nextReg b1) result [0 ..< tensorSize t]
          @ [ICall (Some (nextReg b1 + 2 * tensorSize t)) ''printf''
              (GlobalString (butlast (concat (replicate (tensorSize t)
                  (''%d'' @ (if isColumnVector t then [newline] else '' '')))) @ [newline])
               # loadRegs (nextReg b1) (LInt 32) [0 ..< tensorSize t])]"
proof -
  define n where "n = tensorSize t"
  define fmt where "fmt = butlast (concat (replicate n (''%d'' @ (if isColumnVector t then [newline] else '' '')))) @ [newline]"
  from loadElements_appended[of result "[0 ..< n]" b1] obtain b2 where
    le: "loadElements result [0 ..< n] b1 = Inr (loadRegs (nextReg b1) (LInt 32) [0 ..< n], b2)"
    and ap: "appended b1 (loadCode (nextReg b1) result [0 ..< n]) b2"
    by (auto simp: rt)
  have len: "length (loadCode r result ks) = 2 * length ks" for r ks
    by (induction r result ks rule: loadCode.induct) auto
  have ints: "\<forall>x \<in> set (loadRegs (nextReg b1) (LInt 32) [0 ..< n]). typeOf x \<noteq> LFloat"
    by (auto dest: loadRegs_type)
  from emitPrintf_ints[OF ints, of fmt b2] obtain b' where
    pr: "emitPrintf fmt (loadRegs (nextReg b1) (LInt 32) [0 ..< n]) b2 = Inr ((), b')"
    and bl: "blocks b' (insertBlock b2) = blocks b2 (insertBlock b2)
        @ [ICall (Some (nextReg b2)) ''printf'' (GlobalString fmt # loadRegs (nextReg b1) (LInt 32) [0 ..< n])]"
    by blast
  have ne: "concat (replicate n (''%d'' @ (if isColumnVector t then [newline] else '' ''))) \<noteq> []"
    using n by (cases n) (auto simp: n_def)
  have run: "printVector t ''%d'' result b1 = Inr ((), b')"
    unfolding printVector_def Let_def sizeOf_def
    using st le pr ne by (simp add: bind_def ret_def setBack_def n_def fmt_def)
  have "blocks b' (insertBlock b1) = blocks b1 (insertBlock b1) @ loadCode (nextReg b1) result [0 ..< n]
      @ [ICall (Some (nextReg b1 + 2 * n)) ''printf'' (GlobalString fmt # loadRegs (nextReg b1) (LInt 32) [0 ..< n])]"
    using bl appended_facts(1,3,4)[OF ap] by (simp add: len)
  with run show ?thesis unfolding n_def fmt_def by blast
qed

lemma isRange_not_set: "isRange i \<Longrightarrow> \<not> isSetIS i"
  by (cases i) auto

lemma staticDims_no_set: "staticDims t \<Longrightarrow> \<not> list_ex (list_ex isSetIS) (getDimensions t)"
  by (auto simp: staticDims_def list_all_iff list_ex_iff dest: isRange_not_set)

text \<open>
  Printing a vector of integers whose dimension is static, lowered to a pointer to
  32-bit integers. If the vector is empty the lowering stops: the source takes
  \<^verbatim>\<open>back()\<close> of the empty format. Otherwise the lowering succeeds and appends
  straight-line code with exactly one call, a \<^verbatim>\<open>printf\<close>; run on a machine where the
  pointer addresses the elements \<open>xs\<close>, the code prints the elements in decimal,
  separated by a space for a row vector and by a newline for a column vector, with a
  newline at the end.
\<close>

lemma printVector_of_integers:
  assumes ty: "type_of expr = Tensor t" and o1: "order t = 1" and int: "componentType t = SInt"
    and st: "staticDims t"
    and wf: "symtableWf b" and c: "compile expr b = Inr (result, b1)"
    and rt: "typeOf result = LPtr (LInt 32)"
    and n: "tensorSize t = length xs" and small: "length xs < 2 ^ 31"
    and ptr: "evalOp m result = VPtr a"
    and mem: "\<forall>k < length xs. memory m (a + int k) = VInt (xs ! k)"
  shows "(xs = [] \<longrightarrow> compile_Print expr b = Inl (UndefinedBehaviour ''back() of an empty string''))
       \<and> (xs \<noteq> [] \<longrightarrow>
            (\<exists>b' code r format args. compile_Print expr b = Inr ((), b')
               \<and> blocks b' (insertBlock b1) = blocks b1 (insertBlock b1) @ code
               \<and> filter isCall code = [ICall r ''printf'' (GlobalString format # args)]
               \<and> printed (events (execInstrs code m))
                    = printed (events m) @ spec_vector_text (isColumnVector t) xs))"
proof (intro conjI impI)
  note below = compile_bound[OF wf c]
  have disp: "compile_Print expr b = printVector t ''%d'' result b1"
    unfolding compile_Print_def using c ty o1 int staticDims_no_set[OF st]
    by (simp add: bind_def Let_def)
  {
    assume "xs = []"
    then show "compile_Print expr b = Inl (UndefinedBehaviour ''back() of an empty string'')"
      unfolding disp printVector_def Let_def sizeOf_def using st n
      by (simp add: bind_def ret_def setBack_def fail_def)
  }
  assume ne: "xs \<noteq> []"
  define delim where "delim = (if isColumnVector t then newline else CHR '' '')"
  define format where "format = butlast (concat (replicate (length xs) (''%d'' @ [delim]))) @ [newline]"
  define code where "code = loadCode (nextReg b1) result [0 ..< length xs]"
  define args where "args = loadRegs (nextReg b1) (LInt 32) [0 ..< length xs]"
  define call where "call = ICall (Some (nextReg b1 + 2 * length xs)) ''printf'' (GlobalString format # args)"
  have d: "(if isColumnVector t then [newline] else '' '') = [delim]" by (simp add: delim_def)
  from printVector_code[OF st rt, of b1] ne n obtain b' where
    run: "printVector t ''%d'' result b1 = Inr ((), b')"
    and bl: "blocks b' (insertBlock b1) = blocks b1 (insertBlock b1) @ code @ [call]"
    unfolding d code_def args_def call_def format_def by auto
  have calls: "filter isCall (code @ [call]) = [call]"
    by (simp add: code_def loadCode_no_call call_def)
  define m' where "m' = execInstrs code m"
  have inrange: "\<forall>k \<in> set [0 ..< length xs]. k < 2 ^ 31" using small by auto
  from loadCode_exec[OF ptr below inrange, of "LInt 32"]
  have vals: "map (evalOp m') args = map (\<lambda>k. memory m (a + int k)) [0 ..< length xs]"
    and ev: "events m' = events m @ map (\<lambda>k. ELoad (a + int k)) [0 ..< length xs]"
    unfolding m'_def code_def args_def by blast+
  have "map (\<lambda>k. memory m (a + int k)) [0 ..< length xs] = map (\<lambda>k. VInt (xs ! k)) [0 ..< length xs]"
    using mem by simp
  also have "\<dots> = map VInt xs" by (simp add: map_nth flip: map_map[unfolded comp_def])
  finally have vals': "map (evalOp m') args = map VInt xs" using vals by simp
  have "events (execInstrs (code @ [call]) m)
      = events m @ map (\<lambda>k. ELoad (a + int k)) [0 ..< length xs] @ [ECall ''printf'' (VStr format # map VInt xs)]"
    by (simp add: execInstrs_append call_def setReg_def logEvent_def Let_def ev vals' flip: m'_def)
  then have "printed (events (execInstrs (code @ [call]) m)) = printed (events m) @ printf_text format (map VInt xs)"
    by (simp add: printed_append printed_loads) (simp add: printed_def)
  moreover have "delim \<noteq> CHR ''%''" by (simp add: delim_def newline_def)
  then have "printf_text format (map VInt xs) = spec_vector_text (isColumnVector t) xs"
    unfolding format_def spec_vector_text_def d by (rule vector_format_text[OF ne])
  ultimately show "\<exists>b' code r format args. compile_Print expr b = Inr ((), b')
               \<and> blocks b' (insertBlock b1) = blocks b1 (insertBlock b1) @ code
               \<and> filter isCall code = [ICall r ''printf'' (GlobalString format # args)]
               \<and> printed (events (execInstrs code m))
                    = printed (events m) @ spec_vector_text (isColumnVector t) xs"
    using run bl calls unfolding disp call_def by metis
qed

definition ex_row_type :: "Expr TensorType" where
  "ex_row_type = TensorType SInt [[RangeIS 3]] None False"

definition ex_column_type :: "Expr TensorType" where
  "ex_column_type = TensorType SInt [[RangeIS 3]] None True"

definition ex_empty_type :: "Expr TensorType" where
  "ex_empty_type = TensorType SInt [[RangeIS 0]] None False"

definition ex_vec :: "Expr TensorType \<Rightarrow> Expr" where
  "ex_vec t = VarExpr (Tensor t) (Var ''v'' (Tensor t))"

definition ex_print_backend :: "Expr TensorType \<Rightarrow> backend" where
  "ex_print_backend t = \<lparr>blocks = (\<lambda>k. []), numBlocks = 1, insertBlock = 0, nextReg = 0,
     symtable = [[Var ''v'' (Tensor t) \<mapsto> Argument 0 (LPtr (LInt 32))]],
     buffers = [], storage = Map.empty, globals = [], moduleFunctions = [], moduleGlobals = [],
     floatBytes = 8\<rparr>"

definition ex_print_machine :: machine where
  "ex_print_machine = \<lparr>regs = (\<lambda>r. VUndef),
     memory = (\<lambda>a. if 100 \<le> a \<and> a < 103 then VInt ([1, 2, 3] ! nat (a - 100)) else VUndef),
     arguments = (\<lambda>i. VPtr 100), globalAddr = (\<lambda>n. 0), dataAddr = (\<lambda>d. 0), nextAddr = 1000, events = []\<rparr>"

lemma ex_vec_compiles:
  "0 < order t \<Longrightarrow> compile (ex_vec t) (ex_print_backend t) = Inr (Argument 0 (LPtr (LInt 32)), ex_print_backend t)"
  by (cases t) (simp add: ex_vec_def ex_print_backend_def builder_defs)

lemma ex_print_wf: "symtableWf (ex_print_backend t)"
  by (simp add: symtableWf_def ex_print_backend_def)

lemma ex_print_memory: "\<forall>k < length [1, 2, 3 :: 32 word]. memory ex_print_machine (100 + int k) = VInt ([1, 2, 3] ! k)"
  by (simp add: ex_print_machine_def)

lemma ex_texts:
  "spec_vector_text False [1, 2, 3] = ''1 2 3'' @ [newline]"
  "spec_vector_text True [1, 2, 3] = [CHR ''1'', newline, CHR ''2'', newline, CHR ''3'', newline]"
  by (simp_all add: spec_vector_text_def decimal_def digits.simps)

lemma printVector_of_integers_example:
  "(\<exists>b' code r format args. compile_Print (ex_vec ex_row_type) (ex_print_backend ex_row_type) = Inr ((), b')
       \<and> blocks b' 0 = code \<and> filter isCall code = [ICall r ''printf'' (GlobalString format # args)]
       \<and> printed (events (execInstrs code ex_print_machine)) = ''1 2 3'' @ [newline])
   \<and> (\<exists>b' code r format args. compile_Print (ex_vec ex_column_type) (ex_print_backend ex_column_type) = Inr ((), b')
       \<and> blocks b' 0 = code \<and> filter isCall code = [ICall r ''printf'' (GlobalString format # args)]
       \<and> printed (events (execInstrs code ex_print_machine))
            = [CHR ''1'', newline, CHR ''2'', newline, CHR ''3'', newline])
   \<and> compile_Print (ex_vec ex_empty_type) (ex_print_backend ex_empty_type)
        = Inl (UndefinedBehaviour ''back() of an empty string'')"
proof -
  have ptr: "evalOp ex_print_machine (Argument 0 (LPtr (LInt 32))) = VPtr 100"
    by (simp add: ex_print_machine_def)
  have ev: "events ex_print_machine = []" by (simp add: ex_print_machine_def)
  have bl: "blocks (ex_print_backend t) k = []" "insertBlock (ex_print_backend t) = 0" for t k
    by (simp_all add: ex_print_backend_def)
  have row: "type_of (ex_vec ex_row_type) = Tensor ex_row_type" "order ex_row_type = 1"
    "componentType ex_row_type = SInt" "staticDims ex_row_type"
    "tensorSize ex_row_type = length [1, 2, 3 :: 32 word]" "\<not> isColumnVector ex_row_type"
    by (simp_all add: ex_vec_def ex_row_type_def order_def staticDims_def tensorSize_def getSizeDom_def)
  have col: "type_of (ex_vec ex_column_type) = Tensor ex_column_type" "order ex_column_type = 1"
    "componentType ex_column_type = SInt" "staticDims ex_column_type"
    "tensorSize ex_column_type = length [1, 2, 3 :: 32 word]" "isColumnVector ex_column_type"
    by (simp_all add: ex_vec_def ex_column_type_def order_def staticDims_def tensorSize_def getSizeDom_def)
  have emp: "type_of (ex_vec ex_empty_type) = Tensor ex_empty_type" "order ex_empty_type = 1"
    "componentType ex_empty_type = SInt" "staticDims ex_empty_type"
    "tensorSize ex_empty_type = length ([] :: 32 word list)"
    by (simp_all add: ex_vec_def ex_empty_type_def order_def staticDims_def tensorSize_def getSizeDom_def)
  have small: "length [1, 2, 3 :: 32 word] < 2 ^ 31" "length ([] :: 32 word list) < 2 ^ 31" by simp_all
  have pos: "0 < order ex_row_type" "0 < order ex_column_type" "0 < order ex_empty_type"
    using row(2) col(2) emp(2) by simp_all
  note r = printVector_of_integers[OF row(1-4) ex_print_wf ex_vec_compiles[OF pos(1)] _ row(5) small(1) ptr ex_print_memory,
      THEN conjunct2]
  note c = printVector_of_integers[OF col(1-4) ex_print_wf ex_vec_compiles[OF pos(2)] _ col(5) small(1) ptr ex_print_memory,
      THEN conjunct2]
  note e = printVector_of_integers[OF emp(1-4) ex_print_wf ex_vec_compiles[OF pos(3)] _ emp(5) small(2) ptr,
      THEN conjunct1]
  have R: "\<exists>b' code r format args. compile_Print (ex_vec ex_row_type) (ex_print_backend ex_row_type) = Inr ((), b')
       \<and> blocks b' 0 = code \<and> filter isCall code = [ICall r ''printf'' (GlobalString format # args)]
       \<and> printed (events (execInstrs code ex_print_machine)) = ''1 2 3'' @ [newline]"
    using r by (simp add: bl ev row(6) ex_texts printed_def)
  have C: "\<exists>b' code r format args. compile_Print (ex_vec ex_column_type) (ex_print_backend ex_column_type) = Inr ((), b')
       \<and> blocks b' 0 = code \<and> filter isCall code = [ICall r ''printf'' (GlobalString format # args)]
       \<and> printed (events (execInstrs code ex_print_machine))
            = [CHR ''1'', newline, CHR ''2'', newline, CHR ''3'', newline]"
    using c by (simp add: bl ev col(6) ex_texts printed_def)
  have E: "compile_Print (ex_vec ex_empty_type) (ex_print_backend ex_empty_type)
        = Inl (UndefinedBehaviour ''back() of an empty string'')"
    using e by simp
  from R C E show ?thesis by blast
qed

text \<open>
  Claim C8. The claim has \<open>Print\<close> emit a single format string for every vector of
  integers with static dimensions, and the texts it gives for the vector 1, 2, 3 are the
  ones the emitted code prints (\<open>printVector_of_integers_example\<close>). The vector with the
  dimension \<open>Range 0\<close> is such a vector and has no element: the loop that builds the format
  does not run, and \<^verbatim>\<open>format.back() = '\n'\<close> is applied to the empty string, which C++
  leaves undefined. No format string is emitted for it.
\<close>

theorem compile_Print_empty_vector_undefined:
  "type_of (ex_vec ex_empty_type) = Tensor ex_empty_type
   \<and> order ex_empty_type = 1 \<and> componentType ex_empty_type = SInt \<and> staticDims ex_empty_type
   \<and> tensorSize ex_empty_type = 0
   \<and> compile (ex_vec ex_empty_type) (ex_print_backend ex_empty_type)
        = Inr (Argument 0 (LPtr (LInt 32)), ex_print_backend ex_empty_type)
   \<and> compile_Print (ex_vec ex_empty_type) (ex_print_backend ex_empty_type)
        = Inl (UndefinedBehaviour ''back() of an empty string'')"
  by (simp add: ex_vec_def ex_empty_type_def ex_print_backend_def order_def staticDims_def
      tensorSize_def getSizeDom_def compile_Print_def printVector_def sizeOf_def setBack_def
      builder_defs)

end
